theory Spec2Isabelle
  imports Complex_Main
begin

section \<open>Galaxy generation: sub-population counts and write footprint\<close>

text \<open>
  \<^verbatim>\<open>createGalaxySystem\<close> (main.js) splits \<^verbatim>\<open>config.particleCount\<close> into five
  sub-populations and lets five generators fill the attribute arrays one after the other.
  The particle count is an integer (the arrays are allocated with
  \<^verbatim>\<open>new Float32Array(totalParticles * 3)\<close>), so it is an \<open>int\<close> here; the
  products \<^verbatim>\<open>totalParticles * 0.1\<close> are taken in exact arithmetic.
\<close>

definition coreStarCount :: "int \<Rightarrow> int" where
  "coreStarCount totalParticles = \<lfloor>of_int totalParticles * (0.1 :: rat)\<rfloor>"

definition armStarCount :: "int \<Rightarrow> int" where
  "armStarCount totalParticles = \<lfloor>of_int totalParticles * (0.5 :: rat)\<rfloor>"

definition haloStarCount :: "int \<Rightarrow> int" where
  "haloStarCount totalParticles = \<lfloor>of_int totalParticles * (0.2 :: rat)\<rfloor>"

definition nebulaParticleCount :: "int \<Rightarrow> int" where
  "nebulaParticleCount totalParticles = \<lfloor>of_int totalParticles * (0.1 :: rat)\<rfloor>"

definition dustParticleCount :: "int \<Rightarrow> int" where
  "dustParticleCount totalParticles =
     totalParticles - coreStarCount totalParticles - armStarCount totalParticles
       - haloStarCount totalParticles - nebulaParticleCount totalParticles"

text \<open>
  A \<^verbatim>\<open>for (let i = 0; i < n; i++)\<close> loop whose body is a state transformer.
\<close>

definition forLoop :: "nat \<Rightarrow> (nat \<Rightarrow> 's \<Rightarrow> 's) \<Rightarrow> 's \<Rightarrow> 's" where
  "forLoop n body s = fold body [0..<n] s"

text \<open>
  The generators draw their values from \<^verbatim>\<open>Math.random()\<close>; what is recorded here is
  where they write. One iteration of a generator's loop writes, for its particle index
  \<open>startIndex + i\<close> and \<open>i3 = (startIndex + i) * 3\<close>, the offsets \<open>i3\<close>, \<open>i3 + 1\<close>, \<open>i3 + 2\<close> of
  \<open>positions\<close>, of \<open>colors\<close> and of \<open>velocities\<close>, and the offset \<open>startIndex + i\<close> of
  \<open>sizes\<close>, \<open>particleTypes\<close> and \<open>masses\<close>. The record of an iteration lists, array by
  array, the offsets it writes, in the order of the writes; the log of a run is the list of
  its iterations.
\<close>

record iterationWrites =
  positionsW :: "int list"
  colorsW :: "int list"
  sizesW :: "int list"
  velocitiesW :: "int list"
  particleTypesW :: "int list"
  massesW :: "int list"

type_synonym writeLog = "iterationWrites list"

definition emptyLog :: writeLog where
  "emptyLog = []"

text \<open>
  The writes of one iteration of \<^verbatim>\<open>createGalaxyCore\<close>, \<^verbatim>\<open>createHaloStars\<close>,
  \<^verbatim>\<open>createNebulaClouds\<close> and \<^verbatim>\<open>createDustParticles\<close>: each of the three velocity
  components is assigned once.
\<close>

definition writeParticle :: "int \<Rightarrow> nat \<Rightarrow> writeLog \<Rightarrow> writeLog" where
  "writeParticle startIndex i l =
     (let i3 = (startIndex + int i) * 3 in
      l @ [\<lparr>positionsW = [i3, i3 + 1, i3 + 2],
             colorsW = [i3, i3 + 1, i3 + 2],
             sizesW = [startIndex + int i],
             velocitiesW = [i3, i3 + 1, i3 + 2],
             particleTypesW = [startIndex + int i],
             massesW = [startIndex + int i]\<rparr>])"

text \<open>
  The writes of one iteration of \<^verbatim>\<open>createSpiralArms\<close>: after the three velocity
  components have been assigned, the radial component is added with
  \<^verbatim>\<open>velocities[i3] += ...\<close> and \<^verbatim>\<open>velocities[i3 + 2] += ...\<close>, so these two offsets are
  written a second time.
\<close>

definition writeArmParticle :: "int \<Rightarrow> nat \<Rightarrow> writeLog \<Rightarrow> writeLog" where
  "writeArmParticle startIndex i l =
     (let i3 = (startIndex + int i) * 3 in
      l @ [\<lparr>positionsW = [i3, i3 + 1, i3 + 2],
             colorsW = [i3, i3 + 1, i3 + 2],
             sizesW = [startIndex + int i],
             velocitiesW = [i3, i3 + 1, i3 + 2, i3, i3 + 2],
             particleTypesW = [startIndex + int i],
             massesW = [startIndex + int i]\<rparr>])"

definition createGalaxyCore :: "writeLog \<Rightarrow> int \<Rightarrow> int \<Rightarrow> writeLog \<times> int" where
  "createGalaxyCore l startIndex count =
     (forLoop (nat count) (writeParticle startIndex) l, startIndex + count)"

definition createSpiralArms :: "writeLog \<Rightarrow> int \<Rightarrow> int \<Rightarrow> writeLog \<times> int" where
  "createSpiralArms l startIndex count =
     (forLoop (nat count) (writeArmParticle startIndex) l, startIndex + count)"

definition createHaloStars :: "writeLog \<Rightarrow> int \<Rightarrow> int \<Rightarrow> writeLog \<times> int" where
  "createHaloStars l startIndex count =
     (forLoop (nat count) (writeParticle startIndex) l, startIndex + count)"

text \<open>
  \<^verbatim>\<open>createNebulaClouds\<close>: \<open>nebulaCount = Math.min(10, Math.floor(count / 100))\<close> and
  \<open>particlesPerNebula = Math.floor(count / nebulaCount)\<close>. When \<open>nebulaCount\<close> is 0 the
  quotient is \<open>Infinity\<close> in JavaScript (the loop runs only for \<open>count > 0\<close>), and
  \<open>Math.floor(i / Infinity)\<close> is 0; \<open>None\<close> stands for that infinite divisor.
  An iteration whose \<open>nebulaIndex\<close> is not below \<open>nebulaCount\<close> is skipped by
  \<^verbatim>\<open>continue\<close> before anything is written.
\<close>

definition nebulaCount :: "int \<Rightarrow> int" where
  "nebulaCount count = min 10 (count div 100)"

definition particlesPerNebula :: "int \<Rightarrow> int option" where
  "particlesPerNebula count =
     (if nebulaCount count = 0 then None else Some (count div nebulaCount count))"

definition nebulaIndex :: "int \<Rightarrow> nat \<Rightarrow> int" where
  "nebulaIndex count i =
     (case particlesPerNebula count of None \<Rightarrow> 0 | Some d \<Rightarrow> int i div d)"

definition nebulaBody :: "int \<Rightarrow> int \<Rightarrow> nat \<Rightarrow> writeLog \<Rightarrow> writeLog" where
  "nebulaBody startIndex count i l =
     (if nebulaIndex count i \<ge> nebulaCount count then l
      else writeParticle startIndex i l)"

definition createNebulaClouds :: "writeLog \<Rightarrow> int \<Rightarrow> int \<Rightarrow> writeLog \<times> int" where
  "createNebulaClouds l startIndex count =
     (forLoop (nat count) (nebulaBody startIndex count) l, startIndex + count)"

definition createDustParticles :: "writeLog \<Rightarrow> int \<Rightarrow> int \<Rightarrow> writeLog \<times> int" where
  "createDustParticles l startIndex count =
     (forLoop (nat count) (writeParticle startIndex) l, startIndex + count)"

text \<open>
  The five calls of \<^verbatim>\<open>createGalaxySystem\<close>, each starting at the index the previous
  one returned. The result is the write log and the final \<open>currentIndex\<close>. The loop
  that follows the five calls (it replaces \<open>NaN\<close> entries) is not a generator and is left
  out.
\<close>

definition createGalaxySystem :: "int \<Rightarrow> writeLog \<times> int" where
  "createGalaxySystem totalParticles =
     (let currentIndex = 0;
          (l1, currentIndex) = createGalaxyCore emptyLog currentIndex (coreStarCount totalParticles);
          (l2, currentIndex) = createSpiralArms l1 currentIndex (armStarCount totalParticles);
          (l3, currentIndex) = createHaloStars l2 currentIndex (haloStarCount totalParticles);
          (l4, currentIndex) = createNebulaClouds l3 currentIndex (nebulaParticleCount totalParticles);
          (l5, currentIndex) = createDustParticles l4 currentIndex (dustParticleCount totalParticles)
      in (l5, currentIndex))"

text \<open>
  For stating the footprint: the particle indices the five generators write, in order,
  read off the loops above.
\<close>

definition written :: "int \<Rightarrow> int list" where
  "written N =
     map (\<lambda>i. 0 + int i) [0..<nat (coreStarCount N)]
     @ map (\<lambda>i. (0 + coreStarCount N) + int i) [0..<nat (armStarCount N)]
     @ map (\<lambda>i. (0 + coreStarCount N + armStarCount N) + int i) [0..<nat (haloStarCount N)]
     @ map (\<lambda>i. (0 + coreStarCount N + armStarCount N + haloStarCount N) + int i)
         (filter (\<lambda>i. nebulaIndex (nebulaParticleCount N) i < nebulaCount (nebulaParticleCount N))
            [0..<nat (nebulaParticleCount N)])
     @ map (\<lambda>i. (0 + coreStarCount N + armStarCount N + haloStarCount N + nebulaParticleCount N) + int i)
         [0..<nat (dustParticleCount N)]"

text \<open>What an iteration writes for particle index \<open>k\<close>: in an arm, and elsewhere.\<close>

definition plainWrites :: "int \<Rightarrow> iterationWrites" where
  "plainWrites k =
     \<lparr>positionsW = [k * 3, k * 3 + 1, k * 3 + 2], colorsW = [k * 3, k * 3 + 1, k * 3 + 2],
      sizesW = [k], velocitiesW = [k * 3, k * 3 + 1, k * 3 + 2],
      particleTypesW = [k], massesW = [k]\<rparr>"

definition armWrites :: "int \<Rightarrow> iterationWrites" where
  "armWrites k =
     \<lparr>positionsW = [k * 3, k * 3 + 1, k * 3 + 2], colorsW = [k * 3, k * 3 + 1, k * 3 + 2],
      sizesW = [k], velocitiesW = [k * 3, k * 3 + 1, k * 3 + 2, k * 3, k * 3 + 2],
      particleTypesW = [k], massesW = [k]\<rparr>"
section \<open>JavaScript numbers, typed arrays and three.js vectors\<close>

text \<open>
  A JavaScript number is a real number, \<open>Infinity\<close>, \<open>-Infinity\<close> or \<open>NaN\<close>. The
  arithmetic below follows IEEE 754 on the non-finite values and is exact on the finite
  ones: rounding and overflow are not represented, and zero carries no sign (a zero
  divisor counts as \<open>+0\<close>).
\<close>

datatype number = Num real | Infinity | NegInfinity | NaN

fun isNaN :: "number \<Rightarrow> bool" where
  "isNaN NaN = True"
| "isNaN _ = False"

fun isFinite :: "number \<Rightarrow> bool" where
  "isFinite (Num a) = True"
| "isFinite _ = False"

text \<open>The sign of a number that is not \<open>NaN\<close>, and the infinity (or \<open>NaN\<close>) of a given sign.\<close>

fun signOf :: "number \<Rightarrow> real" where
  "signOf (Num a) = sgn a"
| "signOf Infinity = 1"
| "signOf NegInfinity = - 1"
| "signOf NaN = 0"

definition infinityOfSign :: "real \<Rightarrow> number" where
  "infinityOfSign s = (if s = 0 then NaN else if 0 < s then Infinity else NegInfinity)"

instantiation number :: "{plus, uminus, minus, times, inverse, ord}"
begin

fun plus_number :: "number \<Rightarrow> number \<Rightarrow> number" where
  "plus_number (Num a) (Num b) = Num (a + b)"
| "plus_number NaN _ = NaN"
| "plus_number _ NaN = NaN"
| "plus_number Infinity NegInfinity = NaN"
| "plus_number NegInfinity Infinity = NaN"
| "plus_number Infinity _ = Infinity"
| "plus_number _ Infinity = Infinity"
| "plus_number NegInfinity _ = NegInfinity"
| "plus_number _ NegInfinity = NegInfinity"

fun uminus_number :: "number \<Rightarrow> number" where
  "uminus_number (Num a) = Num (- a)"
| "uminus_number Infinity = NegInfinity"
| "uminus_number NegInfinity = Infinity"
| "uminus_number NaN = NaN"

definition minus_number :: "number \<Rightarrow> number \<Rightarrow> number" where
  "minus_number a b = a + (- b)"

fun times_number :: "number \<Rightarrow> number \<Rightarrow> number" where
  "times_number (Num a) (Num b) = Num (a * b)"
| "times_number NaN _ = NaN"
| "times_number _ NaN = NaN"
| "times_number a b = infinityOfSign (signOf a * signOf b)"

fun divide_number :: "number \<Rightarrow> number \<Rightarrow> number" where
  "divide_number (Num a) (Num b) = (if b = 0 then infinityOfSign (sgn a) else Num (a / b))"
| "divide_number NaN _ = NaN"
| "divide_number _ NaN = NaN"
| "divide_number (Num a) _ = Num 0"
| "divide_number a (Num b) = infinityOfSign (signOf a * (if b < 0 then - 1 else 1))"
| "divide_number _ _ = NaN"

definition inverse_number :: "number \<Rightarrow> number" where
  "inverse_number a = divide (Num 1) a"

fun less_number :: "number \<Rightarrow> number \<Rightarrow> bool" where
  "less_number (Num a) (Num b) = (a < b)"
| "less_number NaN _ = False"
| "less_number _ NaN = False"
| "less_number Infinity _ = False"
| "less_number _ NegInfinity = False"
| "less_number _ _ = True"

definition less_eq_number :: "number \<Rightarrow> number \<Rightarrow> bool" where
  "less_eq_number a b = (a < b \<or> (a = b \<and> \<not> isNaN a))"

instance ..

end

text \<open>The functions of \<^verbatim>\<open>Math\<close> that the simulation uses.\<close>

fun Math_sqrt :: "number \<Rightarrow> number" where
  "Math_sqrt (Num a) = (if a < 0 then NaN else Num (sqrt a))"
| "Math_sqrt Infinity = Infinity"
| "Math_sqrt _ = NaN"

fun Math_sin :: "number \<Rightarrow> number" where
  "Math_sin (Num a) = Num (sin a)"
| "Math_sin _ = NaN"

fun Math_cos :: "number \<Rightarrow> number" where
  "Math_cos (Num a) = Num (cos a)"
| "Math_cos _ = NaN"

definition Math_max :: "number \<Rightarrow> number \<Rightarrow> number" where
  "Math_max a b = (if isNaN a \<or> isNaN b then NaN else if a < b then b else a)"

definition Math_min :: "number \<Rightarrow> number \<Rightarrow> number" where
  "Math_min a b = (if isNaN a \<or> isNaN b then NaN else if b < a then b else a)"

text \<open>\<^verbatim>\<open>a || b\<close> on numbers: \<open>0\<close> and \<open>NaN\<close> are the falsy numbers.\<close>

definition orElse :: "number \<Rightarrow> number \<Rightarrow> number" where
  "orElse a b = (if a = Num 0 \<or> isNaN a then b else a)"

text \<open>
  A \<^verbatim>\<open>Float32Array\<close> is a list of numbers of fixed length. Reading outside the array
  gives \<^verbatim>\<open>undefined\<close>, which every use in this program (arithmetic, \<^verbatim>\<open>||\<close>,
  \<^verbatim>\<open>isNaN\<close>) treats as \<open>NaN\<close>; writing outside the array is ignored, which is what
  \<open>xs[k := v]\<close> does on lists. The rounding of stored values to single precision is
  not represented.
\<close>

type_synonym Float32Array = "number list"

definition arrayGet :: "Float32Array \<Rightarrow> nat \<Rightarrow> number" where
  "arrayGet xs k = (if k < length xs then xs ! k else NaN)"

text \<open>
  \<^verbatim>\<open>THREE.Vector3\<close>. Modelled from the three.js library, which is not under src/:
  \<^verbatim>\<open>subVectors(a, b)\<close> is the componentwise difference, \<^verbatim>\<open>lengthSq\<close> the sum of the
  squared components, \<^verbatim>\<open>length\<close> its square root, \<^verbatim>\<open>distanceTo\<close> the length of the
  difference, \<^verbatim>\<open>multiplyScalar\<close> the componentwise product, and \<^verbatim>\<open>normalize()\<close> is
  \<^verbatim>\<open>divideScalar(length() || 1)\<close>, that is \<^verbatim>\<open>multiplyScalar(1 / (length() || 1))\<close>.
\<close>

datatype Vector3 = Vector3 (vx: number) (vy: number) (vz: number)

definition subVectors :: "Vector3 \<Rightarrow> Vector3 \<Rightarrow> Vector3" where
  "subVectors a b = Vector3 (vx a - vx b) (vy a - vy b) (vz a - vz b)"

definition addVectors :: "Vector3 \<Rightarrow> Vector3 \<Rightarrow> Vector3" where
  "addVectors a b = Vector3 (vx a + vx b) (vy a + vy b) (vz a + vz b)"

definition lengthSq :: "Vector3 \<Rightarrow> number" where
  "lengthSq v = vx v * vx v + vy v * vy v + vz v * vz v"

definition vlength :: "Vector3 \<Rightarrow> number" where
  "vlength v = Math_sqrt (lengthSq v)"

definition distanceTo :: "Vector3 \<Rightarrow> Vector3 \<Rightarrow> number" where
  "distanceTo a b = Math_sqrt (lengthSq (subVectors a b))"

definition multiplyScalar :: "Vector3 \<Rightarrow> number \<Rightarrow> Vector3" where
  "multiplyScalar v s = Vector3 (vx v * s) (vy v * s) (vz v * s)"

definition divideScalar :: "Vector3 \<Rightarrow> number \<Rightarrow> Vector3" where
  "divideScalar v s = multiplyScalar v (Num 1 / s)"

definition normalize :: "Vector3 \<Rightarrow> Vector3" where
  "normalize v = divideScalar v (orElse (vlength v) (Num 1))"

text \<open>
  The compound assignments \<^verbatim>\<open>xs[k] += v\<close>, \<^verbatim>\<open>xs[k] -= v\<close> and \<^verbatim>\<open>xs[k] *= v\<close> on a
  typed array.
\<close>

definition addAt :: "Float32Array \<Rightarrow> nat \<Rightarrow> number \<Rightarrow> Float32Array" where
  "addAt xs k v = xs[k := arrayGet xs k + v]"

definition subAt :: "Float32Array \<Rightarrow> nat \<Rightarrow> number \<Rightarrow> Float32Array" where
  "subAt xs k v = xs[k := arrayGet xs k - v]"

definition mulAt :: "Float32Array \<Rightarrow> nat \<Rightarrow> number \<Rightarrow> Float32Array" where
  "mulAt xs k v = xs[k := arrayGet xs k * v]"

text \<open>
  The attribute arrays of a particle system. main.js uses the first seven (four of them in
  drift mode), the \<^verbatim>\<open>ParticleCloud\<close> of main.js.bak uses \<open>positions\<close>, \<open>sizes\<close>,
  \<open>colors\<close>, \<open>velocities\<close>, \<open>accelerations\<close> and the last three; an array a program
  does not have is left empty.
\<close>

record attributes =
  positions :: Float32Array
  sizes :: Float32Array
  colors :: Float32Array
  velocities :: Float32Array
  accelerations :: Float32Array
  particleTypes :: Float32Array
  masses :: Float32Array
  lifeTimes :: Float32Array
  startTimes :: Float32Array
  opacities :: Float32Array

text \<open>
  The three components stored for particle \<open>i\<close> in a three-component array, and
  whether a vector or a particle's slots hold finite numbers only.
\<close>

definition vec3At :: "Float32Array \<Rightarrow> nat \<Rightarrow> Vector3" where
  "vec3At xs i = Vector3 (arrayGet xs (i * 3)) (arrayGet xs (i * 3 + 1)) (arrayGet xs (i * 3 + 2))"

definition finiteVector :: "Vector3 \<Rightarrow> bool" where
  "finiteVector v = (isFinite (vx v) \<and> isFinite (vy v) \<and> isFinite (vz v))"

section \<open>Single precision\<close>

text \<open>
  What a \<^verbatim>\<open>Float32Array\<close> keeps of a number stored in it, \<^verbatim>\<open>Math.fround\<close>: the nearest
  number of the form \<open>m * 2^(e - 23)\<close> with \<open>|m| \<le> 2^24\<close>, where \<open>e\<close> is the binary exponent
  of the number and at least \<open>-126\<close>; a tie goes to the even \<open>m\<close>; a result of magnitude
  \<open>2^128\<close> or more is an infinity. \<open>NaN\<close> and the infinities are kept.
\<close>

definition roundHalfEven :: "real \<Rightarrow> int" where
  "roundHalfEven m =
     (let f = \<lfloor>m\<rfloor>
      in if m - of_int f < 1 / 2 then f
         else if 1 / 2 < m - of_int f then f + 1
         else if even f then f else f + 1)"

definition fround :: "number \<Rightarrow> number" where
  "fround a =
     (case a of
        Num x \<Rightarrow>
          (if x = 0 then Num 0
           else
             (let e = max \<lfloor>log 2 \<bar>x\<bar>\<rfloor> (- 126);
                  ulp = (2::real) powr (of_int e - 23);
                  y = of_int (roundHalfEven (x / ulp)) * ulp
              in if 2 ^ 128 \<le> \<bar>y\<bar> then (if 0 < x then Infinity else NegInfinity)
                 else Num y))
      | _ \<Rightarrow> a)"

text \<open>
  An assignment \<^verbatim>\<open>xs[k] = v\<close> to a typed array and the compound assignments, with the
  rounding of the stored value written out.
\<close>

definition store32 :: "Float32Array \<Rightarrow> nat \<Rightarrow> number \<Rightarrow> Float32Array" where
  "store32 xs k v = xs[k := fround v]"

definition addAt32 :: "Float32Array \<Rightarrow> nat \<Rightarrow> number \<Rightarrow> Float32Array" where
  "addAt32 xs k v = xs[k := fround (arrayGet xs k + v)]"

definition subAt32 :: "Float32Array \<Rightarrow> nat \<Rightarrow> number \<Rightarrow> Float32Array" where
  "subAt32 xs k v = xs[k := fround (arrayGet xs k - v)]"

definition mulAt32 :: "Float32Array \<Rightarrow> nat \<Rightarrow> number \<Rightarrow> Float32Array" where
  "mulAt32 xs k v = xs[k := fround (arrayGet xs k * v)]"
section \<open>The emitter cloud: \<^verbatim>\<open>ParticleCloud\<close> (main.js.bak)\<close>

text \<open>
  \<^verbatim>\<open>THREE.Color\<close> with its components \<^verbatim>\<open>r\<close>, \<^verbatim>\<open>g\<close>, \<^verbatim>\<open>b\<close>. Modelled from the three.js
  library, which is not under src/: \<^verbatim>\<open>lerpColors(color1, color2, alpha)\<close> sets each
  component to \<^verbatim>\<open>color1.c + (color2.c - color1.c) * alpha\<close>.
\<close>

datatype Color = Color (cr: number) (cg: number) (cb: number)

definition lerpColors :: "Color \<Rightarrow> Color \<Rightarrow> number \<Rightarrow> Color" where
  "lerpColors color1 color2 alpha =
     Color (cr color1 + (cr color2 - cr color1) * alpha)
           (cg color1 + (cg color2 - cg color1) * alpha)
           (cb color1 + (cb color2 - cb color1) * alpha)"

text \<open>
  The options of the cloud, an emitter (its fields \<^verbatim>\<open>position\<close>, \<^verbatim>\<open>radius\<close>, \<^verbatim>\<open>power\<close>,
  \<^verbatim>\<open>color\<close>, \<^verbatim>\<open>angle\<close> carry the prefix \<open>emitter\<close> here), and the state of a
  \<^verbatim>\<open>ParticleCloud\<close>: its clock \<^verbatim>\<open>this.time\<close>, the \<^verbatim>\<open>audioLevel\<close> uniform of its
  material, its arrays and its emitters.
\<close>

record options =
  count :: nat
  particleSize :: number
  particleSizeVariation :: number
  baseColor :: Color
  secondaryColor :: Color
  tertiaryColor :: Color
  speedFactor :: number
  noiseIntensity :: number
  noiseTimeScale :: number
  particleLifespan :: number
  turbulence :: number
  interactiveForce :: number

record emitter =
  emitterPosition :: Vector3
  emitterRadius :: number
  emitterPower :: number
  emitterColor :: number
  emitterAngle :: number

record particleCloud =
  options :: options
  time :: number
  audioLevel :: number
  arrays :: attributes
  emitters :: "emitter list"

text \<open>
  \<^verbatim>\<open>createEmitters\<close>: three emitters on an ellipse; \<open>rnd i k\<close> is the \<open>k\<close>-th value
  \<^verbatim>\<open>Math.random()\<close> returns while emitter \<open>i\<close> is built. \<^verbatim>\<open>this.colors\<close> is the color
  array by then; an index modulo the length of an empty array is \<open>NaN\<close> and reads
  \<^verbatim>\<open>undefined\<close>.
\<close>

definition createEmitter :: "Float32Array \<Rightarrow> (nat \<Rightarrow> nat \<Rightarrow> real) \<Rightarrow> nat \<Rightarrow> emitter" where
  "createEmitter cols rnd i =
     \<lparr>emitterPosition =
        Vector3 (Num 15 * Math_cos (Num (real i) * Num pi * Num 2 / Num 3))
                (Num 8 * Math_sin (Num (real i) * Num pi * Num 2 / Num 3))
                (Num 0),
      emitterRadius = Num 2 + Num (rnd i 0) * Num 3,
      emitterPower = Num 0.5 + Num (rnd i 1) * Num 1.5,
      emitterColor = (if length cols = 0 then NaN else arrayGet cols (i mod length cols)),
      emitterAngle = Num (real i) * Num pi * Num 2 / Num 3\<rparr>"

definition createEmitters :: "(nat \<Rightarrow> nat \<Rightarrow> real) \<Rightarrow> particleCloud \<Rightarrow> particleCloud" where
  "createEmitters rnd c =
     c\<lparr>emitters := map (createEmitter (colors (arrays c)) rnd) [0..<3]\<rparr>"

text \<open>
  The values \<^verbatim>\<open>Math.random()\<close> returns at the call sites of \<^verbatim>\<open>initParticle\<close>, one field
  per call site (a call uses those of the branch it takes).
\<close>

record draws =
  uRadius :: real
  uTheta :: real
  uPhi :: real
  uSpeed :: real
  uVelocityX :: real
  uVelocityY :: real
  uVelocityZ :: real
  uColorFactor :: real
  uColor :: real
  uSize :: real
  uLifeTime :: real
  uStartTime :: real
  uOpacity :: real

text \<open>
  \<^verbatim>\<open>initParticle(i, fromEmitter)\<close>. With a valid emitter index the particle is placed
  within 1.5 of the emitter and sent outward; its color needs
  \<^verbatim>\<open>fromEmitter % this.colors.length\<close>, which is \<open>NaN\<close> for an empty color array, and then
  \<^verbatim>\<open>lerpColors\<close> is handed \<^verbatim>\<open>undefined\<close> and throws a TypeError: that is the result
  \<open>None\<close>. Otherwise the particle is placed in a shell around the origin. Every value is
  assigned to an element of a \<^verbatim>\<open>Float32Array\<close>, which keeps its rounding to single
  precision; the direction of the velocity is computed from the positions as stored.
\<close>

definition initParticle :: "draws \<Rightarrow> nat \<Rightarrow> int \<Rightarrow> particleCloud \<Rightarrow> particleCloud option" where
  "initParticle u i fromEmitter c =
     (let idx = i * 3;
          a = arrays c;
          opts = options c;
          placed =
            (if 0 \<le> fromEmitter \<and> fromEmitter < int (length (emitters c)) then
               (let emitter = emitters c ! nat fromEmitter;
                    radius = Num (uRadius u) * Num 1.5;
                    theta = Num (uTheta u) * Num 2 * Num pi;
                    phi = Num (uPhi u) * Num 2 * Num pi;
                    positions = positions a;
                    positions = store32 positions idx (vx (emitterPosition emitter)
                        + radius * Math_sin phi * Math_cos theta);
                    positions = store32 positions (idx + 1) (vy (emitterPosition emitter)
                        + radius * Math_sin phi * Math_sin theta);
                    positions = store32 positions (idx + 2) (vz (emitterPosition emitter)
                        + radius * Math_cos phi);
                    speed = Num 0.5 + Num (uSpeed u) * emitterPower emitter;
                    dir = normalize (Vector3
                        (arrayGet positions idx - vx (emitterPosition emitter))
                        (arrayGet positions (idx + 1) - vy (emitterPosition emitter))
                        (arrayGet positions (idx + 2) - vz (emitterPosition emitter)));
                    velocities = velocities a;
                    velocities = store32 velocities idx (vx dir * speed);
                    velocities = store32 velocities (idx + 1) (vy dir * speed);
                    velocities = store32 velocities (idx + 2) (vz dir * speed)
                in if length (colors a) = 0 then None
                   else
                     (let colorIndex = nat fromEmitter mod length (colors a);
                          col = lerpColors (baseColor opts)
                                  (if colorIndex mod 2 = 0 then secondaryColor opts
                                   else tertiaryColor opts)
                                  (Num (uColor u));
                          colors = colors a;
                          colors = store32 colors idx (cr col);
                          colors = store32 colors (idx + 1) (cg col);
                          colors = store32 colors (idx + 2) (cb col)
                      in Some (a\<lparr>positions := positions, velocities := velocities,
                                 colors := colors\<rparr>)))
             else
               (let radius = Num 5 + Num (uRadius u) * Num 15;
                    theta = Num (uTheta u) * Num 2 * Num pi;
                    phi = Num (uPhi u) * Num 2 * Num pi;
                    positions = positions a;
                    positions = store32 positions idx (radius * Math_sin phi * Math_cos theta);
                    positions = store32 positions (idx + 1)
                        (radius * Math_sin phi * Math_sin theta);
                    positions = store32 positions (idx + 2) (radius * Math_cos phi);
                    velocities = velocities a;
                    velocities = store32 velocities idx
                        ((Num (uVelocityX u) - Num 0.5) * Num 0.3);
                    velocities = store32 velocities (idx + 1)
                        ((Num (uVelocityY u) - Num 0.5) * Num 0.3);
                    velocities = store32 velocities (idx + 2)
                        ((Num (uVelocityZ u) - Num 0.5) * Num 0.3);
                    colorFactor = uColorFactor u;
                    col = (if colorFactor < 0.33 then
                             lerpColors (baseColor opts) (secondaryColor opts) (Num (uColor u))
                           else if colorFactor < 0.66 then
                             lerpColors (secondaryColor opts) (tertiaryColor opts) (Num (uColor u))
                           else
                             lerpColors (tertiaryColor opts) (baseColor opts) (Num (uColor u)));
                    colors = colors a;
                    colors = store32 colors idx (cr col);
                    colors = store32 colors (idx + 1) (cg col);
                    colors = store32 colors (idx + 2) (cb col)
                in Some (a\<lparr>positions := positions, velocities := velocities,
                           colors := colors\<rparr>)))
      in case placed of
           None \<Rightarrow> None
         | Some a \<Rightarrow>
             (let accelerations = accelerations a;
                  accelerations = store32 accelerations idx (Num 0);
                  accelerations = store32 accelerations (idx + 1) (Num 0);
                  accelerations = store32 accelerations (idx + 2) (Num 0);
                  sizes = store32 (sizes a) i (particleSize opts
                      + (Num (uSize u) - Num 0.5) * particleSizeVariation opts);
                  lifeTimes = store32 (lifeTimes a) i (particleLifespan opts
                      * (Num 0.6 + Num (uLifeTime u) * Num 0.4));
                  startTimes = store32 (startTimes a) i
                      (if 0 \<le> fromEmitter then time c
                       else time c - Num (uStartTime u) * particleLifespan opts);
                  opacities = store32 (opacities a) i (Num 0.8 + Num (uOpacity u) * Num 0.2)
              in Some (c\<lparr>arrays := a\<lparr>accelerations := accelerations, sizes := sizes,
                   lifeTimes := lifeTimes, startTimes := startTimes,
                   opacities := opacities\<rparr>\<rparr>)))"

text \<open>
  What \<^verbatim>\<open>update\<close> reads from outside the cloud: the audio state and the analyser's
  average frequency, the pointer state and its world point \<^verbatim>\<open>mouseTarget\<close>,
  \<^verbatim>\<open>camera.position.z\<close>, and, for the iteration of particle \<open>i\<close>, the value
  \<^verbatim>\<open>Math.random()\<close> returns for the choice of an emitter and the values it returns inside
  \<^verbatim>\<open>initParticle\<close>.
\<close>

record cloudInputs =
  audioConnected :: bool
  averageFrequency :: number
  mouseDown :: bool
  isContinuousMode :: bool
  mouseTarget :: Vector3
  cameraZ :: number
  emitterChoice :: "nat \<Rightarrow> real"
  initDraws :: "nat \<Rightarrow> draws"

definition updateEmitter :: "number \<Rightarrow> nat \<Rightarrow> emitter \<Rightarrow> emitter" where
  "updateEmitter delta i e =
     (let angle = emitterAngle e + delta * Num 0.2 * (if i mod 2 = 0 then Num 1 else Num (- 1))
      in e\<lparr>emitterAngle := angle,
           emitterPosition := Vector3 (Num 15 * Math_cos angle) (Num 8 * Math_sin angle)
                                      (Num 5 * Math_sin (angle * Num 2))\<rparr>)"

definition noise :: "particleCloud \<Rightarrow> number \<Rightarrow> number \<Rightarrow> number \<Rightarrow> number" where
  "noise c x y z =
     (Math_sin (x * Num 10 + time c) * Math_cos (y * Num 8 - time c)
        * Math_sin (z * Num 5 + time c * Num 0.5)) * noiseIntensity (options c)"

text \<open>The blocks of the loop body for a live particle, in the order of the source.\<close>

definition applyAcceleration :: "number \<Rightarrow> nat \<Rightarrow> attributes \<Rightarrow> attributes" where
  "applyAcceleration delta i a =
     (let idx = i * 3;
          velocities = velocities a;
          velocities = addAt velocities idx (arrayGet (accelerations a) idx * delta);
          velocities = addAt velocities (idx + 1) (arrayGet (accelerations a) (idx + 1) * delta);
          velocities = addAt velocities (idx + 2) (arrayGet (accelerations a) (idx + 2) * delta)
      in a\<lparr>velocities := velocities\<rparr>)"

definition applyTurbulence :: "particleCloud \<Rightarrow> number \<Rightarrow> nat \<Rightarrow> attributes \<Rightarrow> attributes" where
  "applyTurbulence c delta i a =
     (let idx = i * 3;
          opts = options c;
          noiseX = noise c (arrayGet (positions a) idx * Num 0.1)
                     (arrayGet (positions a) (idx + 1) * Num 0.1)
                     (time c * noiseTimeScale opts) * turbulence opts;
          noiseY = noise c (arrayGet (positions a) (idx + 1) * Num 0.1)
                     (arrayGet (positions a) (idx + 2) * Num 0.1)
                     (time c * noiseTimeScale opts) * turbulence opts;
          noiseZ = noise c (arrayGet (positions a) (idx + 2) * Num 0.1)
                     (arrayGet (positions a) idx * Num 0.1)
                     (time c * noiseTimeScale opts) * turbulence opts;
          velocities = velocities a;
          velocities = addAt velocities idx (noiseX * delta);
          velocities = addAt velocities (idx + 1) (noiseY * delta);
          velocities = addAt velocities (idx + 2) (noiseZ * delta)
      in a\<lparr>velocities := velocities\<rparr>)"

text \<open>The pointer interaction: the vector added to the velocity, if any, and the block.\<close>

definition pointerImpulse ::
    "particleCloud \<Rightarrow> cloudInputs \<Rightarrow> number \<Rightarrow> Vector3 \<Rightarrow> Vector3 option" where
  "pointerImpulse c inp delta particlePos =
     (if mouseDown inp \<or> isContinuousMode inp then
        (let toMouse = subVectors (mouseTarget inp) particlePos;
             distance = vlength toMouse;
             influenceRadius = Num 20 * (cameraZ inp / Num 30)
         in if distance < influenceRadius then
              (let force = influenceRadius - distance
               in Some (multiplyScalar (normalize toMouse)
                          (force * interactiveForce (options c) * delta)))
            else None)
      else None)"

definition cloudMouseInteraction ::
    "particleCloud \<Rightarrow> cloudInputs \<Rightarrow> number \<Rightarrow> nat \<Rightarrow> attributes \<Rightarrow> attributes" where
  "cloudMouseInteraction c inp delta i a =
     (let idx = i * 3;
          particlePos = Vector3 (arrayGet (positions a) idx) (arrayGet (positions a) (idx + 1))
                                (arrayGet (positions a) (idx + 2))
      in case pointerImpulse c inp delta particlePos of
           None \<Rightarrow> a
         | Some toMouse \<Rightarrow>
             (let velocities = velocities a;
                  velocities = addAt velocities idx (vx toMouse);
                  velocities = addAt velocities (idx + 1) (vy toMouse);
                  velocities = addAt velocities (idx + 2) (vz toMouse)
              in a\<lparr>velocities := velocities\<rparr>))"

definition damping :: "nat \<Rightarrow> attributes \<Rightarrow> attributes" where
  "damping i a =
     (let idx = i * 3;
          velocities = velocities a;
          velocities = mulAt velocities idx (Num 0.99);
          velocities = mulAt velocities (idx + 1) (Num 0.99);
          velocities = mulAt velocities (idx + 2) (Num 0.99)
      in a\<lparr>velocities := velocities\<rparr>)"

definition applyVelocity :: "particleCloud \<Rightarrow> number \<Rightarrow> nat \<Rightarrow> attributes \<Rightarrow> attributes" where
  "applyVelocity c delta i a =
     (let idx = i * 3;
          positions = positions a;
          positions = addAt positions idx
              (arrayGet (velocities a) idx * delta * speedFactor (options c));
          positions = addAt positions (idx + 1)
              (arrayGet (velocities a) (idx + 1) * delta * speedFactor (options c));
          positions = addAt positions (idx + 2)
              (arrayGet (velocities a) (idx + 2) * delta * speedFactor (options c))
      in a\<lparr>positions := positions\<rparr>)"

definition sizeAndOpacity ::
    "particleCloud \<Rightarrow> cloudInputs \<Rightarrow> number \<Rightarrow> number \<Rightarrow> nat \<Rightarrow> attributes \<Rightarrow> attributes" where
  "sizeAndOpacity c inp age lifeFactor i a =
     (let a = (if audioConnected inp then
                 a\<lparr>sizes := (sizes a)[i := (particleSize (options c)
                     + Math_sin (age * Num 2) * Num 0.03) * lifeFactor
                     * (Num 1 + audioLevel c * Num 0.5)]\<rparr>
               else
                 a\<lparr>sizes := (sizes a)[i := (particleSize (options c)
                     + Math_sin (age * Num 2) * Num 0.03) * lifeFactor]\<rparr>)
      in if lifeFactor < Num 0.3 then a\<lparr>opacities := (opacities a)[i := lifeFactor / Num 0.3]\<rparr>
         else a)"

text \<open>
  The loop body: a particle whose age has reached its life time is reinitialised from the
  emitter \<^verbatim>\<open>Math.floor(Math.random() * this.emitters.length)\<close>; any other particle is moved.
\<close>

definition updateParticle ::
    "cloudInputs \<Rightarrow> number \<Rightarrow> nat \<Rightarrow> particleCloud \<Rightarrow> particleCloud option" where
  "updateParticle inp delta i c =
     (let a = arrays c;
          age = time c - arrayGet (startTimes a) i
      in if age \<ge> arrayGet (lifeTimes a) i then
           (let emitterIndex = \<lfloor>emitterChoice inp i * real (length (emitters c))\<rfloor>
            in initParticle (initDraws inp i) i emitterIndex c)
         else
           (let lifeFactor = Num 1 - age / arrayGet (lifeTimes a) i;
                a = applyAcceleration delta i a;
                a = applyTurbulence c delta i a;
                a = cloudMouseInteraction c inp delta i a;
                a = damping i a;
                a = applyVelocity c delta i a;
                a = sizeAndOpacity c inp age lifeFactor i a
            in Some (c\<lparr>arrays := a\<rparr>)))"

text \<open>A \<^verbatim>\<open>for\<close> loop whose body may throw: the first exception ends it.\<close>

definition forLoopOpt :: "nat \<Rightarrow> (nat \<Rightarrow> 's \<Rightarrow> 's option) \<Rightarrow> 's \<Rightarrow> 's option" where
  "forLoopOpt n body s = fold (\<lambda>i r. Option.bind r (body i)) [0..<n] (Some s)"

text \<open>
  \<^verbatim>\<open>update(delta)\<close>: advance the clock, refresh the audio uniform, move the emitters,
  then run the loop over the particles. The rotation of the point cloud that follows is
  left out.
\<close>

definition update :: "cloudInputs \<Rightarrow> number \<Rightarrow> particleCloud \<Rightarrow> particleCloud option" where
  "update inp delta c =
     (let c = c\<lparr>time := time c + delta\<rparr>;
          c = (if audioConnected inp then
                 c\<lparr>audioLevel := Math_min (averageFrequency inp / Num 256.0 * Num 2) (Num 1.0)\<rparr>
               else c);
          c = c\<lparr>emitters := map (\<lambda>(i, e). updateEmitter delta i e) (enumerate 0 (emitters c))\<rparr>
      in forLoopOpt (count (options c)) (updateParticle inp delta) c)"

definition setMouseMode :: "bool \<Rightarrow> particleCloud \<Rightarrow> particleCloud" where
  "setMouseMode isAttractMode c =
     c\<lparr>options := (options c)\<lparr>interactiveForce :=
         (if isAttractMode then Num 0.1 else Num (- 0.1))\<rparr>\<rparr>"

text \<open>
  Two arrays that agree outside the slots of particle \<open>i\<close> and have the same length: for
  a three-component array (slots \<open>3i\<close>, \<open>3i + 1\<close>, \<open>3i + 2\<close>) and for a scalar array
  (slot \<open>i\<close>).
\<close>

definition sameExcept3 :: "nat \<Rightarrow> Float32Array \<Rightarrow> Float32Array \<Rightarrow> bool" where
  "sameExcept3 i xs ys = (length ys = length xs \<and> (\<forall>k. k div 3 \<noteq> i \<longrightarrow> ys ! k = xs ! k))"

definition sameExcept1 :: "nat \<Rightarrow> Float32Array \<Rightarrow> Float32Array \<Rightarrow> bool" where
  "sameExcept1 i xs ys = (length ys = length xs \<and> (\<forall>k. k \<noteq> i \<longrightarrow> ys ! k = xs ! k))"

text \<open>The arrays of a cloud have the lengths its constructor gave them.\<close>

definition wellFormedCloud :: "particleCloud \<Rightarrow> bool" where
  "wellFormedCloud c =
     (length (positions (arrays c)) = count (options c) * 3
      \<and> length (velocities (arrays c)) = count (options c) * 3
      \<and> length (accelerations (arrays c)) = count (options c) * 3
      \<and> length (colors (arrays c)) = count (options c) * 3
      \<and> length (sizes (arrays c)) = count (options c)
      \<and> length (lifeTimes (arrays c)) = count (options c)
      \<and> length (startTimes (arrays c)) = count (options c)
      \<and> length (opacities (arrays c)) = count (options c))"

text \<open>
  Everything a cloud holds for particle \<open>i\<close>, with the array lengths and the parts of
  the state that do not belong to a particle.
\<close>

definition attributeSlots ::
    "nat \<Rightarrow> attributes \<Rightarrow>
       (Vector3 \<times> Vector3 \<times> Vector3 \<times> Vector3) \<times> (number \<times> number \<times> number \<times> number)
         \<times> nat list" where
  "attributeSlots i a =
     ((vec3At (positions a) i, vec3At (velocities a) i,
       vec3At (accelerations a) i, vec3At (colors a) i),
      (arrayGet (sizes a) i, arrayGet (lifeTimes a) i,
       arrayGet (startTimes a) i, arrayGet (opacities a) i),
      [length (positions a), length (velocities a),
       length (accelerations a), length (colors a),
       length (sizes a), length (lifeTimes a),
       length (startTimes a), length (opacities a)])"

definition cloudSlotsOf ::
    "nat \<Rightarrow> particleCloud \<Rightarrow>
       ((Vector3 \<times> Vector3 \<times> Vector3 \<times> Vector3) \<times> (number \<times> number \<times> number \<times> number)
         \<times> nat list) \<times> (number \<times> emitter list \<times> options \<times> number)" where
  "cloudSlotsOf i c =
     (attributeSlots i (arrays c), (time c, emitters c, options c, audioLevel c))"

section \<open>The particle store and its per-frame updates (main.js)\<close>

text \<open>
  The configuration object, as far as the updates read it. The store is the geometry held
  in \<^verbatim>\<open>particles\<close>: in drift mode it has the arrays \<open>positions\<close>, \<open>sizes\<close>, \<open>colors\<close>
  and \<open>velocities\<close>, in galaxy mode also \<open>accelerations\<close>, \<open>particleTypes\<close> and
  \<open>masses\<close>.
\<close>

record galaxy_settings =
  galaxyRadius :: number
  rotationFactor :: number
  enableGravity :: bool
  blackHoleMass :: number
  stabilityFactor :: number

record config =
  particleCount :: nat
  particleSize :: number
  speed :: number
  interactionStrength :: number
  audioReactivity :: number
  mode :: string
  galaxySettings :: galaxy_settings

text \<open>
  What one frame reads from outside the store: the audio state (\<open>dataArray\<close> is \<open>None\<close>
  until the audio context exists; the analyser and the array are created together, and
  the array holds the bytes \<^verbatim>\<open>getByteFrequencyData\<close> has just put there), the pointer and
  window globals, the pointer's world position (in galaxy mode the code obtains it from
  \<^verbatim>\<open>mouseVector.unproject(camera)\<close>, three.js code that is not under src/, so it is
  an input here), the reading of \<^verbatim>\<open>Date.now()\<close> during the iteration for particle \<open>i\<close>,
  and the \<open>k\<close>-th value \<^verbatim>\<open>Math.random()\<close> returns during that iteration.
\<close>

record frame =
  isAudioActive :: bool
  dataArray :: "nat list option"
  mouseX :: number
  mouseY :: number
  windowHalfX :: number
  windowHalfY :: number
  mouseDown :: bool
  mousePosWorld :: Vector3
  Date_now :: "nat \<Rightarrow> real"
  Math_random :: "nat \<Rightarrow> nat \<Rightarrow> real"

subsection \<open>Drift mode: \<^verbatim>\<open>updateParticleEffects\<close>\<close>

definition audioAverage :: "frame \<Rightarrow> number" where
  "audioAverage f =
     (case dataArray f of
        Some d \<Rightarrow> if isAudioActive f then Num (real (sum_list d)) / Num (real (length d))
                  else Num 0
      | None \<Rightarrow> Num 0)"

text \<open>
  The audio block of the loop body. \<open>Math.floor(i / particleCount * length)\<close> is the
  integer quotient \<open>(i * length) div particleCount\<close> in exact arithmetic.
\<close>

definition applyAudioReactivity :: "config \<Rightarrow> frame \<Rightarrow> nat \<Rightarrow> attributes \<Rightarrow> attributes" where
  "applyAudioReactivity cfg f i a =
     (let i3 = i * 3;
          audioOff = a\<lparr>sizes := (sizes a)[i := particleSize cfg
                        * (Num 0.8 + Num (Math_random f i 0) * Num 0.4)]\<rparr>
      in case (if isAudioActive f then dataArray f else None) of
           None \<Rightarrow> audioOff
         | Some d \<Rightarrow>
             if length d > 0 then
               (let audioIndex = min ((i * length d) div particleCount cfg) (length d - 1);
                    audioFactor = Num 1 + (Num (real (d ! audioIndex)) / Num 128)
                                    * audioReactivity cfg;
                    sizes = (sizes a)[i := particleSize cfg * (Num 0.5 + audioFactor)];
                    audioImpulse = audioFactor * audioReactivity cfg * Num 0.03;
                    velocities = velocities a;
                    velocities = addAt velocities i3
                        ((Num (Math_random f i 0) - Num 0.5) * audioImpulse);
                    velocities = addAt velocities (i3 + 1)
                        ((Num (Math_random f i 1) - Num 0.5) * audioImpulse);
                    velocities = addAt velocities (i3 + 2)
                        ((Num (Math_random f i 2) - Num 0.5) * audioImpulse);
                    colors = colors a;
                    colors =
                      (if i mod 5 = 0 then
                         (let pulseAmount = Math_sin (Num (Date_now f i) * Num 0.001
                                 * audioAverage f * Num 0.01) * Num 0.3 + Num 0.7;
                              colors = mulAt colors i3 pulseAmount;
                              colors = mulAt colors (i3 + 1) pulseAmount;
                              colors = mulAt colors (i3 + 2) pulseAmount
                          in colors)
                       else colors)
                in a\<lparr>sizes := sizes, velocities := velocities, colors := colors\<rparr>)
             else audioOff)"

text \<open>Sine motion, pointer offset and damping of the velocity.\<close>

definition updateVelocities :: "config \<Rightarrow> frame \<Rightarrow> nat \<Rightarrow> attributes \<Rightarrow> attributes" where
  "updateVelocities cfg f i a =
     (let i3 = i * 3;
          velocities = velocities a;
          velocities = addAt velocities i3
              (Math_sin (Num (real i) + Num (Date_now f i) * Num 0.001) * speed cfg * Num 0.01);
          velocities = addAt velocities (i3 + 1)
              (Math_cos (Num (real i) + Num (Date_now f i) * Num 0.001) * speed cfg * Num 0.01);
          velocities = addAt velocities (i3 + 2)
              (Math_sin (Num (real i) + Num (Date_now f i) * Num 0.001) * speed cfg * Num 0.005);
          mouseXOffset = (mouseX f - windowHalfX f) / windowHalfX f;
          mouseYOffset = (mouseY f - windowHalfY f) / windowHalfY f;
          velocities = addAt velocities i3 (mouseXOffset * interactionStrength cfg * Num 0.001);
          velocities = subAt velocities (i3 + 1)
              (mouseYOffset * interactionStrength cfg * Num 0.001);
          velocities = mulAt velocities i3 (Num 0.98);
          velocities = mulAt velocities (i3 + 1) (Num 0.98);
          velocities = mulAt velocities (i3 + 2) (Num 0.98)
      in a\<lparr>velocities := velocities\<rparr>)"

text \<open>The position update of drift mode: the velocity is added as it is.\<close>

definition applyVelocities :: "nat \<Rightarrow> attributes \<Rightarrow> attributes" where
  "applyVelocities i a =
     (let i3 = i * 3;
          positions = positions a;
          positions = addAt positions i3 (arrayGet (velocities a) i3);
          positions = addAt positions (i3 + 1) (arrayGet (velocities a) (i3 + 1));
          positions = addAt positions (i3 + 2) (arrayGet (velocities a) (i3 + 2))
      in a\<lparr>positions := positions\<rparr>)"

definition containment :: "nat \<Rightarrow> attributes \<Rightarrow> attributes" where
  "containment i a =
     (let i3 = i * 3;
          positions = positions a;
          maxDist = Num 50;
          dist = Math_sqrt (arrayGet positions i3 * arrayGet positions i3
                   + arrayGet positions (i3 + 1) * arrayGet positions (i3 + 1)
                   + arrayGet positions (i3 + 2) * arrayGet positions (i3 + 2))
      in if maxDist < dist then
           (let scale = maxDist / dist;
                positions = mulAt positions i3 scale;
                positions = mulAt positions (i3 + 1) scale;
                positions = mulAt positions (i3 + 2) scale
            in a\<lparr>positions := positions\<rparr>)
         else a)"

definition protectNaN :: "nat \<Rightarrow> attributes \<Rightarrow> attributes" where
  "protectNaN i a =
     (let i3 = i * 3 in
      forLoop 3 (\<lambda>j a.
        (let a = (if isNaN (arrayGet (positions a) (i3 + j))
                  then a\<lparr>positions := (positions a)[i3 + j := Num 0]\<rparr> else a);
             a = (if isNaN (arrayGet (velocities a) (i3 + j))
                  then a\<lparr>velocities := (velocities a)[i3 + j := Num 0]\<rparr> else a)
         in a)) a)"

definition particleEffect :: "config \<Rightarrow> frame \<Rightarrow> nat \<Rightarrow> attributes \<Rightarrow> attributes" where
  "particleEffect cfg f i a =
     (let a = applyAudioReactivity cfg f i a;
          a = updateVelocities cfg f i a;
          a = applyVelocities i a;
          a = containment i a
      in protectNaN i a)"

text \<open>
  The loop over all particles. The rotation of the whole point cloud that follows the loop
  does not touch the attribute arrays and is left out.
\<close>

definition updateParticleEffects :: "config \<Rightarrow> frame \<Rightarrow> attributes \<Rightarrow> attributes" where
  "updateParticleEffects cfg f a = forLoop (particleCount cfg) (particleEffect cfg f) a"

subsection \<open>Galaxy mode: \<^verbatim>\<open>updateGalaxyPhysics\<close>\<close>

definition dt :: number where
  "dt = Num 0.016"

definition gravityConstant :: number where
  "gravityConstant = Num 0.01"

definition blackHole :: Vector3 where
  "blackHole = Vector3 (Num 0) (Num 0) (Num 0)"

definition clamp :: "number \<Rightarrow> number \<Rightarrow> number \<Rightarrow> number" where
  "clamp v lo hi = Math_min (Math_max v lo) hi"

definition resetAcceleration :: "nat \<Rightarrow> attributes \<Rightarrow> attributes" where
  "resetAcceleration i a =
     (let i3 = i * 3 in
      a\<lparr>accelerations := (accelerations a)[i3 := Num 0, i3 + 1 := Num 0, i3 + 2 := Num 0]\<rparr>)"

definition addAcceleration :: "nat \<Rightarrow> Vector3 \<Rightarrow> attributes \<Rightarrow> attributes" where
  "addAcceleration i acc a =
     (let i3 = i * 3;
          accelerations = accelerations a;
          accelerations = addAt accelerations i3 (vx acc);
          accelerations = addAt accelerations (i3 + 1) (vy acc);
          accelerations = addAt accelerations (i3 + 2) (vz acc)
      in a\<lparr>accelerations := accelerations\<rparr>)"

text \<open>Gravity of the black hole at the origin; \<open>mass\<close>, \<open>position\<close> and \<open>distToCenter\<close>
  are the locals the loop body computed when it started.\<close>

definition applyGravity ::
    "galaxy_settings \<Rightarrow> number \<Rightarrow> Vector3 \<Rightarrow> number \<Rightarrow> nat \<Rightarrow> attributes \<Rightarrow> attributes" where
  "applyGravity gs mass position distToCenter i a =
     (if enableGravity gs then
        (let minDistance = Num 0.1;
             forceMagnitude = gravityConstant * blackHoleMass gs * mass
                / Math_max (minDistance * minDistance) (distToCenter * distToCenter);
             forceDirection = subVectors blackHole position
         in if Num 0.000001 < lengthSq forceDirection then
              (let forceDirection = normalize forceDirection;
                   forceFactor = forceMagnitude / Math_max (Num 0.1) mass;
                   acceleration = multiplyScalar forceDirection forceFactor
               in addAcceleration i acceleration a)
            else a)
      else a)"

definition mouseInteraction ::
    "config \<Rightarrow> frame \<Rightarrow> Vector3 \<Rightarrow> nat \<Rightarrow> attributes \<Rightarrow> attributes" where
  "mouseInteraction cfg f position i a =
     (if mouseDown f then
        (let distToMouse = distanceTo position (mousePosWorld f)
         in if distToMouse < Num 10 then
              (let forceDirection = subVectors (mousePosWorld f) position
               in if Num 0.000001 < lengthSq forceDirection then
                    (let forceDirection = normalize forceDirection;
                         forceMagnitude = Num 0.01 * interactionStrength cfg
                            / Math_max (Num 0.1) distToMouse;
                         mouseAccel = multiplyScalar forceDirection forceMagnitude
                     in addAcceleration i mouseAccel a)
                  else a)
            else a)
      else a)"

text \<open>Acceleration into velocity (limited per step), damping, and the position update
  with the fixed time step.\<close>

definition integrate :: "galaxy_settings \<Rightarrow> nat \<Rightarrow> attributes \<Rightarrow> attributes" where
  "integrate gs i a =
     (let i3 = i * 3;
          maxAccel = Num 0.1;
          velocities = velocities a;
          velocities = addAt velocities i3
              (clamp (arrayGet (accelerations a) i3 * dt) (- maxAccel) maxAccel);
          velocities = addAt velocities (i3 + 1)
              (clamp (arrayGet (accelerations a) (i3 + 1) * dt) (- maxAccel) maxAccel);
          velocities = addAt velocities (i3 + 2)
              (clamp (arrayGet (accelerations a) (i3 + 2) * dt) (- maxAccel) maxAccel);
          velocities = mulAt velocities i3 (stabilityFactor gs);
          velocities = mulAt velocities (i3 + 1) (stabilityFactor gs);
          velocities = mulAt velocities (i3 + 2) (stabilityFactor gs);
          positions = positions a;
          positions = addAt positions i3 (arrayGet velocities i3 * dt);
          positions = addAt positions (i3 + 1) (arrayGet velocities (i3 + 1) * dt);
          positions = addAt positions (i3 + 2) (arrayGet velocities (i3 + 2) * dt)
      in a\<lparr>velocities := velocities, positions := positions\<rparr>)"

definition limitVelocity :: "nat \<Rightarrow> attributes \<Rightarrow> attributes" where
  "limitVelocity i a =
     (let i3 = i * 3;
          velocities = velocities a;
          maxVelocity = Num 2.0;
          currentVelocity = Math_sqrt (arrayGet velocities i3 * arrayGet velocities i3
                   + arrayGet velocities (i3 + 1) * arrayGet velocities (i3 + 1)
                   + arrayGet velocities (i3 + 2) * arrayGet velocities (i3 + 2))
      in if maxVelocity < currentVelocity then
           (let scale = maxVelocity / currentVelocity;
                velocities = mulAt velocities i3 scale;
                velocities = mulAt velocities (i3 + 1) scale;
                velocities = mulAt velocities (i3 + 2) scale
            in a\<lparr>velocities := velocities\<rparr>)
         else a)"

text \<open>The soft pull back toward the origin, applied to the velocity after the limit.\<close>

definition pullBack ::
    "galaxy_settings \<Rightarrow> Vector3 \<Rightarrow> number \<Rightarrow> nat \<Rightarrow> attributes \<Rightarrow> attributes" where
  "pullBack gs position distToCenter i a =
     (let i3 = i * 3;
          maxRadius = galaxyRadius gs * Num 5
      in if maxRadius < distToCenter then
           (let pullFactor = Num 0.01;
                pullDirection = subVectors blackHole position
            in if Num 0.000001 < lengthSq pullDirection then
                 (let pullDirection = normalize pullDirection;
                      velocities = velocities a;
                      velocities = addAt velocities i3 (vx pullDirection * pullFactor);
                      velocities = addAt velocities (i3 + 1) (vy pullDirection * pullFactor);
                      velocities = addAt velocities (i3 + 2) (vz pullDirection * pullFactor)
                  in a\<lparr>velocities := velocities\<rparr>)
               else a)
         else a)"

definition finalSafetyCheck :: "nat \<Rightarrow> attributes \<Rightarrow> attributes" where
  "finalSafetyCheck i a =
     (let i3 = i * 3 in
      forLoop 3 (\<lambda>j a.
        (let a = (if isNaN (arrayGet (positions a) (i3 + j))
                  then a\<lparr>positions := (positions a)[i3 + j := Num 0]\<rparr> else a);
             a = (if isNaN (arrayGet (velocities a) (i3 + j))
                  then a\<lparr>velocities := (velocities a)[i3 + j := Num 0]\<rparr> else a);
             a = (if isNaN (arrayGet (accelerations a) (i3 + j))
                  then a\<lparr>accelerations := (accelerations a)[i3 + j := Num 0]\<rparr> else a)
         in a)) a)"

definition galaxyParticle :: "config \<Rightarrow> frame \<Rightarrow> nat \<Rightarrow> attributes \<Rightarrow> attributes" where
  "galaxyParticle cfg f i a =
     (let i3 = i * 3;
          gs = galaxySettings cfg;
          mass = orElse (arrayGet (masses a) i) (Num 1);
          position = Vector3 (orElse (arrayGet (positions a) i3) (Num 0))
                             (orElse (arrayGet (positions a) (i3 + 1)) (Num 0))
                             (orElse (arrayGet (positions a) (i3 + 2)) (Num 0));
          distToCenter = distanceTo position blackHole;
          a = resetAcceleration i a;
          a = applyGravity gs mass position distToCenter i a;
          a = mouseInteraction cfg f position i a;
          a = integrate gs i a;
          a = limitVelocity i a;
          a = pullBack gs position distToCenter i a
      in finalSafetyCheck i a)"

text \<open>
  The loop over all particles (the rotation of the point cloud before the loop does not
  touch the attribute arrays), and the choice \<^verbatim>\<open>animate\<close> makes between the two updates.
\<close>

definition updateGalaxyPhysics :: "config \<Rightarrow> frame \<Rightarrow> attributes \<Rightarrow> attributes" where
  "updateGalaxyPhysics cfg f a = forLoop (particleCount cfg) (galaxyParticle cfg f) a"

definition animate :: "config \<Rightarrow> frame \<Rightarrow> attributes \<Rightarrow> attributes" where
  "animate cfg f a =
     (if mode cfg = ''galaxy'' then updateGalaxyPhysics cfg f a
      else updateParticleEffects cfg f a)"

text \<open>A run of frames: one \<^verbatim>\<open>animate\<close> call per frame, in order, each with the
  configuration and the inputs of its moment.\<close>

definition animateFrames :: "(config \<times> frame) list \<Rightarrow> attributes \<Rightarrow> attributes" where
  "animateFrames fs a = fold (\<lambda>(cfg, f). animate cfg f) fs a"

text \<open>
  The numbers an update reads from the configuration and the frame are finite, and the
  window is not zero pixels wide or high (the drift update divides by both half extents).
\<close>

definition finiteInputs :: "config \<Rightarrow> frame \<Rightarrow> bool" where
  "finiteInputs cfg f =
     (isFinite (speed cfg) \<and> isFinite (interactionStrength cfg)
      \<and> isFinite (audioReactivity cfg)
      \<and> isFinite (galaxyRadius (galaxySettings cfg))
      \<and> isFinite (blackHoleMass (galaxySettings cfg))
      \<and> isFinite (stabilityFactor (galaxySettings cfg))
      \<and> isFinite (mouseX f) \<and> isFinite (mouseY f)
      \<and> isFinite (windowHalfX f) \<and> isFinite (windowHalfY f)
      \<and> windowHalfX f \<noteq> Num 0 \<and> windowHalfY f \<noteq> Num 0
      \<and> finiteVector (mousePosWorld f))"

text \<open>
  Everything the store holds for particle \<open>i\<close>, together with the array lengths; and what
  one NaN check of the final loops does to an array.
\<close>

definition slotsOf ::
    "nat \<Rightarrow> attributes \<Rightarrow>
       (Vector3 \<times> Vector3 \<times> Vector3 \<times> Vector3) \<times> (number \<times> number \<times> number) \<times> nat list" where
  "slotsOf i a =
     ((vec3At (positions a) i, vec3At (velocities a) i, vec3At (colors a) i,
       vec3At (accelerations a) i),
      (arrayGet (sizes a) i, arrayGet (masses a) i, arrayGet (particleTypes a) i),
      [length (positions a), length (velocities a), length (colors a),
       length (accelerations a), length (sizes a), length (masses a),
       length (particleTypes a)])"

definition lengthsOf :: "attributes \<Rightarrow> nat list" where
  "lengthsOf a = [length (positions a), length (velocities a), length (colors a),
       length (accelerations a), length (sizes a), length (masses a),
       length (particleTypes a)]"

definition zeroIfNaN :: "Float32Array \<Rightarrow> nat \<Rightarrow> Float32Array" where
  "zeroIfNaN xs k = (if isNaN (arrayGet xs k) then xs[k := Num 0] else xs)"


text \<open>A slot that lies inside its array does not hold \<open>NaN\<close>.\<close>

definition noNaNAt :: "nat \<Rightarrow> Float32Array \<Rightarrow> bool" where
  "noNaNAt k xs = (k < length xs \<longrightarrow> \<not> isNaN (arrayGet xs k))"

section \<open>The per-frame updates of main.js with single-precision stores\<close>

text \<open>
  The loop bodies of \<^verbatim>\<open>updateParticleEffects\<close> and \<^verbatim>\<open>updateGalaxyPhysics\<close> once more, block
  by block as above, with the rounding of every value stored in a \<^verbatim>\<open>Float32Array\<close> written
  out (a stored \<open>0\<close> is exact, so \<open>resetAcceleration\<close>, \<open>protectNaN\<close> and
  \<open>finalSafetyCheck\<close> stand as they are). The locals of a loop body (\<open>dist\<close>, \<open>scale\<close>,
  \<open>currentVelocity\<close>, the vectors) are JavaScript doubles and are not rounded here. The
  names carry the suffix \<open>32\<close>.
\<close>

subsection \<open>Drift mode\<close>

definition applyAudioReactivity32 :: "config \<Rightarrow> frame \<Rightarrow> nat \<Rightarrow> attributes \<Rightarrow> attributes" where
  "applyAudioReactivity32 cfg f i a =
     (let i3 = i * 3;
          audioOff = a\<lparr>sizes := store32 (sizes a) i (particleSize cfg
                        * (Num 0.8 + Num (Math_random f i 0) * Num 0.4))\<rparr>
      in case (if isAudioActive f then dataArray f else None) of
           None \<Rightarrow> audioOff
         | Some d \<Rightarrow>
             if length d > 0 then
               (let audioIndex = min ((i * length d) div particleCount cfg) (length d - 1);
                    audioFactor = Num 1 + (Num (real (d ! audioIndex)) / Num 128)
                                    * audioReactivity cfg;
                    sizes = store32 (sizes a) i (particleSize cfg * (Num 0.5 + audioFactor));
                    audioImpulse = audioFactor * audioReactivity cfg * Num 0.03;
                    velocities = velocities a;
                    velocities = addAt32 velocities i3
                        ((Num (Math_random f i 0) - Num 0.5) * audioImpulse);
                    velocities = addAt32 velocities (i3 + 1)
                        ((Num (Math_random f i 1) - Num 0.5) * audioImpulse);
                    velocities = addAt32 velocities (i3 + 2)
                        ((Num (Math_random f i 2) - Num 0.5) * audioImpulse);
                    colors = colors a;
                    colors =
                      (if i mod 5 = 0 then
                         (let pulseAmount = Math_sin (Num (Date_now f i) * Num 0.001
                                 * audioAverage f * Num 0.01) * Num 0.3 + Num 0.7;
                              colors = mulAt32 colors i3 pulseAmount;
                              colors = mulAt32 colors (i3 + 1) pulseAmount;
                              colors = mulAt32 colors (i3 + 2) pulseAmount
                          in colors)
                       else colors)
                in a\<lparr>sizes := sizes, velocities := velocities, colors := colors\<rparr>)
             else audioOff)"

definition updateVelocities32 :: "config \<Rightarrow> frame \<Rightarrow> nat \<Rightarrow> attributes \<Rightarrow> attributes" where
  "updateVelocities32 cfg f i a =
     (let i3 = i * 3;
          velocities = velocities a;
          velocities = addAt32 velocities i3
              (Math_sin (Num (real i) + Num (Date_now f i) * Num 0.001) * speed cfg * Num 0.01);
          velocities = addAt32 velocities (i3 + 1)
              (Math_cos (Num (real i) + Num (Date_now f i) * Num 0.001) * speed cfg * Num 0.01);
          velocities = addAt32 velocities (i3 + 2)
              (Math_sin (Num (real i) + Num (Date_now f i) * Num 0.001) * speed cfg * Num 0.005);
          mouseXOffset = (mouseX f - windowHalfX f) / windowHalfX f;
          mouseYOffset = (mouseY f - windowHalfY f) / windowHalfY f;
          velocities = addAt32 velocities i3 (mouseXOffset * interactionStrength cfg * Num 0.001);
          velocities = subAt32 velocities (i3 + 1)
              (mouseYOffset * interactionStrength cfg * Num 0.001);
          velocities = mulAt32 velocities i3 (Num 0.98);
          velocities = mulAt32 velocities (i3 + 1) (Num 0.98);
          velocities = mulAt32 velocities (i3 + 2) (Num 0.98)
      in a\<lparr>velocities := velocities\<rparr>)"

definition applyVelocities32 :: "nat \<Rightarrow> attributes \<Rightarrow> attributes" where
  "applyVelocities32 i a =
     (let i3 = i * 3;
          positions = positions a;
          positions = addAt32 positions i3 (arrayGet (velocities a) i3);
          positions = addAt32 positions (i3 + 1) (arrayGet (velocities a) (i3 + 1));
          positions = addAt32 positions (i3 + 2) (arrayGet (velocities a) (i3 + 2))
      in a\<lparr>positions := positions\<rparr>)"

definition containment32 :: "nat \<Rightarrow> attributes \<Rightarrow> attributes" where
  "containment32 i a =
     (let i3 = i * 3;
          positions = positions a;
          maxDist = Num 50;
          dist = Math_sqrt (arrayGet positions i3 * arrayGet positions i3
                   + arrayGet positions (i3 + 1) * arrayGet positions (i3 + 1)
                   + arrayGet positions (i3 + 2) * arrayGet positions (i3 + 2))
      in if maxDist < dist then
           (let scale = maxDist / dist;
                positions = mulAt32 positions i3 scale;
                positions = mulAt32 positions (i3 + 1) scale;
                positions = mulAt32 positions (i3 + 2) scale
            in a\<lparr>positions := positions\<rparr>)
         else a)"

definition particleEffect32 :: "config \<Rightarrow> frame \<Rightarrow> nat \<Rightarrow> attributes \<Rightarrow> attributes" where
  "particleEffect32 cfg f i a =
     (let a = applyAudioReactivity32 cfg f i a;
          a = updateVelocities32 cfg f i a;
          a = applyVelocities32 i a;
          a = containment32 i a
      in protectNaN i a)"

definition updateParticleEffects32 :: "config \<Rightarrow> frame \<Rightarrow> attributes \<Rightarrow> attributes" where
  "updateParticleEffects32 cfg f a = forLoop (particleCount cfg) (particleEffect32 cfg f) a"

subsection \<open>Galaxy mode\<close>

definition addAcceleration32 :: "nat \<Rightarrow> Vector3 \<Rightarrow> attributes \<Rightarrow> attributes" where
  "addAcceleration32 i acc a =
     (let i3 = i * 3;
          accelerations = accelerations a;
          accelerations = addAt32 accelerations i3 (vx acc);
          accelerations = addAt32 accelerations (i3 + 1) (vy acc);
          accelerations = addAt32 accelerations (i3 + 2) (vz acc)
      in a\<lparr>accelerations := accelerations\<rparr>)"

definition applyGravity32 ::
    "galaxy_settings \<Rightarrow> number \<Rightarrow> Vector3 \<Rightarrow> number \<Rightarrow> nat \<Rightarrow> attributes \<Rightarrow> attributes" where
  "applyGravity32 gs mass position distToCenter i a =
     (if enableGravity gs then
        (let minDistance = Num 0.1;
             forceMagnitude = gravityConstant * blackHoleMass gs * mass
                / Math_max (minDistance * minDistance) (distToCenter * distToCenter);
             forceDirection = subVectors blackHole position
         in if Num 0.000001 < lengthSq forceDirection then
              (let forceDirection = normalize forceDirection;
                   forceFactor = forceMagnitude / Math_max (Num 0.1) mass;
                   acceleration = multiplyScalar forceDirection forceFactor
               in addAcceleration32 i acceleration a)
            else a)
      else a)"

definition mouseInteraction32 ::
    "config \<Rightarrow> frame \<Rightarrow> Vector3 \<Rightarrow> nat \<Rightarrow> attributes \<Rightarrow> attributes" where
  "mouseInteraction32 cfg f position i a =
     (if mouseDown f then
        (let distToMouse = distanceTo position (mousePosWorld f)
         in if distToMouse < Num 10 then
              (let forceDirection = subVectors (mousePosWorld f) position
               in if Num 0.000001 < lengthSq forceDirection then
                    (let forceDirection = normalize forceDirection;
                         forceMagnitude = Num 0.01 * interactionStrength cfg
                            / Math_max (Num 0.1) distToMouse;
                         mouseAccel = multiplyScalar forceDirection forceMagnitude
                     in addAcceleration32 i mouseAccel a)
                  else a)
            else a)
      else a)"

definition integrate32 :: "galaxy_settings \<Rightarrow> nat \<Rightarrow> attributes \<Rightarrow> attributes" where
  "integrate32 gs i a =
     (let i3 = i * 3;
          maxAccel = Num 0.1;
          velocities = velocities a;
          velocities = addAt32 velocities i3
              (clamp (arrayGet (accelerations a) i3 * dt) (- maxAccel) maxAccel);
          velocities = addAt32 velocities (i3 + 1)
              (clamp (arrayGet (accelerations a) (i3 + 1) * dt) (- maxAccel) maxAccel);
          velocities = addAt32 velocities (i3 + 2)
              (clamp (arrayGet (accelerations a) (i3 + 2) * dt) (- maxAccel) maxAccel);
          velocities = mulAt32 velocities i3 (stabilityFactor gs);
          velocities = mulAt32 velocities (i3 + 1) (stabilityFactor gs);
          velocities = mulAt32 velocities (i3 + 2) (stabilityFactor gs);
          positions = positions a;
          positions = addAt32 positions i3 (arrayGet velocities i3 * dt);
          positions = addAt32 positions (i3 + 1) (arrayGet velocities (i3 + 1) * dt);
          positions = addAt32 positions (i3 + 2) (arrayGet velocities (i3 + 2) * dt)
      in a\<lparr>velocities := velocities, positions := positions\<rparr>)"

definition limitVelocity32 :: "nat \<Rightarrow> attributes \<Rightarrow> attributes" where
  "limitVelocity32 i a =
     (let i3 = i * 3;
          velocities = velocities a;
          maxVelocity = Num 2.0;
          currentVelocity = Math_sqrt (arrayGet velocities i3 * arrayGet velocities i3
                   + arrayGet velocities (i3 + 1) * arrayGet velocities (i3 + 1)
                   + arrayGet velocities (i3 + 2) * arrayGet velocities (i3 + 2))
      in if maxVelocity < currentVelocity then
           (let scale = maxVelocity / currentVelocity;
                velocities = mulAt32 velocities i3 scale;
                velocities = mulAt32 velocities (i3 + 1) scale;
                velocities = mulAt32 velocities (i3 + 2) scale
            in a\<lparr>velocities := velocities\<rparr>)
         else a)"

definition pullBack32 ::
    "galaxy_settings \<Rightarrow> Vector3 \<Rightarrow> number \<Rightarrow> nat \<Rightarrow> attributes \<Rightarrow> attributes" where
  "pullBack32 gs position distToCenter i a =
     (let i3 = i * 3;
          maxRadius = galaxyRadius gs * Num 5
      in if maxRadius < distToCenter then
           (let pullFactor = Num 0.01;
                pullDirection = subVectors blackHole position
            in if Num 0.000001 < lengthSq pullDirection then
                 (let pullDirection = normalize pullDirection;
                      velocities = velocities a;
                      velocities = addAt32 velocities i3 (vx pullDirection * pullFactor);
                      velocities = addAt32 velocities (i3 + 1) (vy pullDirection * pullFactor);
                      velocities = addAt32 velocities (i3 + 2) (vz pullDirection * pullFactor)
                  in a\<lparr>velocities := velocities\<rparr>)
               else a)
         else a)"

definition galaxyParticle32 :: "config \<Rightarrow> frame \<Rightarrow> nat \<Rightarrow> attributes \<Rightarrow> attributes" where
  "galaxyParticle32 cfg f i a =
     (let i3 = i * 3;
          gs = galaxySettings cfg;
          mass = orElse (arrayGet (masses a) i) (Num 1);
          position = Vector3 (orElse (arrayGet (positions a) i3) (Num 0))
                             (orElse (arrayGet (positions a) (i3 + 1)) (Num 0))
                             (orElse (arrayGet (positions a) (i3 + 2)) (Num 0));
          distToCenter = distanceTo position blackHole;
          a = resetAcceleration i a;
          a = applyGravity32 gs mass position distToCenter i a;
          a = mouseInteraction32 cfg f position i a;
          a = integrate32 gs i a;
          a = limitVelocity32 i a;
          a = pullBack32 gs position distToCenter i a
      in finalSafetyCheck i a)"

definition updateGalaxyPhysics32 :: "config \<Rightarrow> frame \<Rightarrow> attributes \<Rightarrow> attributes" where
  "updateGalaxyPhysics32 cfg f a = forLoop (particleCount cfg) (galaxyParticle32 cfg f) a"

text \<open>A vector none of whose components is \<open>NaN\<close>.\<close>

definition noNaNVector :: "Vector3 \<Rightarrow> bool" where
  "noNaNVector v = (\<not> isNaN (vx v) \<and> \<not> isNaN (vy v) \<and> \<not> isNaN (vz v))"

text \<open>A vector each of whose components is \<open>NaN\<close> or \<open>0\<close>.\<close>

definition zeroOrNaNVector :: "Vector3 \<Rightarrow> bool" where
  "zeroOrNaNVector v = ((isNaN (vx v) \<or> vx v = Num 0) \<and> (isNaN (vy v) \<or> vy v = Num 0)
       \<and> (isNaN (vz v) \<or> vz v = Num 0))"

section \<open>Sample inputs\<close>

text \<open>
  The configuration main.js starts with, in drift mode and in galaxy mode, for a store of
  one particle; and a frame without audio, with the pointer at the window's top left corner
  and the clock at 0.
\<close>

definition defaultGalaxySettings :: galaxy_settings where
  "defaultGalaxySettings =
     \<lparr>galaxyRadius = Num 25, rotationFactor = Num 0.5, enableGravity = True,
      blackHoleMass = Num 1000, stabilityFactor = Num 0.98\<rparr>"

definition driftConfig :: config where
  "driftConfig =
     \<lparr>particleCount = 1, particleSize = Num 0.1, speed = Num 0.01,
      interactionStrength = Num 0.5, audioReactivity = Num 0.5, mode = ''particle'',
      galaxySettings = defaultGalaxySettings\<rparr>"

definition galaxyConfig :: config where
  "galaxyConfig = driftConfig\<lparr>mode := ''galaxy''\<rparr>"

definition quietFrame :: frame where
  "quietFrame =
     \<lparr>isAudioActive = False, dataArray = None, mouseX = Num 0, mouseY = Num 0,
      windowHalfX = Num 400, windowHalfY = Num 300, mouseDown = False,
      mousePosWorld = Vector3 (Num 0) (Num 0) (Num 0),
      Date_now = (\<lambda>i. 0), Math_random = (\<lambda>i k. 1 / 2)\<rparr>"

definition oneParticle :: "Vector3 \<Rightarrow> Vector3 \<Rightarrow> attributes" where
  "oneParticle p v =
     \<lparr>positions = [vx p, vy p, vz p], sizes = [Num 0.1],
      colors = [Num 1, Num 1, Num 1], velocities = [vx v, vy v, vz v],
      accelerations = [Num 0, Num 0, Num 0], particleTypes = [Num 0], masses = [Num 1],
      lifeTimes = [], startTimes = [], opacities = []\<rparr>"

text \<open>
  A cloud of one particle with the options the constructor defaults to, its clock at 1.96,
  its particle born at time 0 with a life time of 2, its emitters as \<^verbatim>\<open>createEmitters\<close>
  builds them when every random value is 1/2; and inputs without audio or pointer.
\<close>

definition sampleOptions :: options where
  "sampleOptions =
     \<lparr>count = 1, options.particleSize = Num 0.12, particleSizeVariation = Num 0.05,
      baseColor = Color (Num (68 / 255)) (Num (102 / 255)) (Num 1),
      secondaryColor = Color (Num 1) (Num (102 / 255)) (Num (170 / 255)),
      tertiaryColor = Color (Num (102 / 255)) (Num 1) (Num (170 / 255)),
      speedFactor = Num 1, noiseIntensity = Num 3, noiseTimeScale = Num 0.5,
      particleLifespan = Num 5, turbulence = Num 0.5, interactiveForce = Num 0.1\<rparr>"

definition sampleCloud :: particleCloud where
  "sampleCloud =
     createEmitters (\<lambda>i k. 1 / 2)
       \<lparr>options = sampleOptions, time = Num 1.96, audioLevel = Num 0,
        arrays =
          \<lparr>positions = [Num 10, Num 0, Num 0], sizes = [Num 0.12],
           colors = [Num 1, Num 1, Num 1], velocities = [Num 0, Num 0, Num 0],
           accelerations = [Num 0, Num 0, Num 0], particleTypes = [], masses = [],
           lifeTimes = [Num 2], startTimes = [Num 0], opacities = [Num 1]\<rparr>,
        emitters = []\<rparr>"

definition sampleDraws :: draws where
  "sampleDraws =
     \<lparr>uRadius = 1 / 2, uTheta = 1 / 2, uPhi = 1 / 2, uSpeed = 1 / 2, uVelocityX = 1 / 2,
      uVelocityY = 1 / 2, uVelocityZ = 1 / 2, uColorFactor = 1 / 2, uColor = 1 / 2,
      uSize = 1 / 2, uLifeTime = 1 / 2, uStartTime = 1 / 2, uOpacity = 1 / 2\<rparr>"

definition sampleInputs :: cloudInputs where
  "sampleInputs =
     \<lparr>audioConnected = False, averageFrequency = Num 0, cloudInputs.mouseDown = False,
      isContinuousMode = False, mouseTarget = Vector3 (Num 0) (Num 0) (Num 0),
      cameraZ = Num 30, emitterChoice = (\<lambda>i. 1 / 2), initDraws = (\<lambda>i. sampleDraws)\<rparr>"

section \<open>Basic facts: loops, numbers, arrays\<close>

lemma forLoop_Suc: "forLoop (Suc n) body s = body n (forLoop n body s)"
  by (simp add: forLoop_def)

lemma forLoop_0: "forLoop 0 body s = s"
  by (simp add: forLoop_def)

lemma forLoop_3: "forLoop 3 body s = body 2 (body 1 (body 0 s))"
proof -
  have "forLoop (Suc (Suc (Suc 0))) body s = body (Suc (Suc 0)) (body (Suc 0) (body 0 s))"
    by (simp only: forLoop_Suc forLoop_0)
  then show ?thesis by (simp add: numeral_3_eq_3 numeral_2_eq_2)
qed

text \<open>
  A property of one particle's slots after the whole loop: it is enough that the body for
  that particle establishes it from what held of the particle before, and that the bodies
  of the other particles keep both.
\<close>

lemma forLoop_particle:
  assumes "i < n"
    and "H s"
    and Hpres: "\<And>j t. j \<noteq> i \<Longrightarrow> H t \<Longrightarrow> H (body j t)"
    and est: "\<And>t. H t \<Longrightarrow> Q (body i t)"
    and Qpres: "\<And>j t. j \<noteq> i \<Longrightarrow> Q t \<Longrightarrow> Q (body j t)"
  shows "Q (forLoop n body s)"
proof -
  have "(i < n \<longrightarrow> Q (forLoop n body s)) \<and> (n \<le> i \<longrightarrow> H (forLoop n body s))"
  proof (induction n)
    case 0
    show ?case using \<open>H s\<close> by (simp add: forLoop_0)
  next
    case (Suc n)
    show ?case
    proof (cases "i = n")
      case True
      then show ?thesis using Suc est by (simp add: forLoop_Suc)
    next
      case False
      then show ?thesis using Suc Hpres[of n] Qpres[of n] by (auto simp: forLoop_Suc)
    qed
  qed
  then show ?thesis using \<open>i < n\<close> by simp
qed

lemma minus_Num [simp]: "Num a - Num b = Num (a - b)"
  by (simp add: minus_number_def)

lemma isFinite_iff: "isFinite a = (\<exists>r. a = Num r)"
  by (cases a) simp_all

lemma isNaN_iff: "isNaN a = (a = NaN)"
  by (cases a) simp_all

lemma less_eq_Num [simp]: "(Num a \<le> Num b) = (a \<le> b)"
  by (auto simp: less_eq_number_def)

lemma isNaN_plus [simp]: "isNaN a \<Longrightarrow> isNaN (a + b)"
  by (cases a; cases b) simp_all

lemma Math_max_Num [simp]: "Math_max (Num a) (Num b) = Num (max a b)"
  by (simp add: Math_max_def max_def)

lemma Math_min_Num [simp]: "Math_min (Num a) (Num b) = Num (min a b)"
  by (simp add: Math_min_def min_def)

lemma clamp_Num [simp]: "clamp (Num a) (Num lo) (Num hi) = Num (min (max a lo) hi)"
  by (simp add: clamp_def)

lemma orElse_Num [simp]: "orElse (Num a) (Num b) = Num (if a = 0 then b else a)"
  by (simp add: orElse_def)

lemma arrayGet_in: "k < length xs \<Longrightarrow> arrayGet xs k = xs ! k"
  by (simp add: arrayGet_def)

lemma arrayGet_update_same [simp]: "k < length xs \<Longrightarrow> arrayGet (xs[k := v]) k = v"
  by (simp add: arrayGet_def)

lemma arrayGet_update:
  "arrayGet (xs[m := v]) k = (if k = m \<and> m < length xs then v else arrayGet xs k)"
  by (simp add: arrayGet_def)

lemma arrayGet_update_other [simp]: "k \<noteq> m \<Longrightarrow> arrayGet (xs[m := v]) k = arrayGet xs k"
  by (simp add: arrayGet_def)

section \<open>Rounding to single precision\<close>

lemma fround_simps [simp]:
  "fround NaN = NaN" "fround Infinity = Infinity" "fround NegInfinity = NegInfinity"
  "fround (Num 0) = Num 0"
  by (simp_all add: fround_def)

lemma isNaN_fround [simp]: "isNaN (fround a) = isNaN a"
  by (cases a) (simp_all add: fround_def Let_def)

lemma roundHalfEven_error: "\<bar>of_int (roundHalfEven m) - m\<bar> \<le> 1 / 2"
proof -
  have "of_int \<lfloor>m\<rfloor> \<le> m" "m < of_int \<lfloor>m\<rfloor> + 1" by linarith+
  then show ?thesis by (auto simp: roundHalfEven_def Let_def)
qed

lemma int_abs_less_1: "\<bar>real_of_int k\<bar> < 1 \<Longrightarrow> k = 0"
  by linarith

lemma roundHalfEven_near:
  assumes "\<bar>of_int n - m\<bar> < 1 / 2"
  shows "roundHalfEven m = n"
proof -
  have 1: "of_int \<lfloor>m\<rfloor> \<le> m" "m < of_int \<lfloor>m\<rfloor> + 1" by linarith+
  show ?thesis
  proof (cases "m - of_int \<lfloor>m\<rfloor> < 1 / 2")
    case True
    with assms 1 have "\<bar>real_of_int (n - \<lfloor>m\<rfloor>)\<bar> < 1" unfolding of_int_diff by linarith
    then have "n = \<lfloor>m\<rfloor>" using int_abs_less_1 by fastforce
    then show ?thesis using True by (simp add: roundHalfEven_def Let_def)
  next
    case False
    with assms 1 have "\<bar>real_of_int (n - (\<lfloor>m\<rfloor> + 1))\<bar> < 1"
      unfolding of_int_diff of_int_add of_int_1 by linarith
    then have n: "n = \<lfloor>m\<rfloor> + 1" using int_abs_less_1 by fastforce
    from assms have "1 / 2 < m - of_int \<lfloor>m\<rfloor>" unfolding n of_int_add of_int_1 by linarith
    with n show ?thesis by (simp add: roundHalfEven_def Let_def)
  qed
qed

text \<open>The unit in the last place of a non-zero number, as \<open>fround\<close> computes it.\<close>

lemma ulp_bound:
  assumes "x \<noteq> 0"
  shows "0 < (2::real) powr (of_int (max \<lfloor>log 2 \<bar>x\<bar>\<rfloor> (- 126)) - 23)"
    and "(2::real) powr (of_int (max \<lfloor>log 2 \<bar>x\<bar>\<rfloor> (- 126)) - 23) \<le> max (\<bar>x\<bar> / 2 ^ 23) (1 / 2 ^ 149)"
proof -
  show "0 < (2::real) powr (of_int (max \<lfloor>log 2 \<bar>x\<bar>\<rfloor> (- 126)) - 23)" by simp
  have ax: "0 < \<bar>x\<bar>" using assms by simp
  show "(2::real) powr (of_int (max \<lfloor>log 2 \<bar>x\<bar>\<rfloor> (- 126)) - 23) \<le> max (\<bar>x\<bar> / 2 ^ 23) (1 / 2 ^ 149)"
  proof (cases "- 126 \<le> \<lfloor>log 2 \<bar>x\<bar>\<rfloor>")
    case True
    then have m: "max \<lfloor>log 2 \<bar>x\<bar>\<rfloor> (- 126) = \<lfloor>log 2 \<bar>x\<bar>\<rfloor>" by simp
    have "(2::real) powr (of_int \<lfloor>log 2 \<bar>x\<bar>\<rfloor>) \<le> 2 powr (log 2 \<bar>x\<bar>)"
      by (rule powr_mono) simp_all
    also have "\<dots> = \<bar>x\<bar>" using ax by simp
    finally have "(2::real) powr (of_int \<lfloor>log 2 \<bar>x\<bar>\<rfloor>) \<le> \<bar>x\<bar>" .
    then have "(2::real) powr (of_int \<lfloor>log 2 \<bar>x\<bar>\<rfloor> - 23) \<le> \<bar>x\<bar> / 2 ^ 23"
      by (simp add: powr_diff divide_right_mono)
    then show ?thesis unfolding m by simp
  next
    case False
    then have m: "max \<lfloor>log 2 \<bar>x\<bar>\<rfloor> (- 126) = - 126" by simp
    have "(2::real) powr (of_int (- 126) - 23) = (1 / 2 ^ 149 :: real)"
      by (simp add: powr_minus_divide)
    then show ?thesis unfolding m by simp
  qed
qed

lemma fround_cases:
  "(\<exists>y. fround (Num x) = Num y \<and> \<bar>y - x\<bar> \<le> max (\<bar>x\<bar> / 2 ^ 24) (1 / 2 ^ 150) \<and> \<bar>y\<bar> < 2 ^ 128)
   \<or> (fround (Num x) = Infinity \<and> 0 < x \<and> 2 ^ 128 \<le> \<bar>x\<bar> + max (\<bar>x\<bar> / 2 ^ 24) (1 / 2 ^ 150))
   \<or> (fround (Num x) = NegInfinity \<and> x < 0
        \<and> 2 ^ 128 \<le> \<bar>x\<bar> + max (\<bar>x\<bar> / 2 ^ 24) (1 / 2 ^ 150))"
proof (cases "x = 0")
  case True
  then show ?thesis by simp
next
  case False
  define u :: real where "u = 2 powr (of_int (max \<lfloor>log 2 \<bar>x\<bar>\<rfloor> (- 126)) - 23)"
  define y where "y = of_int (roundHalfEven (x / u)) * u"
  have u: "0 < u" "u \<le> max (\<bar>x\<bar> / 2 ^ 23) (1 / 2 ^ 149)"
    unfolding u_def using ulp_bound[OF False] by simp_all
  have "y - x = (of_int (roundHalfEven (x / u)) - x / u) * u"
    using u(1) by (simp add: y_def field_simps)
  then have "\<bar>y - x\<bar> = \<bar>of_int (roundHalfEven (x / u)) - x / u\<bar> * u"
    using u(1) by (simp add: abs_mult)
  also have "\<dots> \<le> (1 / 2) * u"
    using roundHalfEven_error[of "x / u"] u(1) by (intro mult_right_mono) simp_all
  also have "\<dots> \<le> (1 / 2) * max (\<bar>x\<bar> / 2 ^ 23) (1 / 2 ^ 149)"
    using u(2) by simp
  also have "\<dots> = max (\<bar>x\<bar> / 2 ^ 24) (1 / 2 ^ 150)" by (simp add: max_def)
  finally have err: "\<bar>y - x\<bar> \<le> max (\<bar>x\<bar> / 2 ^ 24) (1 / 2 ^ 150)" .
  have eq: "fround (Num x) = (if 2 ^ 128 \<le> \<bar>y\<bar> then (if 0 < x then Infinity else NegInfinity)
                 else Num y)"
    using False by (simp add: fround_def Let_def u_def y_def)
  show ?thesis
  proof (cases "2 ^ 128 \<le> \<bar>y\<bar>")
    case True
    have "\<bar>y\<bar> \<le> \<bar>x\<bar> + \<bar>y - x\<bar>" by linarith
    with True err have "2 ^ 128 \<le> \<bar>x\<bar> + max (\<bar>x\<bar> / 2 ^ 24) (1 / 2 ^ 150)" by linarith
    then show ?thesis using eq True False by auto
  next
    case False
    then show ?thesis using eq err by auto
  qed
qed

lemma fround_bounded:
  assumes "\<bar>x\<bar> \<le> 2 ^ 127"
  shows "\<exists>y. fround (Num x) = Num y \<and> \<bar>y - x\<bar> \<le> max (\<bar>x\<bar> / 2 ^ 24) (1 / 2 ^ 150)"
proof -
  have "\<bar>x\<bar> / 2 ^ 24 \<le> 2 ^ 127" using assms by (simp add: field_simps)
  moreover have "(1 / 2 ^ 150 :: real) \<le> 2 ^ 127" by simp
  ultimately have "max (\<bar>x\<bar> / 2 ^ 24) (1 / 2 ^ 150) \<le> 2 ^ 127" by simp
  with assms have "\<bar>x\<bar> + max (\<bar>x\<bar> / 2 ^ 24) (1 / 2 ^ 150) < 2 ^ 128" by simp
  with fround_cases[of x] show ?thesis by auto
qed

lemma fround_not_NaN [simp]: "fround (Num x) \<noteq> NaN"
  using fround_cases[of x] by auto

text \<open>Evaluating \<open>fround\<close>: the exponent and the rounded significand are given.\<close>

lemma fround_eval:
  assumes e: "2 powr (of_int e) \<le> \<bar>x\<bar>" "\<bar>x\<bar> < 2 powr (of_int e + 1)" "- 126 \<le> e"
    and n: "\<bar>of_int n - x / 2 powr (of_int e - 23)\<bar> < 1 / 2"
    and fin: "\<bar>of_int n * (2::real) powr (of_int e - 23)\<bar> < 2 ^ 128"
  shows "fround (Num x) = Num (of_int n * 2 powr (of_int e - 23))"
proof -
  have pos: "0 < \<bar>x\<bar>" using e(1) by (smt (verit) powr_gt_zero)
  then have x0: "x \<noteq> 0" by simp
  have "of_int e \<le> log 2 \<bar>x\<bar>" using e(1) pos by (simp add: le_log_iff)
  moreover have "log 2 \<bar>x\<bar> < of_int e + 1" using e(2) pos by (simp add: log_less_iff)
  ultimately have "\<lfloor>log 2 \<bar>x\<bar>\<rfloor> = e" by linarith
  then have m: "max \<lfloor>log 2 \<bar>x\<bar>\<rfloor> (- 126) = e" using e(3) by simp
  have r: "roundHalfEven (x / 2 powr (of_int e - 23)) = n" using n by (rule roundHalfEven_near)
  show ?thesis using x0 fin by (simp add: fround_def Let_def m r)
qed

lemma fround_2_01: "fround (Num 2.01) = Num (8430551 / 4194304)"
proof -
  have "fround (Num 2.01) = Num (of_int 8430551 * 2 powr (of_int 1 - 23))"
    by (rule fround_eval) (simp_all add: powr_minus_divide)
  also have "(of_int 8430551 * 2 powr (of_int 1 - 23) :: real) = 8430551 / 4194304"
    by (simp add: powr_minus_divide)
  finally show ?thesis .
qed

section \<open>Properties of the galaxy generator\<close>

lemma coreStarCount_div: "coreStarCount n = n div 10"
proof -
  have "of_int n * (0.1 :: rat) = of_int n / of_int 10" by simp
  then show ?thesis unfolding coreStarCount_def by (simp only: floor_divide_of_int_eq)
qed

lemma armStarCount_div: "armStarCount n = n div 2"
proof -
  have "of_int n * (0.5 :: rat) = of_int n / of_int 2" by simp
  then show ?thesis unfolding armStarCount_def by (simp only: floor_divide_of_int_eq)
qed

lemma haloStarCount_div: "haloStarCount n = n div 5"
proof -
  have "of_int n * (0.2 :: rat) = of_int n / of_int 5" by simp
  then show ?thesis unfolding haloStarCount_def by (simp only: floor_divide_of_int_eq)
qed

lemma nebulaParticleCount_div: "nebulaParticleCount n = n div 10"
proof -
  have "of_int n * (0.1 :: rat) = of_int n / of_int 10" by simp
  then show ?thesis unfolding nebulaParticleCount_def by (simp only: floor_divide_of_int_eq)
qed

text \<open>
  C3. For every particle count \<open>N\<close> the five sub-population sizes computed by
  \<^verbatim>\<open>createGalaxySystem\<close> (core = floor(0.1 N), arm = floor(0.5 N), halo = floor(0.2 N),
  nebula = floor(0.1 N), dust = the remainder) add up to exactly \<open>N\<close>; the four floors are
  the integer quotients \<open>N div 10\<close>, \<open>N div 2\<close>, \<open>N div 5\<close> and \<open>N div 10\<close>.
\<close>

theorem population_sum:
  "coreStarCount N + armStarCount N + haloStarCount N + nebulaParticleCount N
     + dustParticleCount N = N
   \<and> coreStarCount N = N div 10 \<and> armStarCount N = N div 2
   \<and> haloStarCount N = N div 5 \<and> nebulaParticleCount N = N div 10"
  by (simp add: dustParticleCount_def coreStarCount_div armStarCount_div haloStarCount_div
      nebulaParticleCount_div)

lemma writeParticle_loop:
  "forLoop n (writeParticle st) l = l @ map (\<lambda>i. plainWrites (st + int i)) [0..<n]"
proof (induction n)
  case 0
  show ?case by (simp add: forLoop_0)
next
  case (Suc n)
  show ?case
    unfolding forLoop_Suc Suc.IH
    by (simp add: writeParticle_def plainWrites_def Let_def)
qed

lemma writeArmParticle_loop:
  "forLoop n (writeArmParticle st) l = l @ map (\<lambda>i. armWrites (st + int i)) [0..<n]"
proof (induction n)
  case 0
  show ?case by (simp add: forLoop_0)
next
  case (Suc n)
  show ?case
    unfolding forLoop_Suc Suc.IH
    by (simp add: writeArmParticle_def armWrites_def Let_def)
qed

lemma nebulaBody_loop:
  "forLoop n (nebulaBody st c) l
     = l @ map (\<lambda>i. plainWrites (st + int i))
             (filter (\<lambda>i. nebulaIndex c i < nebulaCount c) [0..<n])"
proof (induction n)
  case 0
  show ?case by (simp add: forLoop_0)
next
  case (Suc n)
  show ?case
    unfolding forLoop_Suc Suc.IH
    by (simp add: nebulaBody_def writeParticle_def plainWrites_def Let_def)
qed

lemma createGalaxySystem_log:
  "createGalaxySystem N =
     (map (\<lambda>i. plainWrites (0 + int i)) [0..<nat (coreStarCount N)]
      @ map (\<lambda>i. armWrites ((0 + coreStarCount N) + int i)) [0..<nat (armStarCount N)]
      @ map (\<lambda>i. plainWrites ((0 + coreStarCount N + armStarCount N) + int i))
          [0..<nat (haloStarCount N)]
      @ map (\<lambda>i. plainWrites ((0 + coreStarCount N + armStarCount N + haloStarCount N) + int i))
          (filter (\<lambda>i. nebulaIndex (nebulaParticleCount N) i < nebulaCount (nebulaParticleCount N))
             [0..<nat (nebulaParticleCount N)])
      @ map (\<lambda>i. plainWrites ((0 + coreStarCount N + armStarCount N + haloStarCount N
                                  + nebulaParticleCount N) + int i))
          [0..<nat (dustParticleCount N)],
      coreStarCount N + armStarCount N + haloStarCount N + nebulaParticleCount N + dustParticleCount N)"
  unfolding createGalaxySystem_def createGalaxyCore_def createSpiralArms_def createHaloStars_def
    createNebulaClouds_def createDustParticles_def Let_def prod.case writeParticle_loop
    writeArmParticle_loop nebulaBody_loop
  by (simp add: emptyLog_def)

lemma sizes_of_log:
  "concat (map sizesW (fst (createGalaxySystem N))) = written N"
  unfolding createGalaxySystem_log fst_conv written_def
  by (simp add: plainWrites_def armWrites_def comp_def concat_map_singleton)

lemma int_div_less_iff:
  assumes "0 < (d::int)"
  shows "(a div d < k) = (a < k * d)"
proof
  assume "a div d < k"
  then have "a div d + 1 \<le> k" by simp
  then have "(a div d + 1) * d \<le> k * d" using assms by (simp add: mult_right_mono)
  then have le: "d * (a div d) + d \<le> k * d" by (simp add: algebra_simps)
  have r: "a mod d < d" using assms by simp
  have "d * (a div d) + a mod d = a" by simp
  then show "a < k * d" using le r by linarith
next
  assume h: "a < k * d"
  have "d * (a div d) \<le> a" using assms
    by (metis mult_div_mod_eq pos_mod_sign le_add_same_cancel1)
  then have "(a div d) * d < k * d" using h by (simp add: mult.commute)
  then show "a div d < k" using assms by (simp add: mult_less_cancel_right)
qed

lemma mult_div_le_int:
  assumes "0 < (k::int)"
  shows "k * (c div k) \<le> c"
  using assms by (metis mult_div_mod_eq pos_mod_sign le_add_same_cancel1)

lemma filter_less_upt: "filter (\<lambda>i. i < m) [0..<n] = [0..<min m n]"
proof (induction n)
  case 0
  show ?case by simp
next
  case (Suc n)
  show ?case
  proof (cases "n < m")
    case True
    then have "min m (Suc n) = Suc (min m n)" by (simp add: min_def)
    then show ?thesis using Suc True by simp
  next
    case False
    then show ?thesis using Suc by (simp add: min_def)
  qed
qed

lemma nebula_filter:
  assumes "0 \<le> c"
  shows "filter (\<lambda>i. nebulaIndex c i < nebulaCount c) [0..<nat c]
     = [0..<nat (if nebulaCount c = 0 then 0 else nebulaCount c * (c div nebulaCount c))]"
proof (cases "nebulaCount c = 0")
  case True
  then show ?thesis by (simp add: nebulaIndex_def particlesPerNebula_def)
next
  case False
  define k where "k = nebulaCount c"
  define d where "d = c div k"
  have k0: "0 \<le> k" using assms unfolding k_def nebulaCount_def by simp
  with False have k1: "0 < k" unfolding k_def by simp
  have "k \<le> c div 100" unfolding k_def nebulaCount_def by simp
  also have "\<dots> \<le> c" using assms by (cases "c = 0") (simp_all add: int_div_le_self)
  finally have kc: "k \<le> c" .
  have "k div k \<le> c div k" using kc k1 by (rule zdiv_mono1)
  then have d1: "0 < d" unfolding d_def using k1 by simp
  have kd: "k * d \<le> c" unfolding d_def using k1 by (rule mult_div_le_int)
  have iff: "(int i div d < k) = (i < nat (k * d))" for i :: nat
  proof -
    have "0 \<le> k * d" using k0 d1 by simp
    then show ?thesis using d1 by (simp add: int_div_less_iff) linarith
  qed
  have "filter (\<lambda>i. nebulaIndex c i < nebulaCount c) [0..<nat c]
      = filter (\<lambda>i. i < nat (k * d)) [0..<nat c]"
    using False by (simp add: nebulaIndex_def particlesPerNebula_def k_def[symmetric] d_def[symmetric] iff)
  also have "\<dots> = [0..<nat (k * d)]"
    using kd by (simp add: filter_less_upt min_def)
  finally show ?thesis using False by (simp add: k_def d_def)
qed

lemma set_shift_upt: "set (map (\<lambda>i. s + int i) [0..<nat c]) = {s..<s + c}"
proof (intro set_eqI iffI)
  fix k assume "k \<in> set (map (\<lambda>i. s + int i) [0..<nat c])"
  then show "k \<in> {s..<s + c}" by auto
next
  fix k assume h: "k \<in> {s..<s + c}"
  then have "k = s + int (nat (k - s))" and "nat (k - s) < nat c" by auto
  then show "k \<in> set (map (\<lambda>i. s + int i) [0..<nat c])"
    by (metis (no_types, lifting) atLeast0LessThan imageI lessThan_iff list.set_map set_upt)
qed

lemma distinct_shift_upt: "distinct (map (\<lambda>i. s + int i) [0..<n])"
  by (simp add: distinct_map inj_on_def)

lemma written_eq:
  assumes "0 \<le> N"
  shows "written N =
     map (\<lambda>i. 0 + int i) [0..<nat (coreStarCount N)]
     @ map (\<lambda>i. (0 + coreStarCount N) + int i) [0..<nat (armStarCount N)]
     @ map (\<lambda>i. (0 + coreStarCount N + armStarCount N) + int i) [0..<nat (haloStarCount N)]
     @ map (\<lambda>i. (0 + coreStarCount N + armStarCount N + haloStarCount N) + int i)
         [0..<nat (if nebulaCount (nebulaParticleCount N) = 0 then 0
                   else nebulaCount (nebulaParticleCount N)
                          * (nebulaParticleCount N div nebulaCount (nebulaParticleCount N)))]
     @ map (\<lambda>i. (0 + coreStarCount N + armStarCount N + haloStarCount N + nebulaParticleCount N) + int i)
         [0..<nat (dustParticleCount N)]"
proof -
  have "0 \<le> nebulaParticleCount N" using assms by (simp add: nebulaParticleCount_div)
  then show ?thesis unfolding written_def by (simp only: nebula_filter)
qed

lemma nebulaWritten_bounds:
  assumes "0 \<le> c"
  shows "0 \<le> (if nebulaCount c = 0 then 0 else nebulaCount c * (c div nebulaCount c))"
    and "(if nebulaCount c = 0 then 0 else nebulaCount c * (c div nebulaCount c)) \<le> c"
proof -
  have k0: "0 \<le> nebulaCount c" using assms unfolding nebulaCount_def by simp
  show "(if nebulaCount c = 0 then 0 else nebulaCount c * (c div nebulaCount c)) \<le> c"
    using assms k0 by (simp add: mult_div_le_int)
  have "0 \<le> c div nebulaCount c" using assms k0 by (cases "nebulaCount c = 0") (simp_all add: pos_imp_zdiv_nonneg_iff)
  then show "0 \<le> (if nebulaCount c = 0 then 0 else nebulaCount c * (c div nebulaCount c))"
    using k0 by simp
qed

lemma counts_nonneg:
  assumes "0 \<le> N"
  shows "0 \<le> coreStarCount N" "0 \<le> armStarCount N" "0 \<le> haloStarCount N"
    "0 \<le> nebulaParticleCount N" "0 \<le> dustParticleCount N" "N \<le> 10 * dustParticleCount N"
  using assms
  by (simp_all add: dustParticleCount_def coreStarCount_div armStarCount_div haloStarCount_div
      nebulaParticleCount_div)

lemma written_set:
  assumes "0 \<le> N"
  shows "set (written N) = {0..<N} -
     {coreStarCount N + armStarCount N + haloStarCount N
        + (if nebulaCount (nebulaParticleCount N) = 0 then 0
           else nebulaCount (nebulaParticleCount N)
                  * (nebulaParticleCount N div nebulaCount (nebulaParticleCount N)))
      ..< coreStarCount N + armStarCount N + haloStarCount N + nebulaParticleCount N}"
proof -
  define w where "w = (if nebulaCount (nebulaParticleCount N) = 0 then 0
           else nebulaCount (nebulaParticleCount N)
                  * (nebulaParticleCount N div nebulaCount (nebulaParticleCount N)))"
  note cn = counts_nonneg[OF assms]
  have w: "0 \<le> w" "w \<le> nebulaParticleCount N"
    unfolding w_def using nebulaWritten_bounds[OF cn(4)] by simp_all
  have sum: "coreStarCount N + armStarCount N + haloStarCount N + nebulaParticleCount N
     + dustParticleCount N = N" by (simp add: dustParticleCount_def)
  show ?thesis
    unfolding written_eq[OF assms] w_def[symmetric] set_append set_shift_upt
    using cn w sum by auto
qed

lemma written_distinct:
  assumes "0 \<le> N"
  shows "distinct (written N)"
proof -
  define w where "w = (if nebulaCount (nebulaParticleCount N) = 0 then 0
           else nebulaCount (nebulaParticleCount N)
                  * (nebulaParticleCount N div nebulaCount (nebulaParticleCount N)))"
  note cn = counts_nonneg[OF assms]
  have w: "0 \<le> w" "w \<le> nebulaParticleCount N"
    unfolding w_def using nebulaWritten_bounds[OF cn(4)] by simp_all
  show ?thesis
    unfolding written_eq[OF assms] w_def[symmetric] distinct_append set_append set_shift_upt
    using cn w distinct_shift_upt[of 0] by (auto simp: distinct_shift_upt)
qed

lemma iteration_of_log:
  assumes "0 \<le> N" and "it \<in> set (fst (createGalaxySystem N))"
  shows "\<exists>k \<in> set (written N).
           (it = plainWrites k
              \<and> \<not> (coreStarCount N \<le> k \<and> k < coreStarCount N + armStarCount N))
         \<or> (it = armWrites k \<and> coreStarCount N \<le> k \<and> k < coreStarCount N + armStarCount N)"
proof -
  note cn = counts_nonneg[OF assms(1)]
  from assms(2) consider
      (core) i where "i < nat (coreStarCount N)" "it = plainWrites (0 + int i)"
    | (arm) i where "i < nat (armStarCount N)" "it = armWrites ((0 + coreStarCount N) + int i)"
    | (halo) i where "i < nat (haloStarCount N)"
        "it = plainWrites ((0 + coreStarCount N + armStarCount N) + int i)"
    | (nebula) i where "i < nat (nebulaParticleCount N)"
        "nebulaIndex (nebulaParticleCount N) i < nebulaCount (nebulaParticleCount N)"
        "it = plainWrites ((0 + coreStarCount N + armStarCount N + haloStarCount N) + int i)"
    | (dust) i where "i < nat (dustParticleCount N)"
        "it = plainWrites ((0 + coreStarCount N + armStarCount N + haloStarCount N
                                  + nebulaParticleCount N) + int i)"
    unfolding createGalaxySystem_log fst_conv by auto
  then show ?thesis
  proof cases
    case core
    then show ?thesis unfolding written_def using cn by (intro bexI[of _ "0 + int i"]) auto
  next
    case arm
    then show ?thesis unfolding written_def using cn
      by (intro bexI[of _ "(0 + coreStarCount N) + int i"]) auto
  next
    case halo
    then show ?thesis unfolding written_def using cn
      by (intro bexI[of _ "(0 + coreStarCount N + armStarCount N) + int i"]) auto
  next
    case nebula
    then show ?thesis unfolding written_def using cn
      by (intro bexI[of _ "(0 + coreStarCount N + armStarCount N + haloStarCount N) + int i"]) auto
  next
    case dust
    then show ?thesis unfolding written_def using cn
      by (intro bexI[of _ "(0 + coreStarCount N + armStarCount N + haloStarCount N
                                  + nebulaParticleCount N) + int i"]) auto
  qed
qed



section \<open>Array updates and what a loop body may touch\<close>

lemma length_addAt [simp]: "length (addAt xs k v) = length xs"
  by (simp add: addAt_def)

lemma length_subAt [simp]: "length (subAt xs k v) = length xs"
  by (simp add: subAt_def)

lemma length_mulAt [simp]: "length (mulAt xs k v) = length xs"
  by (simp add: mulAt_def)

lemma length_zeroIfNaN [simp]: "length (zeroIfNaN xs k) = length xs"
  by (simp add: zeroIfNaN_def)

lemma NaN_plus [simp]: "NaN + v = NaN"
  by (cases v) simp_all

lemma NaN_times [simp]: "NaN * v = NaN"
  by (cases v) simp_all

lemma NaN_minus [simp]: "NaN - v = NaN"
  by (simp add: minus_number_def)

lemma arrayGet_out [simp]: "\<not> k < length xs \<Longrightarrow> arrayGet xs k = NaN"
  by (simp add: arrayGet_def)

lemma arrayGet_addAt:
  "arrayGet (addAt xs m v) k = (if k = m then arrayGet xs m + v else arrayGet xs k)"
  by (cases "m < length xs") (simp_all add: addAt_def)

lemma arrayGet_subAt:
  "arrayGet (subAt xs m v) k = (if k = m then arrayGet xs m - v else arrayGet xs k)"
  by (cases "m < length xs") (simp_all add: subAt_def)

lemma arrayGet_mulAt:
  "arrayGet (mulAt xs m v) k = (if k = m then arrayGet xs m * v else arrayGet xs k)"
  by (cases "m < length xs") (simp_all add: mulAt_def)

lemma arrayGet_zeroIfNaN:
  "arrayGet (zeroIfNaN xs m) k
     = (if k = m \<and> m < length xs \<and> isNaN (arrayGet xs m) then Num 0 else arrayGet xs k)"
  by (cases "m < length xs") (auto simp: zeroIfNaN_def list_update_beyond)

lemma vec3At_addAt_other:
  assumes "j \<noteq> i"
  shows "vec3At (addAt xs (j * 3) v) i = vec3At xs i"
    and "vec3At (addAt xs (Suc (j * 3)) v) i = vec3At xs i"
    and "vec3At (addAt xs (Suc (Suc (j * 3))) v) i = vec3At xs i"
  using assms by (simp_all add: vec3At_def arrayGet_addAt)

lemma vec3At_subAt_other:
  assumes "j \<noteq> i"
  shows "vec3At (subAt xs (j * 3) v) i = vec3At xs i"
    and "vec3At (subAt xs (Suc (j * 3)) v) i = vec3At xs i"
    and "vec3At (subAt xs (Suc (Suc (j * 3))) v) i = vec3At xs i"
  using assms by (simp_all add: vec3At_def arrayGet_subAt)

lemma vec3At_mulAt_other:
  assumes "j \<noteq> i"
  shows "vec3At (mulAt xs (j * 3) v) i = vec3At xs i"
    and "vec3At (mulAt xs (Suc (j * 3)) v) i = vec3At xs i"
    and "vec3At (mulAt xs (Suc (Suc (j * 3))) v) i = vec3At xs i"
  using assms by (simp_all add: vec3At_def arrayGet_mulAt)

lemma vec3At_update_other:
  assumes "j \<noteq> i"
  shows "vec3At (xs[j * 3 := v]) i = vec3At xs i"
    and "vec3At (xs[Suc (j * 3) := v]) i = vec3At xs i"
    and "vec3At (xs[Suc (Suc (j * 3)) := v]) i = vec3At xs i"
  using assms by (simp_all add: vec3At_def)

lemma vec3At_zeroIfNaN_other:
  assumes "j \<noteq> i"
  shows "vec3At (zeroIfNaN xs (j * 3)) i = vec3At xs i"
    and "vec3At (zeroIfNaN xs (Suc (j * 3))) i = vec3At xs i"
    and "vec3At (zeroIfNaN xs (Suc (Suc (j * 3)))) i = vec3At xs i"
  using assms by (simp_all add: vec3At_def arrayGet_zeroIfNaN)

lemmas vec3At_other = vec3At_addAt_other vec3At_subAt_other vec3At_mulAt_other
  vec3At_update_other vec3At_zeroIfNaN_other

lemma slotsOf_applyAudioReactivity:
  "j \<noteq> i \<Longrightarrow> slotsOf i (applyAudioReactivity cfg f j a) = slotsOf i a"
  by (simp add: slotsOf_def applyAudioReactivity_def Let_def vec3At_other split: option.splits)

lemma slotsOf_updateVelocities:
  "j \<noteq> i \<Longrightarrow> slotsOf i (updateVelocities cfg f j a) = slotsOf i a"
  by (simp add: slotsOf_def updateVelocities_def Let_def vec3At_other)

lemma slotsOf_applyVelocities:
  "j \<noteq> i \<Longrightarrow> slotsOf i (applyVelocities j a) = slotsOf i a"
  by (simp add: slotsOf_def applyVelocities_def Let_def vec3At_other)

lemma slotsOf_containment:
  "j \<noteq> i \<Longrightarrow> slotsOf i (containment j a) = slotsOf i a"
  by (simp add: slotsOf_def containment_def Let_def vec3At_other)

lemma protectNaN_eq:
  "protectNaN i a = a\<lparr>positions := zeroIfNaN (zeroIfNaN (zeroIfNaN (positions a) (i * 3 + 0)) (i * 3 + 1)) (i * 3 + 2),
       velocities := zeroIfNaN (zeroIfNaN (zeroIfNaN (velocities a) (i * 3 + 0)) (i * 3 + 1)) (i * 3 + 2)\<rparr>"
proof -
  have step: "(let a = (if isNaN (arrayGet (positions a) k)
                  then a\<lparr>positions := (positions a)[k := Num 0]\<rparr> else a);
             a = (if isNaN (arrayGet (velocities a) k)
                  then a\<lparr>velocities := (velocities a)[k := Num 0]\<rparr> else a)
         in a) = a\<lparr>positions := zeroIfNaN (positions a) k, velocities := zeroIfNaN (velocities a) k\<rparr>"
    for k and a :: attributes
    unfolding Let_def zeroIfNaN_def by simp
  show ?thesis
    unfolding protectNaN_def Let_def[of "i * 3"] forLoop_3 step by simp
qed

lemma slotsOf_protectNaN:
  "j \<noteq> i \<Longrightarrow> slotsOf i (protectNaN j a) = slotsOf i a"
  by (simp add: slotsOf_def protectNaN_eq vec3At_other)

lemma slotsOf_particleEffect:
  "j \<noteq> i \<Longrightarrow> slotsOf i (particleEffect cfg f j a) = slotsOf i a"
  by (simp add: particleEffect_def Let_def slotsOf_applyAudioReactivity slotsOf_updateVelocities
      slotsOf_applyVelocities slotsOf_containment slotsOf_protectNaN)

lemma slotsOf_resetAcceleration:
  "j \<noteq> i \<Longrightarrow> slotsOf i (resetAcceleration j a) = slotsOf i a"
  by (simp add: slotsOf_def resetAcceleration_def Let_def vec3At_other)

lemma slotsOf_addAcceleration:
  "j \<noteq> i \<Longrightarrow> slotsOf i (addAcceleration j acc a) = slotsOf i a"
  by (simp add: slotsOf_def addAcceleration_def Let_def vec3At_other)

lemma slotsOf_applyGravity:
  "j \<noteq> i \<Longrightarrow> slotsOf i (applyGravity gs m p d j a) = slotsOf i a"
  by (simp add: applyGravity_def Let_def slotsOf_addAcceleration)

lemma slotsOf_mouseInteraction:
  "j \<noteq> i \<Longrightarrow> slotsOf i (mouseInteraction cfg f p j a) = slotsOf i a"
  by (simp add: mouseInteraction_def Let_def slotsOf_addAcceleration)

lemma slotsOf_integrate:
  "j \<noteq> i \<Longrightarrow> slotsOf i (integrate gs j a) = slotsOf i a"
  by (simp add: slotsOf_def integrate_def Let_def vec3At_other)

lemma slotsOf_limitVelocity:
  "j \<noteq> i \<Longrightarrow> slotsOf i (limitVelocity j a) = slotsOf i a"
  by (simp add: slotsOf_def limitVelocity_def Let_def vec3At_other)

lemma slotsOf_pullBack:
  "j \<noteq> i \<Longrightarrow> slotsOf i (pullBack gs p d j a) = slotsOf i a"
  by (simp add: slotsOf_def pullBack_def Let_def vec3At_other)

lemma finalSafetyCheck_eq:
  "finalSafetyCheck i a = a\<lparr>
       positions := zeroIfNaN (zeroIfNaN (zeroIfNaN (positions a) (i * 3 + 0)) (i * 3 + 1)) (i * 3 + 2),
       velocities := zeroIfNaN (zeroIfNaN (zeroIfNaN (velocities a) (i * 3 + 0)) (i * 3 + 1)) (i * 3 + 2),
       accelerations := zeroIfNaN (zeroIfNaN (zeroIfNaN (accelerations a) (i * 3 + 0)) (i * 3 + 1)) (i * 3 + 2)\<rparr>"
proof -
  have step: "(let a = (if isNaN (arrayGet (positions a) k)
                  then a\<lparr>positions := (positions a)[k := Num 0]\<rparr> else a);
             a = (if isNaN (arrayGet (velocities a) k)
                  then a\<lparr>velocities := (velocities a)[k := Num 0]\<rparr> else a);
             a = (if isNaN (arrayGet (accelerations a) k)
                  then a\<lparr>accelerations := (accelerations a)[k := Num 0]\<rparr> else a)
         in a) = a\<lparr>positions := zeroIfNaN (positions a) k, velocities := zeroIfNaN (velocities a) k,
                accelerations := zeroIfNaN (accelerations a) k\<rparr>"
    for k and a :: attributes
    unfolding Let_def zeroIfNaN_def by simp
  show ?thesis
    unfolding finalSafetyCheck_def Let_def[of "i * 3"] forLoop_3 step by simp
qed

lemma slotsOf_finalSafetyCheck:
  "j \<noteq> i \<Longrightarrow> slotsOf i (finalSafetyCheck j a) = slotsOf i a"
  by (simp add: slotsOf_def finalSafetyCheck_eq vec3At_other)

lemma slotsOf_galaxyParticle:
  "j \<noteq> i \<Longrightarrow> slotsOf i (galaxyParticle cfg f j a) = slotsOf i a"
  by (simp add: galaxyParticle_def Let_def slotsOf_resetAcceleration slotsOf_applyGravity
      slotsOf_mouseInteraction slotsOf_integrate slotsOf_limitVelocity slotsOf_pullBack
      slotsOf_finalSafetyCheck)

text \<open>No NaN after the checks\<close>

lemma zeroIfNaN3_not_NaN:
  assumes "k < length xs" and "i * 3 \<le> k" and "k < i * 3 + 3"
  shows "arrayGet (zeroIfNaN (zeroIfNaN (zeroIfNaN xs (i * 3 + 0)) (i * 3 + 1)) (i * 3 + 2)) k
        = (if isNaN (arrayGet xs k) then Num 0 else arrayGet xs k)"
proof -
  from assms have "k = i * 3 \<or> k = i * 3 + 1 \<or> k = i * 3 + 2" by arith
  then show ?thesis using assms(1) by (auto simp: arrayGet_zeroIfNaN)
qed

lemma slotsOf_arrayGet:
  assumes "slotsOf i a = slotsOf i b" and "k div 3 = i"
  shows "arrayGet (positions a) k = arrayGet (positions b) k"
    and "arrayGet (velocities a) k = arrayGet (velocities b) k"
    and "arrayGet (accelerations a) k = arrayGet (accelerations b) k"
    and "arrayGet (colors a) k = arrayGet (colors b) k"
proof -
  from assms(2) have "k = i * 3 \<or> k = i * 3 + 1 \<or> k = i * 3 + 2" by arith
  with assms(1) show "arrayGet (positions a) k = arrayGet (positions b) k"
    and "arrayGet (velocities a) k = arrayGet (velocities b) k"
    and "arrayGet (accelerations a) k = arrayGet (accelerations b) k"
    and "arrayGet (colors a) k = arrayGet (colors b) k"
    by (auto simp: slotsOf_def vec3At_def)
qed

lemma slotsOf_length:
  assumes "slotsOf i a = slotsOf i b"
  shows "length (positions a) = length (positions b)"
    and "length (velocities a) = length (velocities b)"
    and "length (accelerations a) = length (accelerations b)"
    and "length (colors a) = length (colors b)"
    and "length (sizes a) = length (sizes b)"
    and "length (masses a) = length (masses b)"
  using assms by (simp_all add: slotsOf_def)

lemma protectNaN_positions:
  assumes "k < length (positions a)" and "k div 3 = i"
  shows "arrayGet (positions (protectNaN i a)) k
     = (if isNaN (arrayGet (positions a) k) then Num 0 else arrayGet (positions a) k)"
proof -
  from assms(2) have "i * 3 \<le> k" "k < i * 3 + 3" by arith+
  from zeroIfNaN3_not_NaN[OF assms(1) this] show ?thesis by (simp add: protectNaN_eq)
qed

lemma protectNaN_velocities:
  assumes "k < length (velocities a)" and "k div 3 = i"
  shows "arrayGet (velocities (protectNaN i a)) k
     = (if isNaN (arrayGet (velocities a) k) then Num 0 else arrayGet (velocities a) k)"
proof -
  from assms(2) have "i * 3 \<le> k" "k < i * 3 + 3" by arith+
  from zeroIfNaN3_not_NaN[OF assms(1) this] show ?thesis by (simp add: protectNaN_eq)
qed

lemma finalSafetyCheck_positions:
  assumes "k < length (positions a)" and "k div 3 = i"
  shows "arrayGet (positions (finalSafetyCheck i a)) k
     = (if isNaN (arrayGet (positions a) k) then Num 0 else arrayGet (positions a) k)"
proof -
  from assms(2) have "i * 3 \<le> k" "k < i * 3 + 3" by arith+
  from zeroIfNaN3_not_NaN[OF assms(1) this] show ?thesis by (simp add: finalSafetyCheck_eq)
qed

lemma finalSafetyCheck_velocities:
  assumes "k < length (velocities a)" and "k div 3 = i"
  shows "arrayGet (velocities (finalSafetyCheck i a)) k
     = (if isNaN (arrayGet (velocities a) k) then Num 0 else arrayGet (velocities a) k)"
proof -
  from assms(2) have "i * 3 \<le> k" "k < i * 3 + 3" by arith+
  from zeroIfNaN3_not_NaN[OF assms(1) this] show ?thesis by (simp add: finalSafetyCheck_eq)
qed

lemma finalSafetyCheck_accelerations:
  assumes "k < length (accelerations a)" and "k div 3 = i"
  shows "arrayGet (accelerations (finalSafetyCheck i a)) k
     = (if isNaN (arrayGet (accelerations a) k) then Num 0 else arrayGet (accelerations a) k)"
proof -
  from assms(2) have "i * 3 \<le> k" "k < i * 3 + 3" by arith+
  from zeroIfNaN3_not_NaN[OF assms(1) this] show ?thesis by (simp add: finalSafetyCheck_eq)
qed

lemma length_protectNaN [simp]:
  "length (positions (protectNaN i a)) = length (positions a)"
  "length (velocities (protectNaN i a)) = length (velocities a)"
  by (simp_all add: protectNaN_eq)

lemma length_finalSafetyCheck [simp]:
  "length (positions (finalSafetyCheck i a)) = length (positions a)"
  "length (velocities (finalSafetyCheck i a)) = length (velocities a)"
  "length (accelerations (finalSafetyCheck i a)) = length (accelerations a)"
  by (simp_all add: finalSafetyCheck_eq)

text \<open>Evaluation on array literals.\<close>

lemma arrayGet_Nil: "arrayGet [] k = NaN"
  by (simp add: arrayGet_def)

lemma arrayGet_Cons_0: "arrayGet (x # xs) 0 = x"
  by (simp add: arrayGet_def)

lemma arrayGet_Cons_Suc: "arrayGet (x # xs) (Suc k) = arrayGet xs k"
  by (simp add: arrayGet_def)

lemma addAt_Cons_0: "addAt (x # xs) 0 v = (x + v) # xs"
  by (simp add: addAt_def arrayGet_def)

lemma addAt_Cons_Suc: "addAt (x # xs) (Suc k) v = x # addAt xs k v"
  by (simp add: addAt_def arrayGet_def)

lemma subAt_Cons_0: "subAt (x # xs) 0 v = (x - v) # xs"
  by (simp add: subAt_def arrayGet_def)

lemma subAt_Cons_Suc: "subAt (x # xs) (Suc k) v = x # subAt xs k v"
  by (simp add: subAt_def arrayGet_def)

lemma mulAt_Cons_0: "mulAt (x # xs) 0 v = (x * v) # xs"
  by (simp add: mulAt_def arrayGet_def)

lemma mulAt_Cons_Suc: "mulAt (x # xs) (Suc k) v = x # mulAt xs k v"
  by (simp add: mulAt_def arrayGet_def)

lemma zeroIfNaN_Cons_0: "zeroIfNaN (x # xs) 0 = (if isNaN x then Num 0 else x) # xs"
  by (simp add: zeroIfNaN_def arrayGet_def)

lemma zeroIfNaN_Cons_Suc: "zeroIfNaN (x # xs) (Suc k) = x # zeroIfNaN xs k"
  by (simp add: zeroIfNaN_def arrayGet_def)

lemmas evalArray = arrayGet_Nil arrayGet_Cons_0 arrayGet_Cons_Suc addAt_Cons_0 addAt_Cons_Suc
  subAt_Cons_0 subAt_Cons_Suc mulAt_Cons_0 mulAt_Cons_Suc zeroIfNaN_Cons_0 zeroIfNaN_Cons_Suc
  numeral_2_eq_2 infinityOfSign_def

text \<open>The updates keep the length of every array.\<close>

lemma lengthsOf_blocks [simp]:
  "lengthsOf (applyAudioReactivity cfg f i a) = lengthsOf a"
  "lengthsOf (updateVelocities cfg f i a) = lengthsOf a"
  "lengthsOf (applyVelocities i a) = lengthsOf a"
  "lengthsOf (containment i a) = lengthsOf a"
  "lengthsOf (protectNaN i a) = lengthsOf a"
  "lengthsOf (resetAcceleration i a) = lengthsOf a"
  "lengthsOf (addAcceleration i acc a) = lengthsOf a"
  "lengthsOf (integrate gs i a) = lengthsOf a"
  "lengthsOf (limitVelocity i a) = lengthsOf a"
  "lengthsOf (pullBack gs p d i a) = lengthsOf a"
  "lengthsOf (finalSafetyCheck i a) = lengthsOf a"
  by (simp_all add: lengthsOf_def Let_def applyAudioReactivity_def
      updateVelocities_def applyVelocities_def containment_def protectNaN_eq
      resetAcceleration_def addAcceleration_def integrate_def limitVelocity_def pullBack_def
      finalSafetyCheck_eq split: option.splits)

lemma lengthsOf_forces [simp]:
  "lengthsOf (applyGravity gs m p d i a) = lengthsOf a"
  "lengthsOf (mouseInteraction cfg f p i a) = lengthsOf a"
  by (simp_all add: applyGravity_def mouseInteraction_def Let_def)

lemma lengthsOf_particleEffect: "lengthsOf (particleEffect cfg f i a) = lengthsOf a"
  by (simp add: particleEffect_def Let_def)

lemma lengthsOf_galaxyParticle: "lengthsOf (galaxyParticle cfg f i a) = lengthsOf a"
  by (simp add: galaxyParticle_def Let_def)

lemma lengthsOf_forLoop:
  assumes "\<And>i t. lengthsOf (body i t) = lengthsOf t"
  shows "lengthsOf (forLoop n body a) = lengthsOf a"
  by (induction n) (simp_all add: forLoop_0 forLoop_Suc assms)

lemma lengthsOf_animate: "lengthsOf (animate cfg f a) = lengthsOf a"
  by (simp add: animate_def updateParticleEffects_def updateGalaxyPhysics_def
      lengthsOf_forLoop lengthsOf_particleEffect lengthsOf_galaxyParticle)

lemma lengthsOf_animateFrames: "lengthsOf (animateFrames fs a) = lengthsOf a"
  unfolding animateFrames_def
  by (induction fs arbitrary: a) (auto simp: lengthsOf_animate)

section \<open>NaN protection of the per-frame updates\<close>

lemma particleEffect_noNaN:
  assumes "k div 3 = i"
  shows "noNaNAt k (positions (particleEffect cfg f i a))"
    and "noNaNAt k (velocities (particleEffect cfg f i a))"
  using assms
  by (simp_all add: particleEffect_def Let_def noNaNAt_def protectNaN_positions
      protectNaN_velocities)

lemma galaxyParticle_noNaN:
  assumes "k div 3 = i"
  shows "noNaNAt k (positions (galaxyParticle cfg f i a))"
    and "noNaNAt k (velocities (galaxyParticle cfg f i a))"
    and "noNaNAt k (accelerations (galaxyParticle cfg f i a))"
  using assms
  by (simp_all add: galaxyParticle_def Let_def noNaNAt_def finalSafetyCheck_positions
      finalSafetyCheck_velocities finalSafetyCheck_accelerations)

lemma updateParticleEffects_noNaN:
  assumes "k < 3 * particleCount cfg"
  shows "noNaNAt k (positions (updateParticleEffects cfg f a))
       \<and> noNaNAt k (velocities (updateParticleEffects cfg f a))"
  unfolding updateParticleEffects_def
proof (rule forLoop_particle[where i = "k div 3" and H = "\<lambda>_. True"])
  show "k div 3 < particleCount cfg" using assms by simp
next
  fix j and t :: attributes assume "j \<noteq> k div 3"
    and "noNaNAt k (positions t) \<and> noNaNAt k (velocities t)"
  then show "noNaNAt k (positions (particleEffect cfg f j t))
       \<and> noNaNAt k (velocities (particleEffect cfg f j t))"
    using slotsOf_arrayGet[OF slotsOf_particleEffect[of j "k div 3" cfg f t], of k]
       slotsOf_length[OF slotsOf_particleEffect[of j "k div 3" cfg f t]]
    by (simp add: noNaNAt_def)
qed (simp_all add: particleEffect_noNaN)

lemma updateGalaxyPhysics_noNaN:
  assumes "k < 3 * particleCount cfg"
  shows "noNaNAt k (positions (updateGalaxyPhysics cfg f a))
       \<and> noNaNAt k (velocities (updateGalaxyPhysics cfg f a))
       \<and> noNaNAt k (accelerations (updateGalaxyPhysics cfg f a))"
  unfolding updateGalaxyPhysics_def
proof (rule forLoop_particle[where i = "k div 3" and H = "\<lambda>_. True"])
  show "k div 3 < particleCount cfg" using assms by simp
next
  fix j and t :: attributes assume "j \<noteq> k div 3"
    and "noNaNAt k (positions t) \<and> noNaNAt k (velocities t) \<and> noNaNAt k (accelerations t)"
  then show "noNaNAt k (positions (galaxyParticle cfg f j t))
       \<and> noNaNAt k (velocities (galaxyParticle cfg f j t))
       \<and> noNaNAt k (accelerations (galaxyParticle cfg f j t))"
    using slotsOf_arrayGet[OF slotsOf_galaxyParticle[of j "k div 3" cfg f t], of k]
       slotsOf_length[OF slotsOf_galaxyParticle[of j "k div 3" cfg f t]]
    by (simp add: noNaNAt_def)
qed (simp_all add: galaxyParticle_noNaN)

lemma animateFrames_snoc:
  "animateFrames (fs @ [(cfg, f)]) a = animate cfg f (animateFrames fs a)"
  by (simp add: animateFrames_def)

lemma drift_one: "updateParticleEffects driftConfig f a = particleEffect driftConfig f 0 a"
  by (simp add: updateParticleEffects_def forLoop_def driftConfig_def)



text \<open>
  A velocity component that holds \<open>Infinity\<close> is not \<open>NaN\<close>, so the check lets it
  stand: the update of a drift-mode particle with velocity \<open>(Infinity, 0, 0)\<close> ends with
  the same infinite velocity component. The same happens from an all-finite store when
  the window is zero pixels wide (\<open>windowHalfX = 0\<close>) and the pointer is at \<open>x = 1\<close>: the
  pointer offset is \<open>1 / 0 = Infinity\<close> and enters the velocity.
\<close>

lemma drift_keeps_Infinity: "velocities (updateParticleEffects driftConfig quietFrame
          (oneParticle (Vector3 (Num 0) (Num 0) (Num 0)) (Vector3 Infinity (Num 0) (Num 0))))
       = [Infinity, Num 0.000588, Num 0]
   \<and> positions (updateParticleEffects driftConfig quietFrame
          (oneParticle (Vector3 (Num 0) (Num 0) (Num 0)) (Vector3 Infinity (Num 0) (Num 0))))
       = [Num 0, Num 0, Num 0]"
proof -
  define s0 where "s0 = oneParticle (Vector3 (Num 0) (Num 0) (Num 0)) (Vector3 Infinity (Num 0) (Num 0))"
  have 1: "applyAudioReactivity driftConfig quietFrame 0 s0 = s0"
    by (simp add: applyAudioReactivity_def quietFrame_def driftConfig_def s0_def oneParticle_def)
  have 2: "updateVelocities driftConfig quietFrame 0 s0
      = s0\<lparr>velocities := [Infinity, Num 0.000588, Num 0]\<rparr>"
    by (simp add: updateVelocities_def quietFrame_def driftConfig_def s0_def oneParticle_def
        evalArray)
  have 3: "applyVelocities 0 (s0\<lparr>velocities := [Infinity, Num 0.000588, Num 0]\<rparr>)
      = s0\<lparr>velocities := [Infinity, Num 0.000588, Num 0],
            positions := [Infinity, Num 0.000588, Num 0]\<rparr>"
    by (simp add: applyVelocities_def s0_def oneParticle_def evalArray)
  have 4: "containment 0 (s0\<lparr>velocities := [Infinity, Num 0.000588, Num 0],
            positions := [Infinity, Num 0.000588, Num 0]\<rparr>)
      = s0\<lparr>velocities := [Infinity, Num 0.000588, Num 0],
            positions := [NaN, Num 0, Num 0]\<rparr>"
    by (simp add: containment_def s0_def oneParticle_def evalArray Let_def)
  have 5: "protectNaN 0 (s0\<lparr>velocities := [Infinity, Num 0.000588, Num 0],
            positions := [NaN, Num 0, Num 0]\<rparr>)
      = s0\<lparr>velocities := [Infinity, Num 0.000588, Num 0],
            positions := [Num 0, Num 0, Num 0]\<rparr>"
    by (simp add: protectNaN_eq s0_def oneParticle_def evalArray)
  show ?thesis
    unfolding drift_one particleEffect_def Let_def s0_def[symmetric] 1 2 3 4 5 by simp
qed


lemma drift_zero_width_window:
  "velocities (updateParticleEffects driftConfig
          (quietFrame\<lparr>mouseX := Num 1, windowHalfX := Num 0\<rparr>)
          (oneParticle (Vector3 (Num 0) (Num 0) (Num 0)) (Vector3 (Num 0) (Num 0) (Num 0))))
       = [Infinity, Num 0.000588, Num 0]"
proof -
  define s0 where "s0 = oneParticle (Vector3 (Num 0) (Num 0) (Num 0)) (Vector3 (Num 0) (Num 0) (Num 0))"
  define f where "f = quietFrame\<lparr>mouseX := Num 1, windowHalfX := Num 0\<rparr>"
  have 1: "applyAudioReactivity driftConfig f 0 s0 = s0"
    by (simp add: applyAudioReactivity_def f_def quietFrame_def driftConfig_def s0_def
        oneParticle_def)
  have 2: "updateVelocities driftConfig f 0 s0
      = s0\<lparr>velocities := [Infinity, Num 0.000588, Num 0]\<rparr>"
    by (simp add: updateVelocities_def f_def quietFrame_def driftConfig_def s0_def oneParticle_def
        evalArray)
  have 3: "applyVelocities 0 (s0\<lparr>velocities := [Infinity, Num 0.000588, Num 0]\<rparr>)
      = s0\<lparr>velocities := [Infinity, Num 0.000588, Num 0],
            positions := [Infinity, Num 0.000588, Num 0]\<rparr>"
    by (simp add: applyVelocities_def s0_def oneParticle_def evalArray)
  have 4: "containment 0 (s0\<lparr>velocities := [Infinity, Num 0.000588, Num 0],
            positions := [Infinity, Num 0.000588, Num 0]\<rparr>)
      = s0\<lparr>velocities := [Infinity, Num 0.000588, Num 0],
            positions := [NaN, Num 0, Num 0]\<rparr>"
    by (simp add: containment_def s0_def oneParticle_def evalArray Let_def)
  have 5: "protectNaN 0 (s0\<lparr>velocities := [Infinity, Num 0.000588, Num 0],
            positions := [NaN, Num 0, Num 0]\<rparr>)
      = s0\<lparr>velocities := [Infinity, Num 0.000588, Num 0],
            positions := [Num 0, Num 0, Num 0]\<rparr>"
    by (simp add: protectNaN_eq s0_def oneParticle_def evalArray)
  show ?thesis
    unfolding drift_one particleEffect_def Let_def s0_def[symmetric] f_def[symmetric] 1 2 3 4 5
    by simp
qed


section \<open>Drift mode: finite values\<close>

lemma sumsq_nonneg: "0 \<le> x * x + y * y + z * (z::real)"
  by (simp add: add_nonneg_nonneg)

lemma sumsq_not_neg [simp]: "(x * x + y * y + z * (z::real) < 0) = False"
proof -
  have "\<not> (x * x + y * y + z * z < 0)" using sumsq_nonneg[of x y z] by linarith
  then show ?thesis by (rule eq_False[THEN iffD2])
qed

lemma sqrt_sumsq_scale:
  assumes "0 \<le> c"
  shows "sqrt ((x * c) * (x * c) + (y * c) * (y * c) + (z * c) * (z * c))
       = c * sqrt (x * x + y * y + z * z)"
proof -
  have "(x * c) * (x * c) + (y * c) * (y * c) + (z * c) * (z * c)
      = (c * c) * (x * x + y * y + z * z)" by (simp add: algebra_simps)
  then show ?thesis using assms by (simp add: real_sqrt_mult)
qed

lemma finiteVectorE:
  assumes "finiteVector v"
  obtains x y z where "v = Vector3 (Num x) (Num y) (Num z)"
  using assms by (cases v) (auto simp: finiteVector_def isFinite_iff)

lemma finiteVector_Num [simp]: "finiteVector (Vector3 (Num x) (Num y) (Num z))"
  by (simp add: finiteVector_def)

lemma vlength_Num [simp]:
  "vlength (Vector3 (Num x) (Num y) (Num z)) = Num (sqrt (x * x + y * y + z * z))"
  by (simp add: vlength_def lengthSq_def)

lemma vec3At_components:
  assumes "vec3At xs i = Vector3 a b c"
  shows "arrayGet xs (i * 3) = a" "arrayGet xs (Suc (i * 3)) = b"
    "arrayGet xs (Suc (Suc (i * 3))) = c"
  using assms by (simp_all add: vec3At_def)

lemma updateVelocities_own:
  assumes "finiteVector (vec3At (velocities a) i)" and "finiteInputs cfg f"
  shows "finiteVector (vec3At (velocities (updateVelocities cfg f i a)) i)"
    and "positions (updateVelocities cfg f i a) = positions a"
proof -
  from assms(1) obtain u v w where v: "vec3At (velocities a) i = Vector3 (Num u) (Num v) (Num w)"
    by (rule finiteVectorE)
  from assms(2) obtain s k mx my wx wy where
    inp: "speed cfg = Num s" "interactionStrength cfg = Num k" "mouseX f = Num mx"
      "mouseY f = Num my" "windowHalfX f = Num wx" "windowHalfY f = Num wy" "wx \<noteq> 0" "wy \<noteq> 0"
    by (auto simp: finiteInputs_def isFinite_iff)
  show "finiteVector (vec3At (velocities (updateVelocities cfg f i a)) i)"
    by (simp add: updateVelocities_def Let_def vec3At_def arrayGet_addAt arrayGet_subAt
        arrayGet_mulAt vec3At_components[OF v] inp)
  show "positions (updateVelocities cfg f i a) = positions a"
    by (simp add: updateVelocities_def Let_def)
qed

lemma applyAudioReactivity_own:
  assumes "finiteVector (vec3At (velocities a) i)" and "finiteInputs cfg f"
  shows "finiteVector (vec3At (velocities (applyAudioReactivity cfg f i a)) i)"
    and "positions (applyAudioReactivity cfg f i a) = positions a"
proof -
  from assms(1) obtain u v w where v: "vec3At (velocities a) i = Vector3 (Num u) (Num v) (Num w)"
    by (rule finiteVectorE)
  from assms(2) obtain r where inp: "audioReactivity cfg = Num r"
    by (auto simp: finiteInputs_def isFinite_iff)
  show "finiteVector (vec3At (velocities (applyAudioReactivity cfg f i a)) i)"
    by (simp add: applyAudioReactivity_def Let_def vec3At_def arrayGet_addAt
        vec3At_components[OF v] inp assms(1)[unfolded vec3At_def] split: option.splits)
  show "positions (applyAudioReactivity cfg f i a) = positions a"
    by (simp add: applyAudioReactivity_def Let_def split: option.splits)
qed

lemma protectNaN_own:
  assumes "finiteVector (vec3At (positions a) i)"
  shows "vec3At (positions (protectNaN i a)) i = vec3At (positions a) i"
proof -
  from assms(1) obtain x y z where p: "vec3At (positions a) i = Vector3 (Num x) (Num y) (Num z)"
    by (rule finiteVectorE)
  show ?thesis
    by (simp add: protectNaN_eq vec3At_def arrayGet_zeroIfNaN vec3At_components[OF p])
qed

lemma slotsOf_vec3At:
  assumes "slotsOf i a = slotsOf i b"
  shows "vec3At (positions a) i = vec3At (positions b) i"
    and "vec3At (velocities a) i = vec3At (velocities b) i"
    and "vec3At (accelerations a) i = vec3At (accelerations b) i"
    and "arrayGet (masses a) i = arrayGet (masses b) i"
  using assms by (simp_all add: slotsOf_def)

section \<open>Vectors of finite numbers\<close>

lemma orElse_Num_0 [simp]: "orElse (Num a) (Num 0) = Num a"
  by (simp add: orElse_def)

lemma lengthSq_Num [simp]:
  "lengthSq (Vector3 (Num x) (Num y) (Num z)) = Num (x * x + y * y + z * z)"
  by (simp add: lengthSq_def)

lemma subVectors_Num [simp]:
  "subVectors (Vector3 (Num a) (Num b) (Num c)) (Vector3 (Num x) (Num y) (Num z))
     = Vector3 (Num (a - x)) (Num (b - y)) (Num (c - z))"
  by (simp add: subVectors_def)

lemma distanceTo_Num [simp]:
  "distanceTo (Vector3 (Num a) (Num b) (Num c)) (Vector3 (Num x) (Num y) (Num z))
     = Num (sqrt ((a - x) * (a - x) + (b - y) * (b - y) + (c - z) * (c - z)))"
  by (simp add: distanceTo_def)

lemma multiplyScalar_Num [simp]:
  "multiplyScalar (Vector3 (Num x) (Num y) (Num z)) (Num s)
     = Vector3 (Num (x * s)) (Num (y * s)) (Num (z * s))"
  by (simp add: multiplyScalar_def)

lemma sumsq_eq_0: "(x * x + y * y + z * z = (0::real)) = (x = 0 \<and> y = 0 \<and> z = 0)"
proof
  assume h: "x * x + y * y + z * z = 0"
  have "0 \<le> x * x" "0 \<le> y * y" "0 \<le> z * z" by simp_all
  with h have "x * x = 0" "y * y = 0" "z * z = 0" by linarith+
  then show "x = 0 \<and> y = 0 \<and> z = 0" by simp
qed simp

lemma normalize_Num:
  "normalize (Vector3 (Num x) (Num y) (Num z))
     = (if x * x + y * y + z * z = 0 then Vector3 (Num 0) (Num 0) (Num 0)
        else Vector3 (Num (x * (1 / sqrt (x * x + y * y + z * z))))
                     (Num (y * (1 / sqrt (x * x + y * y + z * z))))
                     (Num (z * (1 / sqrt (x * x + y * y + z * z)))))"
  by (auto simp add: normalize_def divideScalar_def sumsq_eq_0)

section \<open>Galaxy mode: gravity and the pull back\<close>

lemma norm3_triangle:
  "sqrt ((a + x) * (a + x) + (b + y) * (b + y) + (c + z) * (c + z))
     \<le> sqrt (a * a + b * b + c * c) + sqrt (x * x + y * y + z * (z::real))"
proof -
  define A where "A = sqrt (a\<^sup>2 + b\<^sup>2)"
  define X where "X = sqrt (x\<^sup>2 + y\<^sup>2)"
  have A0: "0 \<le> A" and X0: "0 \<le> X" by (simp_all add: A_def X_def)
  have "sqrt ((a + x)\<^sup>2 + (b + y)\<^sup>2) \<le> A + X"
    unfolding A_def X_def by (rule real_sqrt_sum_squares_triangle_ineq)
  then have "(sqrt ((a + x)\<^sup>2 + (b + y)\<^sup>2))\<^sup>2 \<le> (A + X)\<^sup>2"
    by (rule power_mono) simp
  then have le: "(a + x)\<^sup>2 + (b + y)\<^sup>2 \<le> (A + X)\<^sup>2" by simp
  have "sqrt ((a + x)\<^sup>2 + (b + y)\<^sup>2 + (c + z)\<^sup>2) \<le> sqrt ((A + X)\<^sup>2 + (c + z)\<^sup>2)"
    using le by simp
  also have "\<dots> \<le> sqrt (A\<^sup>2 + c\<^sup>2) + sqrt (X\<^sup>2 + z\<^sup>2)"
    by (rule real_sqrt_sum_squares_triangle_ineq)
  also have "\<dots> = sqrt (a\<^sup>2 + b\<^sup>2 + c\<^sup>2) + sqrt (x\<^sup>2 + y\<^sup>2 + z\<^sup>2)"
    by (simp add: A_def X_def)
  finally show ?thesis by (simp add: power2_eq_square)
qed

lemma norm3_unit:
  assumes "x * x + y * y + z * z \<noteq> (0::real)"
  shows "sqrt ((x * (1 / sqrt (x * x + y * y + z * z))) * (x * (1 / sqrt (x * x + y * y + z * z)))
     + (y * (1 / sqrt (x * x + y * y + z * z))) * (y * (1 / sqrt (x * x + y * y + z * z)))
     + (z * (1 / sqrt (x * x + y * y + z * z))) * (z * (1 / sqrt (x * x + y * y + z * z)))) = 1"
proof -
  have pos: "0 < sqrt (x * x + y * y + z * z)"
  proof -
    have "0 < x * x + y * y + z * z" using assms sumsq_nonneg[of x y z] by linarith
    then show ?thesis by simp
  qed
  then show ?thesis by (subst sqrt_sumsq_scale) simp_all
qed

lemma resetAcceleration_own:
  assumes "finiteVector (vec3At (accelerations a) i)"
  shows "vec3At (accelerations (resetAcceleration i a)) i = Vector3 (Num 0) (Num 0) (Num 0)"
proof -
  from assms have "i * 3 < length (accelerations a)" "Suc (i * 3) < length (accelerations a)"
    "Suc (Suc (i * 3)) < length (accelerations a)"
    by (auto simp: finiteVector_def vec3At_def arrayGet_def split: if_splits)
  then show ?thesis by (simp add: resetAcceleration_def Let_def vec3At_def arrayGet_update)
qed

lemma resetAcceleration_others [simp]:
  "positions (resetAcceleration i a) = positions a"
  "velocities (resetAcceleration i a) = velocities a"
  "masses (resetAcceleration i a) = masses a"
  by (simp_all add: resetAcceleration_def Let_def)

lemma addAcceleration_own:
  assumes "vec3At (accelerations a) i = Vector3 (Num ax) (Num ay) (Num az)"
  shows "vec3At (accelerations (addAcceleration i (Vector3 (Num gx) (Num gy) (Num gz)) a)) i
     = Vector3 (Num (ax + gx)) (Num (ay + gy)) (Num (az + gz))"
  by (simp add: addAcceleration_def Let_def vec3At_def arrayGet_addAt vec3At_components[OF assms])

lemma addAcceleration_others [simp]:
  "positions (addAcceleration i g a) = positions a"
  "velocities (addAcceleration i g a) = velocities a"
  "masses (addAcceleration i g a) = masses a"
  by (simp_all add: addAcceleration_def Let_def)

lemma applyGravity_others [simp]:
  "positions (applyGravity gs m p d i a) = positions a"
  "velocities (applyGravity gs m p d i a) = velocities a"
  "masses (applyGravity gs m p d i a) = masses a"
  by (simp_all add: applyGravity_def Let_def)

lemma mouseInteraction_others [simp]:
  "positions (mouseInteraction cfg f p i a) = positions a"
  "velocities (mouseInteraction cfg f p i a) = velocities a"
  "masses (mouseInteraction cfg f p i a) = masses a"
  by (simp_all add: mouseInteraction_def Let_def)

lemma applyGravity_own:
  assumes "vec3At (accelerations a) i = Vector3 (Num ax) (Num ay) (Num az)"
    and "blackHoleMass gs = Num M"
  shows "vec3At (accelerations (applyGravity gs (Num m) (Vector3 (Num x) (Num y) (Num z))
            (distanceTo (Vector3 (Num x) (Num y) (Num z)) blackHole) i a)) i
     = (if enableGravity gs \<and> 0.000001 < x * x + y * y + z * z then
          Vector3
            (Num (ax + (- x / sqrt (x * x + y * y + z * z))
                * ((0.01 * M * m / max (0.1 * 0.1) (sqrt (x * x + y * y + z * z) * sqrt (x * x + y * y + z * z))) / max 0.1 m)))
            (Num (ay + (- y / sqrt (x * x + y * y + z * z))
                * ((0.01 * M * m / max (0.1 * 0.1) (sqrt (x * x + y * y + z * z) * sqrt (x * x + y * y + z * z))) / max 0.1 m)))
            (Num (az + (- z / sqrt (x * x + y * y + z * z))
                * ((0.01 * M * m / max (0.1 * 0.1) (sqrt (x * x + y * y + z * z) * sqrt (x * x + y * y + z * z))) / max 0.1 m)))
        else Vector3 (Num ax) (Num ay) (Num az))"
proof (cases "enableGravity gs \<and> 0.000001 < x * x + y * y + z * z")
  case False
  then show ?thesis
    by (auto simp: applyGravity_def Let_def blackHole_def assms)
next
  case True
  then have nz: "x * x + y * y + z * z \<noteq> 0" by auto
  have m: "max (1 / 10) m \<noteq> 0" by (simp add: max_def)
  have d: "max (1 / 100) (x * x + y * y + z * z) \<noteq> 0" by (simp add: max_def)
  show ?thesis
    using True nz m d
    by (simp add: applyGravity_def Let_def blackHole_def assms(2) gravityConstant_def
        normalize_Num addAcceleration_own[OF assms(1)])
qed

lemma applyGravity_finite:
  assumes "finiteVector (vec3At (accelerations a) i)" and "isFinite (blackHoleMass gs)"
  shows "finiteVector (vec3At (accelerations (applyGravity gs (Num m) (Vector3 (Num x) (Num y) (Num z))
            (distanceTo (Vector3 (Num x) (Num y) (Num z)) blackHole) i a)) i)"
proof -
  from assms(1) obtain ax ay az where
    acc: "vec3At (accelerations a) i = Vector3 (Num ax) (Num ay) (Num az)"
    by (rule finiteVectorE)
  from assms(2) obtain M where M: "blackHoleMass gs = Num M" by (auto simp: isFinite_iff)
  show ?thesis unfolding applyGravity_own[OF acc M] by simp
qed

lemma mouseInteraction_finite:
  assumes "finiteVector (vec3At (accelerations a) i)" and "isFinite (interactionStrength cfg)"
    and "finiteVector (mousePosWorld f)"
  shows "finiteVector (vec3At (accelerations (mouseInteraction cfg f (Vector3 (Num x) (Num y) (Num z)) i a)) i)"
proof -
  from assms(1) obtain ax ay az where
    acc: "vec3At (accelerations a) i = Vector3 (Num ax) (Num ay) (Num az)"
    by (rule finiteVectorE)
  from assms(2) obtain k where k: "interactionStrength cfg = Num k" by (auto simp: isFinite_iff)
  from assms(3) obtain mx my mz where m: "mousePosWorld f = Vector3 (Num mx) (Num my) (Num mz)"
    by (rule finiteVectorE)
  have d: "max (1 / 10) d \<noteq> 0" for d :: real by (simp add: max_def)
  show ?thesis
    using d
    by (simp add: mouseInteraction_def Let_def k m normalize_Num addAcceleration_own[OF acc] acc)
qed

lemma integrate_own:
  assumes "finiteVector (vec3At (accelerations a) i)" and "finiteVector (vec3At (velocities a) i)"
    and "finiteVector (vec3At (positions a) i)" and "isFinite (stabilityFactor gs)"
  shows "finiteVector (vec3At (velocities (integrate gs i a)) i)"
    and "finiteVector (vec3At (positions (integrate gs i a)) i)"
proof -
  from assms(1) obtain ax ay az where
    acc: "vec3At (accelerations a) i = Vector3 (Num ax) (Num ay) (Num az)"
    by (rule finiteVectorE)
  from assms(2) obtain u v w where v: "vec3At (velocities a) i = Vector3 (Num u) (Num v) (Num w)"
    by (rule finiteVectorE)
  from assms(3) obtain x y z where p: "vec3At (positions a) i = Vector3 (Num x) (Num y) (Num z)"
    by (rule finiteVectorE)
  from assms(4) obtain s where s: "stabilityFactor gs = Num s" by (auto simp: isFinite_iff)
  show "finiteVector (vec3At (velocities (integrate gs i a)) i)"
    by (simp add: integrate_def Let_def vec3At_def arrayGet_addAt arrayGet_mulAt dt_def s
        vec3At_components[OF acc] vec3At_components[OF v])
  show "finiteVector (vec3At (positions (integrate gs i a)) i)"
    by (simp add: integrate_def Let_def vec3At_def arrayGet_addAt arrayGet_mulAt dt_def s
        vec3At_components[OF acc] vec3At_components[OF v] vec3At_components[OF p])
qed

lemma limitVelocity_positions [simp]: "positions (limitVelocity i a) = positions a"
  by (simp add: limitVelocity_def Let_def)

lemma pullBack_positions [simp]: "positions (pullBack gs p d i a) = positions a"
  by (simp add: pullBack_def Let_def)

lemma pullBack_own:
  assumes "vec3At (velocities a) i = Vector3 (Num u) (Num v) (Num w)"
    and "sqrt (u * u + v * v + w * w) \<le> 2"
    and "isFinite (galaxyRadius gs)"
  shows "finiteVector (vec3At (velocities (pullBack gs (Vector3 (Num x) (Num y) (Num z))
            (distanceTo (Vector3 (Num x) (Num y) (Num z)) blackHole) i a)) i)"
    and "vlength (vec3At (velocities (pullBack gs (Vector3 (Num x) (Num y) (Num z))
            (distanceTo (Vector3 (Num x) (Num y) (Num z)) blackHole) i a)) i) \<le> Num 2.01"
    and "\<not> (galaxyRadius gs * Num 5 < distanceTo (Vector3 (Num x) (Num y) (Num z)) blackHole)
       \<Longrightarrow> vec3At (velocities (pullBack gs (Vector3 (Num x) (Num y) (Num z))
            (distanceTo (Vector3 (Num x) (Num y) (Num z)) blackHole) i a)) i
          = vec3At (velocities a) i"
proof -
  from assms(3) obtain R where R: "galaxyRadius gs = Num R" by (auto simp: isFinite_iff)
  define S where "S = x * x + y * y + z * z"
  define pulled where "pulled = (R * 5 < sqrt S \<and> 0.000001 < S)"
  have cases: "vec3At (velocities (pullBack gs (Vector3 (Num x) (Num y) (Num z))
            (distanceTo (Vector3 (Num x) (Num y) (Num z)) blackHole) i a)) i
      = (if pulled then
           Vector3 (Num (u + (- x) * (1 / sqrt S) * 0.01)) (Num (v + (- y) * (1 / sqrt S) * 0.01))
                   (Num (w + (- z) * (1 / sqrt S) * 0.01))
         else Vector3 (Num u) (Num v) (Num w))"
    by (auto simp add: pullBack_def Let_def blackHole_def R normalize_Num vec3At_def
        arrayGet_addAt vec3At_components[OF assms(1)] S_def pulled_def)
  show "finiteVector (vec3At (velocities (pullBack gs (Vector3 (Num x) (Num y) (Num z))
            (distanceTo (Vector3 (Num x) (Num y) (Num z)) blackHole) i a)) i)"
    unfolding cases by simp
  show "\<not> (galaxyRadius gs * Num 5 < distanceTo (Vector3 (Num x) (Num y) (Num z)) blackHole)
       \<Longrightarrow> vec3At (velocities (pullBack gs (Vector3 (Num x) (Num y) (Num z))
            (distanceTo (Vector3 (Num x) (Num y) (Num z)) blackHole) i a)) i
          = vec3At (velocities a) i"
    unfolding cases by (simp add: R blackHole_def pulled_def S_def assms(1))
  show "vlength (vec3At (velocities (pullBack gs (Vector3 (Num x) (Num y) (Num z))
            (distanceTo (Vector3 (Num x) (Num y) (Num z)) blackHole) i a)) i) \<le> Num 2.01"
  proof (cases pulled)
    case False
    then show ?thesis unfolding cases using assms(2) by simp
  next
    case True
    then have nz: "(- x) * (- x) + (- y) * (- y) + (- z) * (- z) \<noteq> 0"
      by (simp add: pulled_def S_def)
    define c where "c = 1 / sqrt S"
    have c0: "0 \<le> c" using sumsq_nonneg[of x y z] by (simp add: c_def S_def)
    have unit: "sqrt (((- x) * c) * ((- x) * c) + ((- y) * c) * ((- y) * c) + ((- z) * c) * ((- z) * c)) = 1"
      using norm3_unit[OF nz] by (simp add: c_def S_def)
    have "sqrt ((((- x) * c) * 0.01) * (((- x) * c) * 0.01) + (((- y) * c) * 0.01) * (((- y) * c) * 0.01)
        + (((- z) * c) * 0.01) * (((- z) * c) * 0.01)) = 0.01 * 1"
      by (subst sqrt_sumsq_scale) (simp_all only: unit, simp)
    then have small: "sqrt ((((- x) * c) * 0.01) * (((- x) * c) * 0.01) + (((- y) * c) * 0.01) * (((- y) * c) * 0.01)
        + (((- z) * c) * 0.01) * (((- z) * c) * 0.01)) = 0.01" by simp
    have "sqrt ((u + ((- x) * c) * 0.01) * (u + ((- x) * c) * 0.01)
        + (v + ((- y) * c) * 0.01) * (v + ((- y) * c) * 0.01)
        + (w + ((- z) * c) * 0.01) * (w + ((- z) * c) * 0.01))
      \<le> sqrt (u * u + v * v + w * w) + 0.01"
      using norm3_triangle[of u "((- x) * c) * 0.01" v "((- y) * c) * 0.01" w "((- z) * c) * 0.01"]
      unfolding small .
    also have "\<dots> \<le> 2.01" using assms(2) by simp
    finally show ?thesis unfolding cases using True by (simp add: c_def)
  qed
qed

lemma finalSafetyCheck_own:
  assumes "finiteVector (vec3At (velocities a) i)"
  shows "vec3At (velocities (finalSafetyCheck i a)) i = vec3At (velocities a) i"
proof -
  from assms(1) obtain x y z where p: "vec3At (velocities a) i = Vector3 (Num x) (Num y) (Num z)"
    by (rule finiteVectorE)
  show ?thesis
    by (simp add: finalSafetyCheck_eq vec3At_def arrayGet_zeroIfNaN vec3At_components[OF p])
qed

lemma integrate_others [simp]:
  "accelerations (integrate gs i a) = accelerations a"
  "masses (integrate gs i a) = masses a"
  by (simp_all add: integrate_def Let_def)

lemma galaxy_one: "updateGalaxyPhysics galaxyConfig f a = galaxyParticle galaxyConfig f 0 a"
  by (simp add: updateGalaxyPhysics_def forLoop_def galaxyConfig_def driftConfig_def)

lemma sqrt_sumsq_scale_abs:
  "sqrt ((x * c) * (x * c) + (y * c) * (y * c) + (z * c) * (z * c))
       = \<bar>c\<bar> * sqrt (x * x + y * y + z * z)"
proof -
  have "(x * c) * (x * c) + (y * c) * (y * c) + (z * c) * (z * c)
      = (c * c) * (x * x + y * y + z * z)" by (simp add: algebra_simps)
  then show ?thesis by (simp add: real_sqrt_mult)
qed

lemma finalSafetyCheck_accelerations_own:
  assumes "finiteVector (vec3At (accelerations a) i)"
  shows "vec3At (accelerations (finalSafetyCheck i a)) i = vec3At (accelerations a) i"
proof -
  from assms(1) obtain x y z where p: "vec3At (accelerations a) i = Vector3 (Num x) (Num y) (Num z)"
    by (rule finiteVectorE)
  show ?thesis
    by (simp add: finalSafetyCheck_eq vec3At_def arrayGet_zeroIfNaN vec3At_components[OF p])
qed

lemma accelerations_kept [simp]:
  "accelerations (limitVelocity i a) = accelerations a"
  "accelerations (pullBack gs p d i a) = accelerations a"
  by (simp_all add: limitVelocity_def pullBack_def Let_def)

lemma galaxyParticle_acceleration:
  assumes p: "vec3At (positions a) i = Vector3 (Num x) (Num y) (Num z)"
    and m0: "arrayGet (masses a) i = Num m0"
    and fa: "finiteVector (vec3At (accelerations a) i)"
    and M: "blackHoleMass (galaxySettings cfg) = Num M"
    and g: "enableGravity (galaxySettings cfg)"
    and nm: "\<not> mouseDown f"
  shows "vec3At (accelerations (galaxyParticle cfg f i a)) i
     = (let mass = (if m0 = 0 then 1 else m0);
            dist = sqrt (x * x + y * y + z * z);
            force = (0.01 * M * mass / max (0.1 * 0.1) (dist * dist)) / max 0.1 mass
        in if 0.000001 < x * x + y * y + z * z
           then Vector3 (Num ((- x / dist) * force)) (Num ((- y / dist) * force))
                        (Num ((- z / dist) * force))
           else Vector3 (Num 0) (Num 0) (Num 0))"
proof -
  define gs where "gs = galaxySettings cfg"
  define position where "position = Vector3 (Num x) (Num y) (Num z)"
  define mass where "mass = (if m0 = 0 then 1 else m0)"
  define a1 where "a1 = resetAcceleration i a"
  define a2 where "a2 = applyGravity gs (Num mass) position (distanceTo position blackHole) i a1"
  have 1: "vec3At (accelerations a1) i = Vector3 (Num 0) (Num 0) (Num 0)"
    unfolding a1_def by (rule resetAcceleration_own[OF fa])
  have Mgs: "blackHoleMass gs = Num M" using M by (simp add: gs_def)
  have 2: "vec3At (accelerations a2) i
     = (if enableGravity gs \<and> 0.000001 < x * x + y * y + z * z then
          Vector3
            (Num (0 + (- x / sqrt (x * x + y * y + z * z))
                * ((0.01 * M * mass / max (0.1 * 0.1) (sqrt (x * x + y * y + z * z) * sqrt (x * x + y * y + z * z))) / max 0.1 mass)))
            (Num (0 + (- y / sqrt (x * x + y * y + z * z))
                * ((0.01 * M * mass / max (0.1 * 0.1) (sqrt (x * x + y * y + z * z) * sqrt (x * x + y * y + z * z))) / max 0.1 mass)))
            (Num (0 + (- z / sqrt (x * x + y * y + z * z))
                * ((0.01 * M * mass / max (0.1 * 0.1) (sqrt (x * x + y * y + z * z) * sqrt (x * x + y * y + z * z))) / max 0.1 mass)))
        else Vector3 (Num 0) (Num 0) (Num 0))"
    unfolding a2_def position_def by (rule applyGravity_own[OF 1 Mgs])
  have f2: "finiteVector (vec3At (accelerations a2) i)"
    unfolding 2 by simp
  have "accelerations (galaxyParticle cfg f i a)
      = accelerations (finalSafetyCheck i
          (pullBack gs position (distanceTo position blackHole) i
            (limitVelocity i (integrate gs i a2))))"
    using nm
    by (simp add: galaxyParticle_def Let_def a1_def a2_def gs_def position_def mass_def
        vec3At_components[OF p] m0 mouseInteraction_def)
  also have "vec3At \<dots> i = vec3At (accelerations a2) i"
    by (subst finalSafetyCheck_accelerations_own) (simp_all add: f2)
  finally show ?thesis
    unfolding 2 using g by (simp add: gs_def Let_def mass_def)
qed



section \<open>Single-precision stores: what a loop body may touch\<close>

lemma length_addAt32 [simp]: "length (addAt32 xs k v) = length xs"
  by (simp add: addAt32_def)

lemma length_subAt32 [simp]: "length (subAt32 xs k v) = length xs"
  by (simp add: subAt32_def)

lemma length_mulAt32 [simp]: "length (mulAt32 xs k v) = length xs"
  by (simp add: mulAt32_def)

lemma arrayGet_addAt32:
  "arrayGet (addAt32 xs m v) k = (if k = m then fround (arrayGet xs m + v) else arrayGet xs k)"
  by (cases "m < length xs") (simp_all add: addAt32_def)

lemma arrayGet_subAt32:
  "arrayGet (subAt32 xs m v) k = (if k = m then fround (arrayGet xs m - v) else arrayGet xs k)"
  by (cases "m < length xs") (simp_all add: subAt32_def)

lemma arrayGet_mulAt32:
  "arrayGet (mulAt32 xs m v) k = (if k = m then fround (arrayGet xs m * v) else arrayGet xs k)"
  by (cases "m < length xs") (simp_all add: mulAt32_def)

lemma vec3At_addAt32_other:
  assumes "j \<noteq> i"
  shows "vec3At (addAt32 xs (j * 3) v) i = vec3At xs i"
    and "vec3At (addAt32 xs (Suc (j * 3)) v) i = vec3At xs i"
    and "vec3At (addAt32 xs (Suc (Suc (j * 3))) v) i = vec3At xs i"
  using assms by (simp_all add: vec3At_def arrayGet_addAt32)

lemma vec3At_subAt32_other:
  assumes "j \<noteq> i"
  shows "vec3At (subAt32 xs (j * 3) v) i = vec3At xs i"
    and "vec3At (subAt32 xs (Suc (j * 3)) v) i = vec3At xs i"
    and "vec3At (subAt32 xs (Suc (Suc (j * 3))) v) i = vec3At xs i"
  using assms by (simp_all add: vec3At_def arrayGet_subAt32)

lemma vec3At_mulAt32_other:
  assumes "j \<noteq> i"
  shows "vec3At (mulAt32 xs (j * 3) v) i = vec3At xs i"
    and "vec3At (mulAt32 xs (Suc (j * 3)) v) i = vec3At xs i"
    and "vec3At (mulAt32 xs (Suc (Suc (j * 3))) v) i = vec3At xs i"
  using assms by (simp_all add: vec3At_def arrayGet_mulAt32)

lemmas vec3At_other32 = vec3At_addAt32_other vec3At_subAt32_other vec3At_mulAt32_other

lemma length_store32 [simp]: "length (store32 xs k v) = length xs"
  by (simp add: store32_def)

lemma arrayGet_store32_other: "k \<noteq> m \<Longrightarrow> arrayGet (store32 xs m v) k = arrayGet xs k"
  by (simp add: store32_def)

lemma slotsOf_applyAudioReactivity32:
  "j \<noteq> i \<Longrightarrow> slotsOf i (applyAudioReactivity32 cfg f j a) = slotsOf i a"
  by (simp add: slotsOf_def applyAudioReactivity32_def Let_def vec3At_other32
      arrayGet_store32_other split: option.splits)

lemma slotsOf_updateVelocities32:
  "j \<noteq> i \<Longrightarrow> slotsOf i (updateVelocities32 cfg f j a) = slotsOf i a"
  by (simp add: slotsOf_def updateVelocities32_def Let_def vec3At_other32)

lemma slotsOf_applyVelocities32:
  "j \<noteq> i \<Longrightarrow> slotsOf i (applyVelocities32 j a) = slotsOf i a"
  by (simp add: slotsOf_def applyVelocities32_def Let_def vec3At_other32)

lemma slotsOf_containment32:
  "j \<noteq> i \<Longrightarrow> slotsOf i (containment32 j a) = slotsOf i a"
  by (simp add: slotsOf_def containment32_def Let_def vec3At_other32)

lemma slotsOf_particleEffect32:
  "j \<noteq> i \<Longrightarrow> slotsOf i (particleEffect32 cfg f j a) = slotsOf i a"
  by (simp add: particleEffect32_def Let_def slotsOf_applyAudioReactivity32
      slotsOf_updateVelocities32 slotsOf_applyVelocities32 slotsOf_containment32
      slotsOf_protectNaN)

lemma slotsOf_addAcceleration32:
  "j \<noteq> i \<Longrightarrow> slotsOf i (addAcceleration32 j acc a) = slotsOf i a"
  by (simp add: slotsOf_def addAcceleration32_def Let_def vec3At_other32)

lemma slotsOf_applyGravity32:
  "j \<noteq> i \<Longrightarrow> slotsOf i (applyGravity32 gs m p d j a) = slotsOf i a"
  by (simp add: applyGravity32_def Let_def slotsOf_addAcceleration32)

lemma slotsOf_mouseInteraction32:
  "j \<noteq> i \<Longrightarrow> slotsOf i (mouseInteraction32 cfg f p j a) = slotsOf i a"
  by (simp add: mouseInteraction32_def Let_def slotsOf_addAcceleration32)

lemma slotsOf_integrate32:
  "j \<noteq> i \<Longrightarrow> slotsOf i (integrate32 gs j a) = slotsOf i a"
  by (simp add: slotsOf_def integrate32_def Let_def vec3At_other32)

lemma slotsOf_limitVelocity32:
  "j \<noteq> i \<Longrightarrow> slotsOf i (limitVelocity32 j a) = slotsOf i a"
  by (simp add: slotsOf_def limitVelocity32_def Let_def vec3At_other32)

lemma slotsOf_pullBack32:
  "j \<noteq> i \<Longrightarrow> slotsOf i (pullBack32 gs p d j a) = slotsOf i a"
  by (simp add: slotsOf_def pullBack32_def Let_def vec3At_other32)

lemma slotsOf_galaxyParticle32:
  "j \<noteq> i \<Longrightarrow> slotsOf i (galaxyParticle32 cfg f j a) = slotsOf i a"
  by (simp add: galaxyParticle32_def Let_def slotsOf_resetAcceleration slotsOf_applyGravity32
      slotsOf_mouseInteraction32 slotsOf_integrate32 slotsOf_limitVelocity32 slotsOf_pullBack32
      slotsOf_finalSafetyCheck)

text \<open>\<open>NaN\<close> and the arithmetic with a finite operand.\<close>

lemma isNaN_plus_Num [simp]: "isNaN (a + Num r) = isNaN a"
  by (cases a) simp_all

lemma isNaN_Num_plus [simp]: "isNaN (Num r + a) = isNaN a"
  by (cases a) simp_all

lemma isNaN_minus_Num [simp]: "isNaN (a - Num r) = isNaN a"
  by (cases a) (simp_all add: minus_number_def)

lemma isNaN_times_Num: "r \<noteq> 0 \<Longrightarrow> isNaN (a * Num r) = isNaN a"
  by (cases a) (simp_all add: infinityOfSign_def sgn_real_def)

lemma notNaN_cases:
  assumes "\<not> isNaN a"
  obtains r where "a = Num r" | "a = Infinity" | "a = NegInfinity"
  using assms by (cases a) simp_all

lemma finiteVector_length:
  assumes "finiteVector (vec3At xs i)"
  shows "i * 3 < length xs" "Suc (i * 3) < length xs" "Suc (Suc (i * 3)) < length xs"
  using assms by (auto simp: finiteVector_def vec3At_def arrayGet_def split: if_splits)

text \<open>
  The sum of the squares of three numbers that are each within \<open>e\<close> of a number of
  magnitude at most \<open>c\<close>.
\<close>

lemma sq_perturb:
  assumes "\<bar>X - t\<bar> \<le> e" and "\<bar>t\<bar> \<le> c"
  shows "\<bar>X * X - t * t\<bar> \<le> 2 * c * e + e * (e::real)"
proof -
  have e0: "0 \<le> e" using assms(1) by linarith
  have "X * X - t * t = (X - t) * (X + t)" by (simp add: algebra_simps)
  then have "\<bar>X * X - t * t\<bar> = \<bar>X - t\<bar> * \<bar>X + t\<bar>" by (simp add: abs_mult)
  also have "\<dots> \<le> e * (2 * c + e)"
    using assms e0 by (intro mult_mono) linarith+
  finally show ?thesis by (simp add: algebra_simps)
qed

lemma sumsq_perturb:
  assumes "\<bar>X - tx\<bar> \<le> e" "\<bar>Y - ty\<bar> \<le> e" "\<bar>Z - tz\<bar> \<le> e"
    and "\<bar>tx\<bar> \<le> c" "\<bar>ty\<bar> \<le> c" "\<bar>tz\<bar> \<le> c"
  shows "\<bar>(X * X + Y * Y + Z * Z) - (tx * tx + ty * ty + tz * tz)\<bar> \<le> 3 * (2 * c * e + e * (e::real))"
proof -
  define B where "B = 2 * c * e + e * e"
  have "\<bar>X * X - tx * tx\<bar> \<le> B" "\<bar>Y * Y - ty * ty\<bar> \<le> B" "\<bar>Z * Z - tz * tz\<bar> \<le> B"
    unfolding B_def
    using sq_perturb[OF assms(1,4)] sq_perturb[OF assms(2,5)] sq_perturb[OF assms(3,6)]
    by simp_all
  then have "\<bar>(X * X + Y * Y + Z * Z) - (tx * tx + ty * ty + tz * tz)\<bar> \<le> 3 * B"
    by linarith
  then show ?thesis unfolding B_def .
qed

lemma abs_le_norm3:
  "\<bar>x\<bar> \<le> sqrt (x * x + y * y + z * z)" "\<bar>y\<bar> \<le> sqrt (x * x + y * y + z * z)"
  "\<bar>z\<bar> \<le> sqrt (x * x + y * y + z * (z::real))"
proof -
  have sq: "0 \<le> x * x" "0 \<le> y * y" "0 \<le> z * z" by simp_all
  show "\<bar>x\<bar> \<le> sqrt (x * x + y * y + z * z)"
    by (rule real_le_rsqrt) (use sq in \<open>simp add: power2_eq_square\<close>)
  show "\<bar>y\<bar> \<le> sqrt (x * x + y * y + z * z)"
    by (rule real_le_rsqrt) (use sq in \<open>simp add: power2_eq_square\<close>)
  show "\<bar>z\<bar> \<le> sqrt (x * x + y * y + z * z)"
    by (rule real_le_rsqrt) (use sq in \<open>simp add: power2_eq_square\<close>)
qed

text \<open>
  A vector of length \<open>d > c\<close> scaled by \<open>c / d\<close>, each product rounded to single precision:
  the rounded components are finite and the sum of their squares is within
  \<open>c\<^sup>2 / 2750000\<close> of \<open>c\<^sup>2\<close>.
\<close>

lemma scaled_rounded:
  fixes x y z c :: real
  assumes c: "1 / 2 ^ 100 \<le> c" "c \<le> 2 ^ 100" and d: "c < sqrt (x * x + y * y + z * z)"
  shows "\<exists>X Y Z. fround (Num (x * (c / sqrt (x * x + y * y + z * z)))) = Num X
      \<and> fround (Num (y * (c / sqrt (x * x + y * y + z * z)))) = Num Y
      \<and> fround (Num (z * (c / sqrt (x * x + y * y + z * z)))) = Num Z
      \<and> \<bar>(X * X + Y * Y + Z * Z) - c * c\<bar> \<le> c * c / 2750000"
proof -
  define D where "D = sqrt (x * x + y * y + z * z)"
  have c0: "0 < c" using c(1) by (smt (verit) divide_pos_pos zero_less_power)
  have D0: "0 < D" using d c0 unfolding D_def by linarith
  have DD: "D * D = x * x + y * y + z * z"
    unfolding D_def using sumsq_nonneg[of x y z] by simp
  define k where "k = c / D"
  define tx ty tz where "tx = x * k" and "ty = y * k" and "tz = z * k"
  have sum: "tx * tx + ty * ty + tz * tz = c * c"
  proof -
    have "tx * tx + ty * ty + tz * tz = (x * x + y * y + z * z) * (k * k)"
      unfolding tx_def ty_def tz_def by (simp add: algebra_simps)
    also have "\<dots> = (D * D) * (k * k)" unfolding DD ..
    also have "\<dots> = c * c" using D0 unfolding k_def by simp
    finally show ?thesis .
  qed
  have cc: "sqrt (c * c) = c" using c0 by simp
  have b: "\<bar>tx\<bar> \<le> c" "\<bar>ty\<bar> \<le> c" "\<bar>tz\<bar> \<le> c"
    using abs_le_norm3[where x = tx and y = ty and z = tz] unfolding sum cc by simp_all
  define e where "e = c / 2 ^ 24"
  have small: "max (\<bar>t\<bar> / 2 ^ 24) (1 / 2 ^ 150) \<le> e" if "\<bar>t\<bar> \<le> c" for t
  proof -
    have "\<bar>t\<bar> / 2 ^ 24 \<le> c / 2 ^ 24" using that by (simp add: divide_right_mono)
    moreover have "(1 / 2 ^ 150 :: real) \<le> (1 / 2 ^ 100) / 2 ^ 24" by simp
    moreover have "(1 / 2 ^ 100) / 2 ^ 24 \<le> c / 2 ^ 24" using c(1) by (simp add: divide_right_mono)
    ultimately show ?thesis unfolding e_def by simp
  qed
  have r: "\<exists>T. fround (Num t) = Num T \<and> \<bar>T - t\<bar> \<le> e" if "\<bar>t\<bar> \<le> c" for t
  proof -
    have "(2::real) ^ 100 \<le> 2 ^ 127" by simp
    with that c(2) have "\<bar>t\<bar> \<le> 2 ^ 127" by linarith
    from fround_bounded[OF this] small[OF that] show ?thesis by fastforce
  qed
  from r[OF b(1)] obtain X where X: "fround (Num tx) = Num X" "\<bar>X - tx\<bar> \<le> e" by blast
  from r[OF b(2)] obtain Y where Y: "fround (Num ty) = Num Y" "\<bar>Y - ty\<bar> \<le> e" by blast
  from r[OF b(3)] obtain Z where Z: "fround (Num tz) = Num Z" "\<bar>Z - tz\<bar> \<le> e" by blast
  have "\<bar>(X * X + Y * Y + Z * Z) - (tx * tx + ty * ty + tz * tz)\<bar> \<le> 3 * (2 * c * e + e * e)"
    by (rule sumsq_perturb[OF X(2) Y(2) Z(2) b])
  also have "\<dots> = c * c * (3 * (2 / 2 ^ 24 + 1 / (2 ^ 24 * 2 ^ 24)))"
    unfolding e_def by (simp add: field_simps)
  also have "\<dots> \<le> c * c * (1 / 2750000)"
    by (intro mult_left_mono) simp_all
  finally have "\<bar>(X * X + Y * Y + Z * Z) - c * c\<bar> \<le> c * c / 2750000"
    unfolding sum by simp
  with X(1) Y(1) Z(1) show ?thesis
    unfolding tx_def ty_def tz_def k_def D_def by blast
qed

text \<open>Evaluation of the rounding assignments on array literals.\<close>

lemma addAt32_Cons_0: "addAt32 (x # xs) 0 v = fround (x + v) # xs"
  by (simp add: addAt32_def arrayGet_def)

lemma addAt32_Cons_Suc: "addAt32 (x # xs) (Suc k) v = x # addAt32 xs k v"
  by (simp add: addAt32_def arrayGet_def)

lemma subAt32_Cons_0: "subAt32 (x # xs) 0 v = fround (x - v) # xs"
  by (simp add: subAt32_def arrayGet_def)

lemma subAt32_Cons_Suc: "subAt32 (x # xs) (Suc k) v = x # subAt32 xs k v"
  by (simp add: subAt32_def arrayGet_def)

lemma mulAt32_Cons_0: "mulAt32 (x # xs) 0 v = fround (x * v) # xs"
  by (simp add: mulAt32_def arrayGet_def)

lemma mulAt32_Cons_Suc: "mulAt32 (x # xs) (Suc k) v = x # mulAt32 xs k v"
  by (simp add: mulAt32_def arrayGet_def)

lemma store32_Cons_0: "store32 (x # xs) 0 v = fround v # xs"
  by (simp add: store32_def)

lemma store32_Cons_Suc: "store32 (x # xs) (Suc k) v = x # store32 xs k v"
  by (simp add: store32_def)

lemmas evalArray32 = addAt32_Cons_0 addAt32_Cons_Suc subAt32_Cons_0 subAt32_Cons_Suc
  mulAt32_Cons_0 mulAt32_Cons_Suc store32_Cons_0 store32_Cons_Suc

section \<open>Drift mode with single-precision stores: the containment clamp\<close>

lemma applyAudioReactivity32_own:
  assumes "noNaNVector (vec3At (velocities a) i)" and "finiteInputs cfg f"
  shows "noNaNVector (vec3At (velocities (applyAudioReactivity32 cfg f i a)) i)"
    and "positions (applyAudioReactivity32 cfg f i a) = positions a"
proof -
  from assms(2) obtain r where inp: "audioReactivity cfg = Num r"
    by (auto simp: finiteInputs_def isFinite_iff)
  show "noNaNVector (vec3At (velocities (applyAudioReactivity32 cfg f i a)) i)"
    using assms(1)
    by (simp add: noNaNVector_def applyAudioReactivity32_def Let_def vec3At_def arrayGet_addAt32
        inp split: option.splits)
  show "positions (applyAudioReactivity32 cfg f i a) = positions a"
    by (simp add: applyAudioReactivity32_def Let_def split: option.splits)
qed

lemma updateVelocities32_own:
  assumes "noNaNVector (vec3At (velocities a) i)" and "finiteInputs cfg f"
  shows "noNaNVector (vec3At (velocities (updateVelocities32 cfg f i a)) i)"
    and "positions (updateVelocities32 cfg f i a) = positions a"
proof -
  from assms(2) obtain s k mx my wx wy where
    inp: "speed cfg = Num s" "interactionStrength cfg = Num k" "mouseX f = Num mx"
      "mouseY f = Num my" "windowHalfX f = Num wx" "windowHalfY f = Num wy" "wx \<noteq> 0" "wy \<noteq> 0"
    by (auto simp: finiteInputs_def isFinite_iff)
  show "noNaNVector (vec3At (velocities (updateVelocities32 cfg f i a)) i)"
    using assms(1)
    by (simp add: noNaNVector_def updateVelocities32_def Let_def vec3At_def arrayGet_addAt32
        arrayGet_subAt32 arrayGet_mulAt32 isNaN_times_Num inp)
  show "positions (updateVelocities32 cfg f i a) = positions a"
    by (simp add: updateVelocities32_def Let_def)
qed

lemma applyVelocities32_own:
  "vec3At (positions (applyVelocities32 i a)) i
     = Vector3 (fround (vx (vec3At (positions a) i) + vx (vec3At (velocities a) i)))
               (fround (vy (vec3At (positions a) i) + vy (vec3At (velocities a) i)))
               (fround (vz (vec3At (positions a) i) + vz (vec3At (velocities a) i)))"
  "velocities (applyVelocities32 i a) = velocities a"
  by (simp_all add: applyVelocities32_def Let_def vec3At_def arrayGet_addAt32)

lemma containment32_own:
  "vec3At (positions (containment32 i a)) i
     = (if Num 50 < vlength (vec3At (positions a) i)
        then Vector3 (fround (vx (vec3At (positions a) i) * (Num 50 / vlength (vec3At (positions a) i))))
                     (fround (vy (vec3At (positions a) i) * (Num 50 / vlength (vec3At (positions a) i))))
                     (fround (vz (vec3At (positions a) i) * (Num 50 / vlength (vec3At (positions a) i))))
        else vec3At (positions a) i)"
  "velocities (containment32 i a) = velocities a"
  by (simp_all add: containment32_def Let_def vec3At_def arrayGet_mulAt32 vlength_def lengthSq_def)

lemma protectNaN_vec:
  assumes "Suc (Suc (i * 3)) < length xs"
  shows "vec3At (zeroIfNaN (zeroIfNaN (zeroIfNaN xs (i * 3 + 0)) (i * 3 + 1)) (i * 3 + 2)) i
     = Vector3 (if isNaN (vx (vec3At xs i)) then Num 0 else vx (vec3At xs i))
               (if isNaN (vy (vec3At xs i)) then Num 0 else vy (vec3At xs i))
               (if isNaN (vz (vec3At xs i)) then Num 0 else vz (vec3At xs i))"
  using assms by (simp add: vec3At_def arrayGet_zeroIfNaN)

lemma vlength_infinite:
  assumes "noNaNVector Q" and "\<not> finiteVector Q"
  shows "vlength Q = Infinity"
proof -
  obtain a b c where Q: "Q = Vector3 a b c" by (cases Q)
  from assms show ?thesis unfolding Q
    by (cases a; cases b; cases c)
       (simp_all add: noNaNVector_def finiteVector_def vlength_def lengthSq_def infinityOfSign_def)
qed

lemma times_zero_cleared:
  assumes "\<not> isNaN q"
  shows "(if isNaN (fround (q * Num 0)) then Num 0 else fround (q * Num 0)) = Num 0"
  using assms by (cases q) (simp_all add: infinityOfSign_def)

text \<open>
  The clamp and the \<open>NaN\<close> check that follows it, on the position \<open>Q\<close> that the velocity
  step has stored.
\<close>

lemma clamp_tail:
  assumes "noNaNVector Q"
  defines "C \<equiv> (if Num 50 < vlength Q
        then Vector3 (fround (vx Q * (Num 50 / vlength Q))) (fround (vy Q * (Num 50 / vlength Q)))
                     (fround (vz Q * (Num 50 / vlength Q)))
        else Q)"
  defines "P' \<equiv> Vector3 (if isNaN (vx C) then Num 0 else vx C) (if isNaN (vy C) then Num 0 else vy C)
                     (if isNaN (vz C) then Num 0 else vz C)"
  shows "vlength P' \<le> Num 50.00001"
    and "finiteVector Q \<Longrightarrow> P' = C"
    and "finiteVector Q \<Longrightarrow> Num 50 < vlength Q \<Longrightarrow> Num 49.99999 \<le> vlength P'"
    and "\<not> finiteVector Q \<Longrightarrow> P' = Vector3 (Num 0) (Num 0) (Num 0)"
proof -
  have inf: "P' = Vector3 (Num 0) (Num 0) (Num 0)" if nf: "\<not> finiteVector Q"
  proof -
    have d: "vlength Q = Infinity" by (rule vlength_infinite[OF assms(1) nf])
    have C: "C = Vector3 (fround (vx Q * Num 0)) (fround (vy Q * Num 0)) (fround (vz Q * Num 0))"
      unfolding C_def d by simp
    from assms(1) have n: "\<not> isNaN (vx Q)" "\<not> isNaN (vy Q)" "\<not> isNaN (vz Q)"
      by (simp_all add: noNaNVector_def)
    show ?thesis
      unfolding P'_def C Vector3.sel times_zero_cleared[OF n(1)] times_zero_cleared[OF n(2)]
        times_zero_cleared[OF n(3)] ..
  qed
  have fin: "P' = C \<and> vlength P' \<le> Num 50.00001 \<and> (Num 50 < vlength Q \<longrightarrow> Num 49.99999 \<le> vlength P')"
    if f: "finiteVector Q"
  proof -
    from f obtain x y z where Q: "Q = Vector3 (Num x) (Num y) (Num z)" by (rule finiteVectorE)
    define d where "d = sqrt (x * x + y * y + z * z)"
    have vl: "vlength Q = Num d" unfolding Q d_def by simp
    show ?thesis
    proof (cases "50 < d")
      case False
      then have C: "C = Q" unfolding C_def vl by simp
      have "P' = C" unfolding P'_def C Q by simp
      moreover have "vlength C \<le> Num 50.00001" unfolding C vl using False by simp
      ultimately show ?thesis using False by (simp add: vl)
    next
      case True
      have d0: "d \<noteq> 0" using True by simp
      from scaled_rounded[of 50 x y z] True obtain X Y Z where
        r: "fround (Num (x * (50 / d))) = Num X" "fround (Num (y * (50 / d))) = Num Y"
           "fround (Num (z * (50 / d))) = Num Z"
        and b: "\<bar>(X * X + Y * Y + Z * Z) - 50 * 50\<bar> \<le> 50 * 50 / 2750000"
        unfolding d_def by auto
      have C: "C = Vector3 (Num X) (Num Y) (Num Z)"
        unfolding C_def Q using True d0 r by (simp add: d_def[symmetric])
      have P: "P' = C" unfolding P'_def C by simp
      define S where "S = X * X + Y * Y + Z * Z"
      have "\<bar>S - 2500\<bar> \<le> 1 / 1100" using b unfolding S_def by simp
      then have "S \<le> 2500001 / 1000" "249999909 / 100000 \<le> S" by linarith+
      then have b': "X * X + Y * Y + Z * Z \<le> 2500001 / 1000"
        "249999909 / 100000 \<le> X * X + Y * Y + Z * Z"
        unfolding S_def .
      have sq1: "X * X + Y * Y + Z * Z \<le> 50.00001\<^sup>2"
        using b'(1) by (simp add: power2_eq_square)
      have up: "sqrt (X * X + Y * Y + Z * Z) \<le> 50.00001"
        by (rule real_le_lsqrt) (use sq1 sumsq_nonneg[of X Y Z] in simp_all)
      have "49.99999\<^sup>2 \<le> X * X + Y * Y + Z * Z"
        using b'(2) by (simp add: power2_eq_square)
      then have lo: "49.99999 \<le> sqrt (X * X + Y * Y + Z * Z)"
        by (rule real_le_rsqrt)
      show ?thesis unfolding P C using up lo by simp
    qed
  qed
  show "finiteVector Q \<Longrightarrow> P' = C" using fin by blast
  show "finiteVector Q \<Longrightarrow> Num 50 < vlength Q \<Longrightarrow> Num 49.99999 \<le> vlength P'"
    using fin by blast
  show "\<not> finiteVector Q \<Longrightarrow> P' = Vector3 (Num 0) (Num 0) (Num 0)" by (rule inf)
  show "vlength P' \<le> Num 50.00001"
  proof (cases "finiteVector Q")
    case True
    then show ?thesis using fin by blast
  next
    case False
    show ?thesis unfolding inf[OF False] by simp
  qed
qed

lemma finiteVector_noNaN: "finiteVector v \<Longrightarrow> noNaNVector v"
  by (cases v) (auto simp: finiteVector_def noNaNVector_def isFinite_iff)

lemma zeroIfNaN_noNaN:
  assumes "noNaNVector (vec3At xs i)"
  shows "vec3At (zeroIfNaN (zeroIfNaN (zeroIfNaN xs (i * 3 + 0)) (i * 3 + 1)) (i * 3 + 2)) i
     = vec3At xs i"
  using assms by (simp add: vec3At_def arrayGet_zeroIfNaN noNaNVector_def)

lemma length_positions32 [simp]:
  "length (positions (applyVelocities32 i a)) = length (positions a)"
  "length (positions (containment32 i a)) = length (positions a)"
  by (simp_all add: applyVelocities32_def containment32_def Let_def)

lemma particleEffect32_own:
  assumes fp: "finiteVector (vec3At (positions a) i)"
    and fv: "finiteVector (vec3At (velocities a) i)"
    and inp: "finiteInputs cfg f"
  defines "P \<equiv> vec3At (positions a) i"
    and "P' \<equiv> vec3At (positions (particleEffect32 cfg f i a)) i"
    and "V' \<equiv> vec3At (velocities (particleEffect32 cfg f i a)) i"
  defines "Q \<equiv> Vector3 (fround (vx P + vx V')) (fround (vy P + vy V')) (fround (vz P + vz V'))"
  shows "vlength P' \<le> Num 50.00001
     \<and> (finiteVector Q \<longrightarrow>
          (if Num 50 < vlength Q
           then P' = Vector3 (fround (vx Q * (Num 50 / vlength Q)))
                             (fround (vy Q * (Num 50 / vlength Q)))
                             (fround (vz Q * (Num 50 / vlength Q)))
                \<and> Num 49.99999 \<le> vlength P'
           else P' = Q))
     \<and> (\<not> finiteVector Q \<longrightarrow> P' = Vector3 (Num 0) (Num 0) (Num 0))"
proof -
  define a1 where "a1 = applyAudioReactivity32 cfg f i a"
  define a2 where "a2 = updateVelocities32 cfg f i a1"
  define a3 where "a3 = applyVelocities32 i a2"
  define a4 where "a4 = containment32 i a3"
  define V where "V = vec3At (velocities a2) i"
  define Q0 where "Q0 = vec3At (positions a3) i"
  have 1: "noNaNVector (vec3At (velocities a1) i)" "positions a1 = positions a"
    unfolding a1_def using applyAudioReactivity32_own[OF finiteVector_noNaN[OF fv] inp] by simp_all
  have 2: "noNaNVector V" "positions a2 = positions a"
    unfolding V_def a2_def using updateVelocities32_own[OF 1(1) inp] 1(2) by simp_all
  from fp obtain x y z where p: "P = Vector3 (Num x) (Num y) (Num z)"
    unfolding P_def by (rule finiteVectorE)
  have 3: "Q0 = Vector3 (fround (vx P + vx V)) (fround (vy P + vy V)) (fround (vz P + vz V))"
    "velocities a3 = velocities a2"
    unfolding Q0_def a3_def applyVelocities32_own 2(2) P_def V_def by simp_all
  have nQ: "noNaNVector Q0"
    unfolding 3(1) p using 2(1) by (simp add: noNaNVector_def)
  have 4: "vec3At (positions a4) i
     = (if Num 50 < vlength Q0
        then Vector3 (fround (vx Q0 * (Num 50 / vlength Q0))) (fround (vy Q0 * (Num 50 / vlength Q0)))
                     (fround (vz Q0 * (Num 50 / vlength Q0)))
        else Q0)"
    "velocities a4 = velocities a2"
    unfolding a4_def containment32_own Q0_def 3(2) by simp_all
  have len: "Suc (Suc (i * 3)) < length (positions a4)"
    unfolding a4_def a3_def using finiteVector_length(3)[OF fp] 2(2) by simp
  have eq: "particleEffect32 cfg f i a = protectNaN i a4"
    by (simp add: particleEffect32_def Let_def a1_def a2_def a3_def a4_def)
  have V': "V' = V"
    unfolding V'_def eq V_def using zeroIfNaN_noNaN[of "velocities a2" i] 2(1) 4(2)
    by (simp add: protectNaN_eq V_def)
  have Q: "Q = Q0" unfolding Q_def V' 3(1) ..
  have P': "P' = Vector3 (if isNaN (vx (vec3At (positions a4) i)) then Num 0 else vx (vec3At (positions a4) i))
        (if isNaN (vy (vec3At (positions a4) i)) then Num 0 else vy (vec3At (positions a4) i))
        (if isNaN (vz (vec3At (positions a4) i)) then Num 0 else vz (vec3At (positions a4) i))"
    unfolding P'_def eq using protectNaN_vec[OF len] by (simp add: protectNaN_eq)
  note t = clamp_tail[OF nQ, folded 4(1), folded P']
  show ?thesis
    unfolding Q using t by (auto simp: 4(1))
qed

text \<open>
  The scenario of the containment clamp on the sample configuration: the values the
  stores round to, step by step.
\<close>

lemma fround_drift_y1: "fround (Num (1 / 10000)) = Num (13743895 / 137438953472)"
proof -
  have "fround (Num (1 / 10000)) = Num (of_int (13743895) * 2 powr (of_int (- 14) - 23))"
    by (rule fround_eval) (simp_all add: powr_minus_divide)
  also have "(of_int (13743895) * 2 powr (of_int (- 14) - 23) :: real) = 13743895 / 137438953472"
    by (simp add: powr_minus_divide)
  finally show ?thesis .
qed

lemma fround_drift_y2: "fround (Num (10307921467 / 17179869184000)) = Num (10307921 / 17179869184)"
proof -
  have "fround (Num (10307921467 / 17179869184000)) = Num (of_int (10307921) * 2 powr (of_int (- 11) - 23))"
    by (rule fround_eval) (simp_all add: powr_minus_divide)
  also have "(of_int (10307921) * 2 powr (of_int (- 11) - 23) :: real) = 10307921 / 17179869184"
    by (simp add: powr_minus_divide)
  finally show ?thesis .
qed

lemma fround_drift_y3: "fround (Num (505088129 / 858993459200)) = Num (10101763 / 17179869184)"
proof -
  have "fround (Num (505088129 / 858993459200)) = Num (of_int (10101763) * 2 powr (of_int (- 11) - 23))"
    by (rule fround_eval) (simp_all add: powr_minus_divide)
  also have "(of_int (10101763) * 2 powr (of_int (- 11) - 23) :: real) = 10101763 / 17179869184"
    by (simp add: powr_minus_divide)
  finally show ?thesis .
qed

lemma fround_drift_y4: "fround (Num (10101763 / 17179869184)) = Num (10101763 / 17179869184)"
proof -
  have "fround (Num (10101763 / 17179869184)) = Num (of_int (10101763) * 2 powr (of_int (- 11) - 23))"
    by (rule fround_eval) (simp_all add: powr_minus_divide)
  also have "(of_int (10101763) * 2 powr (of_int (- 11) - 23) :: real) = 10101763 / 17179869184"
    by (simp add: powr_minus_divide)
  finally show ?thesis .
qed

lemma fround_drift_x1: "fround (Num (- (1 / 2000))) = Num (- (8589935 / 17179869184))"
proof -
  have "fround (Num (- (1 / 2000))) = Num (of_int (- 8589935) * 2 powr (of_int (- 11) - 23))"
    by (rule fround_eval) (simp_all add: powr_minus_divide)
  also have "(of_int (- 8589935) * 2 powr (of_int (- 11) - 23) :: real) = - (8589935 / 17179869184)"
    by (simp add: powr_minus_divide)
  finally show ?thesis .
qed

lemma fround_drift_x2: "fround (Num (- (84181363 / 171798691840))) = Num (- (1052267 / 2147483648))"
proof -
  have "fround (Num (- (84181363 / 171798691840))) = Num (of_int (- 8418136) * 2 powr (of_int (- 11) - 23))"
    by (rule fround_eval) (simp_all add: powr_minus_divide)
  also have "(of_int (- 8418136) * 2 powr (of_int (- 11) - 23) :: real) = - (1052267 / 2147483648)"
    by (simp add: powr_minus_divide)
  finally show ?thesis .
qed

lemma fround_drift_px: "fround (Num (2147482595733 / 2147483648)) = Num (2047999 / 2048)"
proof -
  have "fround (Num (2147482595733 / 2147483648)) = Num (of_int (16383992) * 2 powr (of_int (9) - 23))"
    by (rule fround_eval) (simp_all add: powr_minus_divide)
  also have "(of_int (16383992) * 2 powr (of_int (9) - 23) :: real) = 2047999 / 2048"
    by (simp add: powr_minus_divide)
  finally show ?thesis .
qed

lemma fround_drift_py: "fround (Num (17179879285763 / 17179869184)) = Num (8192005 / 8192)"
proof -
  have "fround (Num (17179879285763 / 17179869184)) = Num (of_int (16384010) * 2 powr (of_int (9) - 23))"
    by (rule fround_eval) (simp_all add: powr_minus_divide)
  also have "(of_int (16384010) * 2 powr (of_int (9) - 23) :: real) = 8192005 / 8192"
    by (simp add: powr_minus_divide)
  finally show ?thesis .
qed

lemma drift32_one:
  "updateParticleEffects32 driftConfig f a = particleEffect32 driftConfig f 0 a"
  by (simp add: updateParticleEffects32_def forLoop_def driftConfig_def)

lemmas fround_drift = fround_drift_y1 fround_drift_y2 fround_drift_y3 fround_drift_y4
  fround_drift_x1 fround_drift_x2 fround_drift_px fround_drift_py

lemma drift32_sample_velocity:
  "velocities (updateVelocities32 driftConfig quietFrame 0
      (applyAudioReactivity32 driftConfig quietFrame 0 (oneParticle p (Vector3 (Num 0) (Num 0) (Num 0)))))
    = [Num (- (1052267 / 2147483648)), Num (10101763 / 17179869184), Num 0]"
  by (simp add: updateVelocities32_def applyAudioReactivity32_def quietFrame_def driftConfig_def
        oneParticle_def evalArray evalArray32 Let_def fround_drift)

lemma drift32_sample_final_velocity:
  "vec3At (velocities (particleEffect32 driftConfig quietFrame 0
       (oneParticle p (Vector3 (Num 0) (Num 0) (Num 0))))) 0
    = Vector3 (Num (- (1052267 / 2147483648))) (Num (10101763 / 17179869184)) (Num 0)"
  by (simp add: particleEffect32_def Let_def protectNaN_eq applyVelocities32_own(2)
      containment32_own(2) drift32_sample_velocity vec3At_def evalArray)

lemma drift32_sample_inputs: "finiteInputs driftConfig quietFrame"
  by (simp add: finiteInputs_def driftConfig_def quietFrame_def defaultGalaxySettings_def)

text \<open>
  The particle placed at \<open>(1000, 0, 0)\<close> with velocity 0: the velocity step stores the
  position \<open>(999.99951171875, 0.000588..., 0)\<close>, and the clamp stores \<open>50\<close> as its first
  coordinate (the product \<open>x * (50 / dist)\<close> is \<open>49.99999999999...\<close>, which rounds to 50)
  and a second coordinate that is not 0.
\<close>

lemma drift32_sample_scaling:
  fixes px py d :: real
  assumes px: "px = 2047999 / 2048" and py: "py = 10101763 / 17179869184"
    and d: "d = sqrt (px * px + py * py + 0 * 0)"
  shows "50 < d"
    and "fround (Num (px * (50 / d))) = Num 50"
    and "fround (Num (py * (50 / d))) = Num (16162829 / 549755813888)"
proof -
  have "(2047999 / 2048)\<^sup>2 \<le> px * px + py * py + 0 * 0"
    unfolding px py by (simp add: power2_eq_square)
  then have lo: "2047999 / 2048 \<le> d" unfolding d by (rule real_le_rsqrt)
  have "px * px + py * py + 0 * 0 \<le> (2047999 / 2048 + 1 / 1000000000)\<^sup>2"
    unfolding px py by (simp add: power2_eq_square)
  then have hi: "d \<le> 2047999 / 2048 + 1 / 1000000000"
    unfolding d by (rule real_le_lsqrt[rotated]) simp
  have d0: "0 < d" using lo by linarith
  show "50 < d" using lo by linarith
  have tx: "499999999 / 10000000 \<le> px * (50 / d)" "px * (50 / d) \<le> 50"
    using d0 lo hi unfolding px by (simp_all add: field_simps)
  have "fround (Num t) = Num 50" if "499999999 / 10000000 \<le> t" "t \<le> 50" for t :: real
  proof -
    have "fround (Num t) = Num (of_int 13107200 * 2 powr (of_int 5 - 23))"
      by (rule fround_eval) (use that in \<open>simp_all add: powr_minus_divide abs_if\<close>)
    also have "(of_int 13107200 * 2 powr (of_int 5 - 23) :: real) = 50"
      by (simp add: powr_minus_divide)
    finally show ?thesis .
  qed
  from this[OF tx] show "fround (Num (px * (50 / d))) = Num 50" .
  have ty: "16162828.6 / 549755813888 \<le> py * (50 / d)" "py * (50 / d) \<le> 16162828.8 / 549755813888"
    using d0 lo hi unfolding py by (simp_all add: field_simps)
  have "fround (Num t) = Num (16162829 / 549755813888)"
    if "16162828.6 / 549755813888 \<le> t" "t \<le> 16162828.8 / 549755813888" for t :: real
  proof -
    have "fround (Num t) = Num (of_int 16162829 * 2 powr (of_int (- 16) - 23))"
      by (rule fround_eval) (use that in \<open>simp_all add: powr_minus_divide abs_if\<close>)
    also have "(of_int 16162829 * 2 powr (of_int (- 16) - 23) :: real) = 16162829 / 549755813888"
      by (simp add: powr_minus_divide)
    finally show ?thesis .
  qed
  from this[OF ty] show "fround (Num (py * (50 / d))) = Num (16162829 / 549755813888)" .
qed

lemma drift32_sample_clamped:
  "vec3At (positions (updateParticleEffects32 driftConfig quietFrame
      (oneParticle (Vector3 (Num 1000) (Num 0) (Num 0)) (Vector3 (Num 0) (Num 0) (Num 0))))) 0
     = Vector3 (Num 50) (Num (16162829 / 549755813888)) (Num 0)"
proof -
  define s0 where "s0 = oneParticle (Vector3 (Num 1000) (Num 0) (Num 0)) (Vector3 (Num 0) (Num 0) (Num 0))"
  define px py d :: real where "px = 2047999 / 2048" and "py = 10101763 / 17179869184"
    and "d = sqrt (px * px + py * py + 0 * 0)"
  note r = drift32_sample_scaling[OF px_def py_def d_def]
  have P: "vec3At (positions s0) 0 = Vector3 (Num 1000) (Num 0) (Num 0)"
    and fp: "finiteVector (vec3At (positions s0) 0)"
    and fv: "finiteVector (vec3At (velocities s0) 0)"
    by (simp_all add: s0_def oneParticle_def vec3At_def evalArray)
  note V = drift32_sample_final_velocity[of "Vector3 (Num 1000) (Num 0) (Num 0)", folded s0_def]
  have Q: "Vector3 (fround (vx (vec3At (positions s0) 0)
                      + vx (vec3At (velocities (particleEffect32 driftConfig quietFrame 0 s0)) 0)))
                   (fround (vy (vec3At (positions s0) 0)
                      + vy (vec3At (velocities (particleEffect32 driftConfig quietFrame 0 s0)) 0)))
                   (fround (vz (vec3At (positions s0) 0)
                      + vz (vec3At (velocities (particleEffect32 driftConfig quietFrame 0 s0)) 0)))
        = Vector3 (Num px) (Num py) (Num 0)"
    unfolding V P by (simp add: fround_drift px_def py_def)
  have vl: "vlength (Vector3 (Num px) (Num py) (Num 0)) = Num d"
    unfolding d_def by simp
  have d0: "d \<noteq> 0" using r(1) by simp
  from particleEffect32_own[OF fp fv drift32_sample_inputs, unfolded Q vl] r(1)
  have "vec3At (positions (particleEffect32 driftConfig quietFrame 0 s0)) 0
      = Vector3 (fround (Num px * (Num 50 / Num d))) (fround (Num py * (Num 50 / Num d)))
                (fround (Num 0 * (Num 50 / Num d)))"
    by simp
  also have "\<dots> = Vector3 (Num 50) (Num (16162829 / 549755813888)) (Num 0)"
    using d0 r(2,3) by simp
  finally show ?thesis unfolding drift32_one s0_def .
qed

text \<open>
  With a window of width 0 and the pointer at \<open>x = 0\<close> the pointer offset is \<open>0 / 0\<close>: the
  first velocity and position coordinates become \<open>NaN\<close>, the distance is \<open>NaN\<close>, the
  comparison with 50 fails, and the final check stores 0 in the first coordinate only. A
  particle at \<open>(0, 1000, 0)\<close> stays at distance \<open>1000.0006...\<close>.
\<close>

lemma drift32_zero_width_window:
  "positions (updateParticleEffects32 driftConfig (quietFrame\<lparr>windowHalfX := Num 0\<rparr>)
      (oneParticle (Vector3 (Num 0) (Num 1000) (Num 0)) (Vector3 (Num 0) (Num 0) (Num 0))))
     = [Num 0, Num (8192005 / 8192), Num 0]"
proof -
  define s0 where "s0 = oneParticle (Vector3 (Num 0) (Num 1000) (Num 0)) (Vector3 (Num 0) (Num 0) (Num 0))"
  define f where "f = quietFrame\<lparr>windowHalfX := Num 0\<rparr>"
  define s1 where "s1 = applyAudioReactivity32 driftConfig f 0 s0"
  have 1: "velocities s1 = [Num 0, Num 0, Num 0]" "positions s1 = [Num 0, Num 1000, Num 0]"
    by (simp_all add: s1_def applyAudioReactivity32_def f_def quietFrame_def driftConfig_def s0_def
        oneParticle_def Let_def)
  define s2 where "s2 = updateVelocities32 driftConfig f 0 s1"
  have 2: "velocities s2 = [NaN, Num (10101763 / 17179869184), Num 0]"
    "positions s2 = [Num 0, Num 1000, Num 0]"
    by (simp_all add: s2_def updateVelocities32_def f_def quietFrame_def driftConfig_def 1
        evalArray evalArray32 Let_def fround_drift)
  define s3 where "s3 = applyVelocities32 0 s2"
  have 3: "positions s3 = [NaN, Num (8192005 / 8192), Num 0]"
    "velocities s3 = [NaN, Num (10101763 / 17179869184), Num 0]"
    by (simp_all add: s3_def applyVelocities32_def 2 evalArray evalArray32 Let_def fround_drift)
  have 4: "containment32 0 s3 = s3"
    by (simp add: containment32_def 3 evalArray Let_def)
  have 5: "positions (protectNaN 0 s3) = [Num 0, Num (8192005 / 8192), Num 0]"
    by (simp add: protectNaN_eq 3 evalArray)
  show ?thesis
    unfolding drift32_one particleEffect32_def Let_def s0_def[symmetric] f_def[symmetric]
      s1_def[symmetric] s2_def[symmetric] s3_def[symmetric] 4 5 ..
qed



text \<open>
  On the particle placed at distance 1000 the stored position after one update is
  \<open>(50, 0.0000294..., 0)\<close>, which is farther than 50 from the origin; and with a window of
  width 0 the particle at \<open>(0, 1000, 0)\<close> is not clamped at all.
\<close>

theorem drift_clamp_counterexample:
  "vec3At (positions (updateParticleEffects32 driftConfig quietFrame
      (oneParticle (Vector3 (Num 1000) (Num 0) (Num 0)) (Vector3 (Num 0) (Num 0) (Num 0))))) 0
     = Vector3 (Num 50) (Num (16162829 / 549755813888)) (Num 0)
   \<and> Num 50 < vlength (vec3At (positions (updateParticleEffects32 driftConfig quietFrame
      (oneParticle (Vector3 (Num 1000) (Num 0) (Num 0)) (Vector3 (Num 0) (Num 0) (Num 0))))) 0)
   \<and> Num 1000 < vlength (vec3At (positions (updateParticleEffects32 driftConfig
      (quietFrame\<lparr>windowHalfX := Num 0\<rparr>)
      (oneParticle (Vector3 (Num 0) (Num 1000) (Num 0)) (Vector3 (Num 0) (Num 0) (Num 0))))) 0)"
proof -
  have "(50::real)\<^sup>2 < 50 * 50 + 16162829 / 549755813888 * (16162829 / 549755813888) + 0 * 0"
    by (simp add: power2_eq_square)
  then have 1: "50 < sqrt (50 * 50 + 16162829 / 549755813888 * (16162829 / 549755813888) + 0 * (0::real))"
    by (rule real_less_rsqrt)
  have "(1000::real)\<^sup>2 < 0 * 0 + 8192005 / 8192 * (8192005 / 8192) + 0 * 0"
    by (simp add: power2_eq_square)
  then have 2: "1000 < sqrt (0 * 0 + 8192005 / 8192 * (8192005 / 8192) + 0 * (0::real))"
    by (rule real_less_rsqrt)
  have z: "vec3At (positions (updateParticleEffects32 driftConfig
      (quietFrame\<lparr>windowHalfX := Num 0\<rparr>)
      (oneParticle (Vector3 (Num 0) (Num 1000) (Num 0)) (Vector3 (Num 0) (Num 0) (Num 0))))) 0
     = Vector3 (Num 0) (Num (8192005 / 8192)) (Num 0)"
    unfolding drift32_zero_width_window by (simp add: vec3At_def evalArray)
  show ?thesis
    unfolding drift32_sample_clamped z using 1 2 by simp
qed

section \<open>Galaxy mode with single-precision stores: the velocity limit\<close>

lemma addAcceleration32_own:
  "vec3At (accelerations (addAcceleration32 i g a)) i
     = Vector3 (fround (vx (vec3At (accelerations a) i) + vx g))
               (fround (vy (vec3At (accelerations a) i) + vy g))
               (fround (vz (vec3At (accelerations a) i) + vz g))"
  by (simp add: addAcceleration32_def Let_def vec3At_def arrayGet_addAt32)

lemma addAcceleration32_others [simp]:
  "positions (addAcceleration32 i g a) = positions a"
  "velocities (addAcceleration32 i g a) = velocities a"
  "masses (addAcceleration32 i g a) = masses a"
  by (simp_all add: addAcceleration32_def Let_def)

lemma applyGravity32_others [simp]:
  "positions (applyGravity32 gs m p d i a) = positions a"
  "velocities (applyGravity32 gs m p d i a) = velocities a"
  "masses (applyGravity32 gs m p d i a) = masses a"
  by (simp_all add: applyGravity32_def Let_def)

lemma mouseInteraction32_others [simp]:
  "positions (mouseInteraction32 cfg f p i a) = positions a"
  "velocities (mouseInteraction32 cfg f p i a) = velocities a"
  "masses (mouseInteraction32 cfg f p i a) = masses a"
  by (simp_all add: mouseInteraction32_def Let_def)

lemma addAcceleration32_noNaN:
  assumes "noNaNVector (vec3At (accelerations a) i)"
  shows "noNaNVector (vec3At (accelerations (addAcceleration32 i (Vector3 (Num gx) (Num gy) (Num gz)) a)) i)"
  using assms by (simp add: addAcceleration32_own noNaNVector_def)

lemma applyGravity32_noNaN:
  assumes "noNaNVector (vec3At (accelerations a) i)" and "isFinite (blackHoleMass gs)"
  shows "noNaNVector (vec3At (accelerations (applyGravity32 gs (Num m) (Vector3 (Num x) (Num y) (Num z))
            (distanceTo (Vector3 (Num x) (Num y) (Num z)) blackHole) i a)) i)"
proof -
  from assms(2) obtain M where M: "blackHoleMass gs = Num M" by (auto simp: isFinite_iff)
  have m: "max (1 / 10) m \<noteq> 0" by (simp add: max_def)
  have d: "max (1 / 100) (x * x + y * y + z * z) \<noteq> 0" by (simp add: max_def)
  show ?thesis
    using assms(1) m d
    by (simp add: applyGravity32_def Let_def blackHole_def M gravityConstant_def
        normalize_Num addAcceleration32_noNaN)
qed

lemma mouseInteraction32_noNaN:
  assumes "noNaNVector (vec3At (accelerations a) i)" and "isFinite (interactionStrength cfg)"
    and "finiteVector (mousePosWorld f)"
  shows "noNaNVector (vec3At (accelerations (mouseInteraction32 cfg f (Vector3 (Num x) (Num y) (Num z)) i a)) i)"
proof -
  from assms(2) obtain k where k: "interactionStrength cfg = Num k" by (auto simp: isFinite_iff)
  from assms(3) obtain mx my mz where m: "mousePosWorld f = Vector3 (Num mx) (Num my) (Num mz)"
    by (rule finiteVectorE)
  have d: "max (1 / 10) d \<noteq> 0" for d :: real by (simp add: max_def)
  show ?thesis
    using assms(1) d
    by (simp add: mouseInteraction32_def Let_def k m normalize_Num addAcceleration32_noNaN)
qed

lemma integrate32_own:
  "vec3At (velocities (integrate32 gs i a)) i
     = Vector3
         (fround (fround (vx (vec3At (velocities a) i)
              + clamp (vx (vec3At (accelerations a) i) * dt) (- Num 0.1) (Num 0.1))
            * stabilityFactor gs))
         (fround (fround (vy (vec3At (velocities a) i)
              + clamp (vy (vec3At (accelerations a) i) * dt) (- Num 0.1) (Num 0.1))
            * stabilityFactor gs))
         (fround (fround (vz (vec3At (velocities a) i)
              + clamp (vz (vec3At (accelerations a) i) * dt) (- Num 0.1) (Num 0.1))
            * stabilityFactor gs))"
  by (simp add: integrate32_def Let_def vec3At_def arrayGet_addAt32 arrayGet_mulAt32)

lemma limitVelocity32_own:
  "vec3At (velocities (limitVelocity32 i a)) i
     = (if Num 2 < vlength (vec3At (velocities a) i)
        then Vector3 (fround (vx (vec3At (velocities a) i) * (Num 2 / vlength (vec3At (velocities a) i))))
                     (fround (vy (vec3At (velocities a) i) * (Num 2 / vlength (vec3At (velocities a) i))))
                     (fround (vz (vec3At (velocities a) i) * (Num 2 / vlength (vec3At (velocities a) i))))
        else vec3At (velocities a) i)"
  by (simp add: limitVelocity32_def Let_def vec3At_def arrayGet_mulAt32 vlength_def lengthSq_def)

lemma pullBack32_own:
  "vec3At (velocities (pullBack32 gs p d i a)) i
     = (if galaxyRadius gs * Num 5 < d \<and> Num 0.000001 < lengthSq (subVectors blackHole p)
        then Vector3
               (fround (vx (vec3At (velocities a) i) + vx (normalize (subVectors blackHole p)) * Num 0.01))
               (fround (vy (vec3At (velocities a) i) + vy (normalize (subVectors blackHole p)) * Num 0.01))
               (fround (vz (vec3At (velocities a) i) + vz (normalize (subVectors blackHole p)) * Num 0.01))
        else vec3At (velocities a) i)"
  by (simp add: pullBack32_def Let_def vec3At_def arrayGet_addAt32)

lemma length_velocities32 [simp]:
  "length (velocities (integrate32 gs i a)) = length (velocities a)"
  "length (velocities (limitVelocity32 i a)) = length (velocities a)"
  "length (velocities (pullBack32 gs p d i a)) = length (velocities a)"
  by (simp_all add: integrate32_def limitVelocity32_def pullBack32_def Let_def)

text \<open>The velocity components that the integration step stores.\<close>

lemma clamp_notNaN:
  assumes "\<not> isNaN A"
  shows "\<exists>c. clamp (A * dt) (- Num 0.1) (Num 0.1) = Num c"
proof (cases A)
  case (Num r)
  have "clamp (A * dt) (- Num 0.1) (Num 0.1) = Num (min (max (r * 0.016) (- 0.1)) 0.1)"
    unfolding Num by (simp add: dt_def)
  then show ?thesis ..
next
  case Infinity
  have "clamp (A * dt) (- Num 0.1) (Num 0.1) = Num 0.1"
    unfolding Infinity
    by (simp add: dt_def clamp_def Math_max_def Math_min_def infinityOfSign_def)
  then show ?thesis ..
next
  case NegInfinity
  have "clamp (A * dt) (- Num 0.1) (Num 0.1) = Num (- 0.1)"
    unfolding NegInfinity
    by (simp add: dt_def clamp_def Math_max_def Math_min_def infinityOfSign_def)
  then show ?thesis ..
next
  case NaN
  then show ?thesis using assms by simp
qed

lemma integrate32_component:
  fixes v s :: real
  assumes "\<not> isNaN A"
  defines "w \<equiv> fround (fround (Num v + clamp (A * dt) (- Num 0.1) (Num 0.1)) * Num s)"
  shows "s \<noteq> 0 \<Longrightarrow> \<not> isNaN w" and "s = 0 \<Longrightarrow> isNaN w \<or> w = Num 0"
proof -
  from clamp_notNaN[OF assms(1)] obtain c where c: "clamp (A * dt) (- Num 0.1) (Num 0.1) = Num c" ..
  have w: "w = fround (fround (Num (v + c)) * Num s)" unfolding w_def c by simp
  show "\<not> isNaN w" if "s \<noteq> 0"
    unfolding w using that by (simp add: isNaN_times_Num)
  show "isNaN w \<or> w = Num 0" if "s = 0"
    unfolding w that using fround_cases[of "v + c"] by (auto simp: infinityOfSign_def)
qed

lemma integrate32_shape:
  fixes s :: real
  assumes "noNaNVector A" and "V = Vector3 (Num u) (Num v) (Num w)"
  defines "W \<equiv> Vector3
         (fround (fround (vx V + clamp (vx A * dt) (- Num 0.1) (Num 0.1)) * Num s))
         (fround (fround (vy V + clamp (vy A * dt) (- Num 0.1) (Num 0.1)) * Num s))
         (fround (fround (vz V + clamp (vz A * dt) (- Num 0.1) (Num 0.1)) * Num s))"
  shows "noNaNVector W \<or> zeroOrNaNVector W"
proof -
  from assms(1) have n: "\<not> isNaN (vx A)" "\<not> isNaN (vy A)" "\<not> isNaN (vz A)"
    by (simp_all add: noNaNVector_def)
  show ?thesis
  proof (cases "s = 0")
    case True
    show ?thesis
      unfolding W_def assms(2) zeroOrNaNVector_def Vector3.sel
      using integrate32_component(2)[OF n(1) True, of u] integrate32_component(2)[OF n(2) True, of v]
        integrate32_component(2)[OF n(3) True, of w]
      by blast
  next
    case False
    show ?thesis
      unfolding W_def assms(2) noNaNVector_def Vector3.sel
      using integrate32_component(1)[OF n(1) False, of u] integrate32_component(1)[OF n(2) False, of v]
        integrate32_component(1)[OF n(3) False, of w]
      by blast
  qed
qed

lemma vlength_zeroOrNaN:
  assumes "zeroOrNaNVector W"
  shows "\<not> Num 2 < vlength W"
proof -
  obtain a b c where W: "W = Vector3 a b c" by (cases W)
  from assms show ?thesis unfolding W
    by (auto simp: zeroOrNaNVector_def vlength_def lengthSq_def isNaN_iff)
qed

lemma times_zero_shape:
  assumes "\<not> isNaN q"
  shows "isNaN (fround (q * Num 0)) \<or> fround (q * Num 0) = Num 0"
  using assms by (cases q) (simp_all add: infinityOfSign_def)

text \<open>
  The velocity after the limit: finite with the sum of the squared components at most
  \<open>4 + 4 / 2750000\<close>, or (after an overflow) made of \<open>NaN\<close> and \<open>0\<close> only.
\<close>

lemma limit_tail:
  assumes "noNaNVector W \<or> zeroOrNaNVector W"
  defines "U \<equiv> (if Num 2 < vlength W
        then Vector3 (fround (vx W * (Num 2 / vlength W))) (fround (vy W * (Num 2 / vlength W)))
                     (fround (vz W * (Num 2 / vlength W)))
        else W)"
  shows "(\<exists>X Y Z. U = Vector3 (Num X) (Num Y) (Num Z) \<and> X * X + Y * Y + Z * Z \<le> 4 + 4 / 2750000)
       \<or> zeroOrNaNVector U"
proof (cases "zeroOrNaNVector W")
  case True
  then have "U = W" unfolding U_def using vlength_zeroOrNaN[OF True] by simp
  then show ?thesis using True by simp
next
  case False
  with assms(1) have nW: "noNaNVector W" by simp
  show ?thesis
  proof (cases "finiteVector W")
    case nf: False
    have d: "vlength W = Infinity" by (rule vlength_infinite[OF nW nf])
    have U: "U = Vector3 (fround (vx W * Num 0)) (fround (vy W * Num 0)) (fround (vz W * Num 0))"
      unfolding U_def d by simp
    from nW have n: "\<not> isNaN (vx W)" "\<not> isNaN (vy W)" "\<not> isNaN (vz W)"
      by (simp_all add: noNaNVector_def)
    have "zeroOrNaNVector U"
      unfolding U zeroOrNaNVector_def Vector3.sel
      using times_zero_shape[OF n(1)] times_zero_shape[OF n(2)] times_zero_shape[OF n(3)]
      by blast
    then show ?thesis ..
  next
    case True
    then obtain x y z where W: "W = Vector3 (Num x) (Num y) (Num z)" by (rule finiteVectorE)
    define d where "d = sqrt (x * x + y * y + z * z)"
    show ?thesis
    proof (cases "2 < d")
      case f: False
      then have U: "U = Vector3 (Num x) (Num y) (Num z)" unfolding U_def W by (simp add: d_def)
      from f have "sqrt (x * x + y * y + z * z) \<le> sqrt 4" unfolding d_def by simp
      then have "x * x + y * y + z * z \<le> 4" by (simp only: real_sqrt_le_iff)
      then have "x * x + y * y + z * z \<le> 4 + 4 / 2750000" by simp
      with U show ?thesis by blast
    next
      case t: True
      have d0: "d \<noteq> 0" using t by simp
      from scaled_rounded[of 2 x y z] t obtain X Y Z where
        r: "fround (Num (x * (2 / d))) = Num X" "fround (Num (y * (2 / d))) = Num Y"
           "fround (Num (z * (2 / d))) = Num Z"
        and b: "\<bar>(X * X + Y * Y + Z * Z) - 2 * 2\<bar> \<le> 2 * 2 / 2750000"
        unfolding d_def by auto
      have U: "U = Vector3 (Num X) (Num Y) (Num Z)"
        unfolding U_def W using t d0 r by (simp add: d_def[symmetric])
      define S where "S = X * X + Y * Y + Z * Z"
      have "\<bar>S - 4\<bar> \<le> 4 / 2750000" using b unfolding S_def by simp
      then have "S \<le> 4 + 4 / 2750000" by linarith
      with U show ?thesis unfolding S_def by blast
    qed
  qed
qed

lemma sqrt_limit_bound:
  assumes "X * X + Y * Y + Z * Z \<le> 4 + 4 / (2750000::real)"
  shows "sqrt (X * X + Y * Y + Z * Z) \<le> 20000004 / 10000000"
proof -
  have "X * X + Y * Y + Z * Z \<le> (20000004 / 10000000)\<^sup>2"
    using assms by (simp add: power2_eq_square)
  then show ?thesis by (rule real_le_lsqrt[rotated]) simp
qed

text \<open>The final check on such a velocity when the pull back has not been applied.\<close>

lemma cleared_tail:
  assumes "(\<exists>X Y Z. U = Vector3 (Num X) (Num Y) (Num Z) \<and> X * X + Y * Y + Z * Z \<le> 4 + 4 / 2750000)
       \<or> zeroOrNaNVector U"
  defines "V' \<equiv> Vector3 (if isNaN (vx U) then Num 0 else vx U) (if isNaN (vy U) then Num 0 else vy U)
                     (if isNaN (vz U) then Num 0 else vz U)"
  shows "vlength V' \<le> Num 2.000001"
  using assms(1)
proof
  assume "\<exists>X Y Z. U = Vector3 (Num X) (Num Y) (Num Z) \<and> X * X + Y * Y + Z * Z \<le> 4 + 4 / 2750000"
  then obtain X Y Z where U: "U = Vector3 (Num X) (Num Y) (Num Z)"
    and b: "X * X + Y * Y + Z * Z \<le> 4 + 4 / 2750000" by blast
  show ?thesis unfolding V'_def U using sqrt_limit_bound[OF b] by simp
next
  assume z: "zeroOrNaNVector U"
  obtain a b c where U: "U = Vector3 a b c" by (cases U)
  from z have "V' = Vector3 (Num 0) (Num 0) (Num 0)"
    unfolding V'_def U by (auto simp: zeroOrNaNVector_def)
  then show ?thesis by simp
qed

text \<open>
  The pull back, which adds a vector of length at most 0.01 to such a velocity, and the
  final check.
\<close>

lemma square_bound:
  fixes x k :: real
  assumes "\<bar>x\<bar> \<le> k"
  shows "x * x \<le> k * k"
proof -
  from assms have "\<bar>x\<bar> * \<bar>x\<bar> \<le> k * k" by (intro mult_mono) simp_all
  then show ?thesis by simp
qed

lemma pulled_component:
  fixes a :: real
  assumes "isNaN u \<or> u = Num 0" and "\<bar>a\<bar> \<le> 1 / 100"
  shows "\<exists>T. (if isNaN (fround (u + Num a)) then Num 0 else fround (u + Num a)) = Num T
            \<and> \<bar>T\<bar> \<le> 11 / 1000"
  using assms(1)
proof
  assume "isNaN u"
  then have "(if isNaN (fround (u + Num a)) then Num 0 else fround (u + Num a)) = Num 0" by simp
  then show ?thesis by (intro exI[of _ 0]) simp
next
  assume u: "u = Num 0"
  have "(1::real) \<le> 2 ^ 127" by simp
  with assms(2) have "\<bar>a\<bar> \<le> 2 ^ 127" by linarith
  from fround_bounded[OF this] obtain T where
    T: "fround (Num a) = Num T" "\<bar>T - a\<bar> \<le> max (\<bar>a\<bar> / 2 ^ 24) (1 / 2 ^ 150)" by blast
  have p: "(2::real) ^ 24 = 16777216" by simp
  have "\<bar>a\<bar> / 2 ^ 24 \<le> 1 / 1000" unfolding p using assms(2) by linarith
  moreover have "(1 / 2 ^ 150 :: real) \<le> 1 / 1000" by simp
  ultimately have "max (\<bar>a\<bar> / 2 ^ 24) (1 / 2 ^ 150) \<le> 1 / 1000" by (rule max.boundedI)
  with T(2) have "\<bar>T - a\<bar> \<le> 1 / 1000" by (rule order_trans)
  with assms(2) have "\<bar>T\<bar> \<le> 11 / 1000" by linarith
  with T(1) show ?thesis unfolding u by simp
qed

lemma pull_tail:
  fixes a b c :: real
  assumes "(\<exists>X Y Z. U = Vector3 (Num X) (Num Y) (Num Z) \<and> X * X + Y * Y + Z * Z \<le> 4 + 4 / 2750000)
       \<or> zeroOrNaNVector U"
    and w: "sqrt (a * a + b * b + c * c) \<le> 1 / 100"
  defines "U' \<equiv> Vector3 (fround (vx U + Num a)) (fround (vy U + Num b)) (fround (vz U + Num c))"
  defines "V' \<equiv> Vector3 (if isNaN (vx U') then Num 0 else vx U')
                     (if isNaN (vy U') then Num 0 else vy U') (if isNaN (vz U') then Num 0 else vz U')"
  shows "vlength V' \<le> Num 2.010001"
  using assms(1)
proof
  assume z: "zeroOrNaNVector U"
  have ab: "\<bar>a\<bar> \<le> 1 / 100" "\<bar>b\<bar> \<le> 1 / 100" "\<bar>c\<bar> \<le> 1 / 100"
    using abs_le_norm3[where x = a and y = b and z = c] w by linarith+
  from z have s: "isNaN (vx U) \<or> vx U = Num 0" "isNaN (vy U) \<or> vy U = Num 0"
    "isNaN (vz U) \<or> vz U = Num 0" by (simp_all add: zeroOrNaNVector_def)
  from pulled_component[OF s(1) ab(1)] obtain X where
    X: "(if isNaN (fround (vx U + Num a)) then Num 0 else fround (vx U + Num a)) = Num X"
      "\<bar>X\<bar> \<le> 11 / 1000" by blast
  from pulled_component[OF s(2) ab(2)] obtain Y where
    Y: "(if isNaN (fround (vy U + Num b)) then Num 0 else fround (vy U + Num b)) = Num Y"
      "\<bar>Y\<bar> \<le> 11 / 1000" by blast
  from pulled_component[OF s(3) ab(3)] obtain Z where
    Z: "(if isNaN (fround (vz U + Num c)) then Num 0 else fround (vz U + Num c)) = Num Z"
      "\<bar>Z\<bar> \<le> 11 / 1000" by blast
  have V: "V' = Vector3 (Num X) (Num Y) (Num Z)"
    unfolding V'_def U'_def Vector3.sel X(1) Y(1) Z(1) ..
  note bd = X(2) Y(2) Z(2)
  have "X * X \<le> (11 / 1000) * (11 / 1000)" "Y * Y \<le> (11 / 1000) * (11 / 1000)"
    "Z * Z \<le> (11 / 1000) * (11 / 1000)"
    by (rule square_bound[OF bd(1)], rule square_bound[OF bd(2)], rule square_bound[OF bd(3)])
  then have "X * X + Y * Y + Z * Z \<le> 2.010001\<^sup>2" by (simp add: power2_eq_square)
  then have "sqrt (X * X + Y * Y + Z * Z) \<le> 2.010001" by (rule real_le_lsqrt[rotated]) simp
  then show ?thesis unfolding V by simp
next
  assume "\<exists>X Y Z. U = Vector3 (Num X) (Num Y) (Num Z) \<and> X * X + Y * Y + Z * Z \<le> 4 + 4 / 2750000"
  then obtain X Y Z where U: "U = Vector3 (Num X) (Num Y) (Num Z)"
    and b: "X * X + Y * Y + Z * Z \<le> 4 + 4 / 2750000" by blast
  define tx ty tz where "tx = X + a" and "ty = Y + b" and "tz = Z + c"
  define c0 :: real where "c0 = 20100004 / 10000000"
  have n: "sqrt (tx * tx + ty * ty + tz * tz) \<le> c0"
    using norm3_triangle[of X a Y b Z c] sqrt_limit_bound[OF b] w
    unfolding tx_def ty_def tz_def c0_def by linarith
  have bt: "\<bar>tx\<bar> \<le> c0" "\<bar>ty\<bar> \<le> c0" "\<bar>tz\<bar> \<le> c0"
    using abs_le_norm3[where x = tx and y = ty and z = tz] n by linarith+
  define e where "e = c0 / 2 ^ 24"
  have r: "\<exists>T. fround (Num t) = Num T \<and> \<bar>T - t\<bar> \<le> e" if "\<bar>t\<bar> \<le> c0" for t
  proof -
    have "(3::real) \<le> 2 ^ 127" by simp
    with that have "\<bar>t\<bar> \<le> 2 ^ 127" unfolding c0_def by linarith
    from fround_bounded[OF this] obtain T where
      T: "fround (Num t) = Num T" "\<bar>T - t\<bar> \<le> max (\<bar>t\<bar> / 2 ^ 24) (1 / 2 ^ 150)" by blast
    have "\<bar>t\<bar> / 2 ^ 24 \<le> e" unfolding e_def using that by (simp add: divide_right_mono)
    moreover have "(1 / 2 ^ 150 :: real) \<le> e" unfolding e_def c0_def by simp
    ultimately have "max (\<bar>t\<bar> / 2 ^ 24) (1 / 2 ^ 150) \<le> e" by (rule max.boundedI)
    with T(2) have "\<bar>T - t\<bar> \<le> e" by (rule order_trans)
    with T(1) show ?thesis by blast
  qed
  from r[OF bt(1)] obtain TX where TX: "fround (Num tx) = Num TX" "\<bar>TX - tx\<bar> \<le> e" by blast
  from r[OF bt(2)] obtain TY where TY: "fround (Num ty) = Num TY" "\<bar>TY - ty\<bar> \<le> e" by blast
  from r[OF bt(3)] obtain TZ where TZ: "fround (Num tz) = Num TZ" "\<bar>TZ - tz\<bar> \<le> e" by blast
  have V: "V' = Vector3 (Num TX) (Num TY) (Num TZ)"
    unfolding V'_def U'_def U using TX(1) TY(1) TZ(1) by (simp add: tx_def ty_def tz_def)
  have "tx * tx + ty * ty + tz * tz \<le> c0\<^sup>2"
  proof -
    have "0 \<le> c0" unfolding c0_def by simp
    with n have "(sqrt (tx * tx + ty * ty + tz * tz))\<^sup>2 \<le> c0\<^sup>2"
      by (intro power_mono) simp_all
    then show ?thesis using sumsq_nonneg[of tx ty tz] by simp
  qed
  moreover have "\<bar>(TX * TX + TY * TY + TZ * TZ) - (tx * tx + ty * ty + tz * tz)\<bar>
      \<le> 3 * (2 * c0 * e + e * e)"
    by (rule sumsq_perturb[OF TX(2) TY(2) TZ(2) bt])
  moreover have "c0\<^sup>2 + 3 * (2 * c0 * e + e * e) \<le> 2.010001\<^sup>2"
    unfolding e_def c0_def by (simp add: power2_eq_square)
  ultimately have "TX * TX + TY * TY + TZ * TZ \<le> 2.010001\<^sup>2" by linarith
  then have "sqrt (TX * TX + TY * TY + TZ * TZ) \<le> 2.010001" by (rule real_le_lsqrt[rotated]) simp
  then show ?thesis unfolding V by simp
qed

lemma pull_vector_length:
  fixes x y z :: real
  assumes "x * x + y * y + z * z \<noteq> 0"
  shows "sqrt ((- x * (1 / sqrt (x * x + y * y + z * z)) * (1 / 100))
               * (- x * (1 / sqrt (x * x + y * y + z * z)) * (1 / 100))
             + (- y * (1 / sqrt (x * x + y * y + z * z)) * (1 / 100))
               * (- y * (1 / sqrt (x * x + y * y + z * z)) * (1 / 100))
             + (- z * (1 / sqrt (x * x + y * y + z * z)) * (1 / 100))
               * (- z * (1 / sqrt (x * x + y * y + z * z)) * (1 / 100))) \<le> 1 / 100"
proof -
  define k where "k = 1 / sqrt (x * x + y * y + z * z)"
  from assms have nz: "(- x) * (- x) + (- y) * (- y) + (- z) * (- z) \<noteq> 0" by simp
  have unit: "sqrt (((- x) * k) * ((- x) * k) + ((- y) * k) * ((- y) * k) + ((- z) * k) * ((- z) * k)) = 1"
    using norm3_unit[OF nz] by (simp add: k_def)
  have "sqrt ((((- x) * k) * (1 / 100)) * (((- x) * k) * (1 / 100))
            + (((- y) * k) * (1 / 100)) * (((- y) * k) * (1 / 100))
            + (((- z) * k) * (1 / 100)) * (((- z) * k) * (1 / 100)))
      = (1 / 100) * sqrt (((- x) * k) * ((- x) * k) + ((- y) * k) * ((- y) * k) + ((- z) * k) * ((- z) * k))"
    by (rule sqrt_sumsq_scale) simp
  also have "\<dots> = 1 / 100" unfolding unit by simp
  finally show ?thesis unfolding k_def by simp
qed

lemma le_Num_trans:
  assumes "a \<le> Num p" and "p \<le> q"
  shows "a \<le> Num q"
  using assms by (cases a) (auto simp: less_eq_number_def)

lemma galaxyParticle32_velocity:
  assumes fp: "finiteVector (vec3At (positions a) i)"
    and fv: "finiteVector (vec3At (velocities a) i)"
    and fa: "finiteVector (vec3At (accelerations a) i)"
    and fm: "isFinite (arrayGet (masses a) i)"
    and inp: "finiteInputs cfg f"
  shows "vlength (vec3At (velocities (galaxyParticle32 cfg f i a)) i) \<le> Num 2.010001"
    and "\<not> (galaxyRadius (galaxySettings cfg) * Num 5 < distanceTo (vec3At (positions a) i) blackHole)
       \<Longrightarrow> vlength (vec3At (velocities (galaxyParticle32 cfg f i a)) i) \<le> Num 2.000001"
proof -
  from fp obtain x y z where p: "vec3At (positions a) i = Vector3 (Num x) (Num y) (Num z)"
    by (rule finiteVectorE)
  from fv obtain u v w where v0: "vec3At (velocities a) i = Vector3 (Num u) (Num v) (Num w)"
    by (rule finiteVectorE)
  from fm obtain m0 where m0: "arrayGet (masses a) i = Num m0" by (auto simp: isFinite_iff)
  define gs where "gs = galaxySettings cfg"
  define position where "position = Vector3 (Num x) (Num y) (Num z)"
  define mass where "mass = (if m0 = 0 then 1 else m0)"
  define a1 where "a1 = resetAcceleration i a"
  define a2 where "a2 = applyGravity32 gs (Num mass) position (distanceTo position blackHole) i a1"
  define a3 where "a3 = mouseInteraction32 cfg f position i a2"
  define a4 where "a4 = integrate32 gs i a3"
  define a5 where "a5 = limitVelocity32 i a4"
  define a6 where "a6 = pullBack32 gs position (distanceTo position blackHole) i a5"
  define far where "far = (galaxyRadius gs * Num 5 < distanceTo position blackHole
      \<and> Num 0.000001 < lengthSq (subVectors blackHole position))"
  have fin: "isFinite (blackHoleMass gs)" "isFinite (interactionStrength cfg)"
    "finiteVector (mousePosWorld f)" "isFinite (stabilityFactor gs)" "isFinite (galaxyRadius gs)"
    using inp by (simp_all add: finiteInputs_def gs_def)
  from fin(4) obtain s where s: "stabilityFactor gs = Num s" by (auto simp: isFinite_iff)
  have eq: "galaxyParticle32 cfg f i a = finalSafetyCheck i a6"
    by (simp add: galaxyParticle32_def Let_def a1_def a2_def a3_def a4_def a5_def a6_def gs_def
        position_def mass_def vec3At_components[OF p] m0)
  have 1: "noNaNVector (vec3At (accelerations a1) i)"
    unfolding a1_def by (simp add: resetAcceleration_own[OF fa] noNaNVector_def)
  have 2: "noNaNVector (vec3At (accelerations a2) i)"
    unfolding a2_def position_def by (rule applyGravity32_noNaN[OF 1 fin(1)])
  have 3: "noNaNVector (vec3At (accelerations a3) i)"
    unfolding a3_def position_def by (rule mouseInteraction32_noNaN[OF 2 fin(2,3)])
  have v3: "velocities a3 = velocities a"
    by (simp add: a3_def a2_def a1_def)
  define W where "W = vec3At (velocities a4) i"
  have W: "noNaNVector W \<or> zeroOrNaNVector W"
    unfolding W_def a4_def integrate32_own s
    by (rule integrate32_shape[OF 3]) (simp add: v3 v0)
  define U where "U = vec3At (velocities a5) i"
  have U: "(\<exists>X Y Z. U = Vector3 (Num X) (Num Y) (Num Z) \<and> X * X + Y * Y + Z * Z \<le> 4 + 4 / 2750000)
       \<or> zeroOrNaNVector U"
    unfolding U_def a5_def limitVelocity32_own W_def[symmetric] by (rule limit_tail[OF W])
  have len: "Suc (Suc (i * 3)) < length (velocities a6)"
    unfolding a6_def a5_def a4_def using finiteVector_length(3)[OF fv] by (simp add: v3)
  have V': "vec3At (velocities (galaxyParticle32 cfg f i a)) i
      = Vector3 (if isNaN (vx (vec3At (velocities a6) i)) then Num 0 else vx (vec3At (velocities a6) i))
                (if isNaN (vy (vec3At (velocities a6) i)) then Num 0 else vy (vec3At (velocities a6) i))
                (if isNaN (vz (vec3At (velocities a6) i)) then Num 0 else vz (vec3At (velocities a6) i))"
    unfolding eq using protectNaN_vec[OF len] by (simp add: finalSafetyCheck_eq)
  have near: "vlength (vec3At (velocities (galaxyParticle32 cfg f i a)) i) \<le> Num 2.000001"
    if "\<not> far"
  proof -
    from that have nf: "\<not> (galaxyRadius gs * Num 5 < distanceTo position blackHole
        \<and> Num 0.000001 < lengthSq (subVectors blackHole position))"
      unfolding far_def .
    have 6: "vec3At (velocities a6) i = U"
      unfolding a6_def pullBack32_own U_def if_not_P[OF nf] ..
    show ?thesis unfolding V' 6 by (rule cleared_tail[OF U])
  qed
  have pulled: "vlength (vec3At (velocities (galaxyParticle32 cfg f i a)) i) \<le> Num 2.010001"
    if far
  proof -
    from that have S: "0.000001 < x * x + y * y + z * z"
      by (simp add: far_def position_def blackHole_def)
    then have nz: "x * x + y * y + z * z \<noteq> 0" by simp
    define k where "k = 1 / sqrt (x * x + y * y + z * z)"
    have 6: "vec3At (velocities a6) i
        = Vector3 (fround (vx U + Num (- x * k * (1 / 100)))) (fround (vy U + Num (- y * k * (1 / 100))))
                  (fround (vz U + Num (- z * k * (1 / 100))))"
      unfolding a6_def pullBack32_own U_def[symmetric] if_P[OF that[unfolded far_def]] using nz
      by (simp add: position_def blackHole_def normalize_Num k_def)
    show ?thesis
      unfolding V' 6
      by (rule pull_tail[OF U]) (use pull_vector_length[OF nz] in \<open>simp add: k_def\<close>)
  qed
  show "vlength (vec3At (velocities (galaxyParticle32 cfg f i a)) i) \<le> Num 2.010001"
  proof (cases far)
    case True
    then show ?thesis by (rule pulled)
  next
    case False
    show ?thesis by (rule le_Num_trans[OF near[OF False]]) simp
  qed
  show "vlength (vec3At (velocities (galaxyParticle32 cfg f i a)) i) \<le> Num 2.000001"
    if "\<not> (galaxyRadius (galaxySettings cfg) * Num 5 < distanceTo (vec3At (positions a) i) blackHole)"
    by (rule near) (use that in \<open>simp add: far_def p gs_def position_def\<close>)
qed

text \<open>The values that the stores of the sample update round to.\<close>

lemma fround_galaxy_y1: "fround (Num (- (5368709 / 1073741824))) = Num (- (5368709 / 1073741824))"
proof -
  have "fround (Num (- (5368709 / 1073741824))) = Num (of_int (- 10737418) * 2 powr (of_int (- 8) - 23))"
    by (rule fround_eval) (simp_all add: powr_minus_divide)
  also have "(of_int (- 10737418) * 2 powr (of_int (- 8) - 23) :: real) = - (5368709 / 1073741824)"
    by (simp add: powr_minus_divide)
  finally show ?thesis .
qed

lemma fround_galaxy_y2: "fround (Num (- (263066741 / 53687091200))) = Num (- (5261335 / 1073741824))"
proof -
  have "fround (Num (- (263066741 / 53687091200))) = Num (of_int (- 10522670) * 2 powr (of_int (- 8) - 23))"
    by (rule fround_eval) (simp_all add: powr_minus_divide)
  also have "(of_int (- 10522670) * 2 powr (of_int (- 8) - 23) :: real) = - (5261335 / 1073741824)"
    by (simp add: powr_minus_divide)
  finally show ?thesis .
qed

lemma fround_galaxy_z1: "fround (Num (100)) = Num (100)"
proof -
  have "fround (Num (100)) = Num (of_int (13107200) * 2 powr (of_int (6) - 23))"
    by (rule fround_eval) (simp_all add: powr_minus_divide)
  also have "(of_int (13107200) * 2 powr (of_int (6) - 23) :: real) = 100"
    by (simp add: powr_minus_divide)
  finally show ?thesis .
qed

lemma fround_galaxy_z2: "fround (Num (98)) = Num (98)"
proof -
  have "fround (Num (98)) = Num (of_int (12845056) * 2 powr (of_int (6) - 23))"
    by (rule fround_eval) (simp_all add: powr_minus_divide)
  also have "(of_int (12845056) * 2 powr (of_int (6) - 23) :: real) = 98"
    by (simp add: powr_minus_divide)
  finally show ?thesis .
qed

lemma fround_galaxy_py: "fround (Num (- (1052267 / 13421772800))) = Num (- (5387607 / 68719476736))"
proof -
  have "fround (Num (- (1052267 / 13421772800))) = Num (of_int (- 10775214) * 2 powr (of_int (- 14) - 23))"
    by (rule fround_eval) (simp_all add: powr_minus_divide)
  also have "(of_int (- 10775214) * 2 powr (of_int (- 14) - 23) :: real) = - (5387607 / 68719476736)"
    by (simp add: powr_minus_divide)
  finally show ?thesis .
qed

lemma fround_galaxy_pz: "fround (Num (196 / 125)) = Num (13153337 / 8388608)"
proof -
  have "fround (Num (196 / 125)) = Num (of_int (13153337) * 2 powr (of_int (0) - 23))"
    by (rule fround_eval) (simp_all add: powr_minus_divide)
  also have "(of_int (13153337) * 2 powr (of_int (0) - 23) :: real) = 13153337 / 8388608"
    by (simp add: powr_minus_divide)
  finally show ?thesis .
qed

lemmas fround_galaxy = fround_galaxy_y1 fround_galaxy_y2 fround_galaxy_z1 fround_galaxy_z2

lemma galaxy32_one:
  "updateGalaxyPhysics32 galaxyConfig f a = galaxyParticle32 galaxyConfig f 0 a"
  by (simp add: updateGalaxyPhysics32_def forLoop_def galaxyConfig_def driftConfig_def)

lemma galaxy32_sample_inputs: "finiteInputs galaxyConfig quietFrame"
  by (simp add: finiteInputs_def galaxyConfig_def driftConfig_def quietFrame_def
      defaultGalaxySettings_def)

text \<open>
  A core star as \<^verbatim>\<open>createGalaxyCore\<close> stores it when \<^verbatim>\<open>Math.random()\<close> returns 0: radius 0,
  so the position is the origin, and the velocity is \<open>(0, -0.005, 100)\<close> (the orbital speed
  is \<open>sqrt (blackHoleMass / 0.1) = 100\<close>), the second component rounded to single
  precision. The integration step stores the velocity \<open>(0, -0.0049..., 98)\<close>; the limit
  stores \<open>2\<close> as the third component (the product \<open>98 * (2 / currentVelocity)\<close> is
  \<open>1.9999999975\<close>, which rounds to 2) and \<open>-0.0000999...\<close> as the second.
\<close>

lemma galaxy32_sample_scaling:
  fixes wy d :: real
  assumes wy: "wy = - (5261335 / 1073741824)"
    and d: "d = sqrt (0 * 0 + wy * wy + 98 * 98)"
  shows "2 < d"
    and "fround (Num (wy * (2 / d))) = Num (- (13743895 / 137438953472))"
    and "fround (Num (98 * (2 / d))) = Num 2"
proof -
  have "(980000001225 / 10000000000)\<^sup>2 \<le> 0 * 0 + wy * wy + 98 * 98"
    unfolding wy by (simp add: power2_eq_square)
  then have lo: "980000001225 / 10000000000 \<le> d" unfolding d by (rule real_le_rsqrt)
  have "0 * 0 + wy * wy + 98 * 98 \<le> (980000001226 / 10000000000)\<^sup>2"
    unfolding wy by (simp add: power2_eq_square)
  then have hi: "d \<le> 980000001226 / 10000000000"
    unfolding d by (rule real_le_lsqrt[rotated]) simp
  have d0: "0 < d" using lo by linarith
  show "2 < d" using lo by linarith
  have tz: "199999999 / 100000000 \<le> 98 * (2 / d)" "98 * (2 / d) < 2"
    using d0 lo hi by (simp_all add: field_simps)
  have "fround (Num t) = Num 2" if "199999999 / 100000000 \<le> t" "t < 2" for t :: real
  proof -
    have "fround (Num t) = Num (of_int 16777216 * 2 powr (of_int 0 - 23))"
      by (rule fround_eval) (use that in \<open>simp_all add: powr_minus_divide abs_if\<close>)
    also have "(of_int 16777216 * 2 powr (of_int 0 - 23) :: real) = 2"
      by (simp add: powr_minus_divide)
    finally show ?thesis .
  qed
  from this[OF tz] show "fround (Num (98 * (2 / d))) = Num 2" .
  have ty: "- (13743895.494 / 137438953472) \<le> wy * (2 / d)"
    "wy * (2 / d) \<le> - (13743895.492 / 137438953472)"
    using d0 lo hi unfolding wy by (simp_all add: field_simps)
  have "fround (Num t) = Num (- (13743895 / 137438953472))"
    if "- (13743895.494 / 137438953472) \<le> t" "t \<le> - (13743895.492 / 137438953472)"
    for t :: real
  proof -
    have "fround (Num t) = Num (of_int (- 13743895) * 2 powr (of_int (- 14) - 23))"
      by (rule fround_eval) (use that in \<open>simp_all add: powr_minus_divide abs_if\<close>)
    also have "(of_int (- 13743895) * 2 powr (of_int (- 14) - 23) :: real)
        = - (13743895 / 137438953472)"
      by (simp add: powr_minus_divide)
    finally show ?thesis .
  qed
  from this[OF ty] show "fround (Num (wy * (2 / d))) = Num (- (13743895 / 137438953472))" .
qed

lemma galaxy32_sample_limited:
  "vec3At (velocities (updateGalaxyPhysics32 galaxyConfig quietFrame
      (oneParticle (Vector3 (Num 0) (Num 0) (Num 0))
         (Vector3 (Num 0) (Num (- (5368709 / 1073741824))) (Num 100))))) 0
     = Vector3 (Num 0) (Num (- (13743895 / 137438953472))) (Num 2)"
proof -
  define s0 where "s0 = oneParticle (Vector3 (Num 0) (Num 0) (Num 0))
         (Vector3 (Num 0) (Num (- (5368709 / 1073741824))) (Num 100))"
  define gs where "gs = galaxySettings galaxyConfig"
  have gs: "gs = defaultGalaxySettings" by (simp add: gs_def galaxyConfig_def driftConfig_def)
  define wy d :: real where "wy = - (5261335 / 1073741824)"
    and "d = sqrt (0 * 0 + wy * wy + 98 * 98)"
  note r = galaxy32_sample_scaling[OF wy_def d_def]
  have loc: "orElse (arrayGet (masses s0) 0) (Num 1) = Num 1"
    "Vector3 (orElse (arrayGet (positions s0) (0 * 3)) (Num 0))
             (orElse (arrayGet (positions s0) (0 * 3 + 1)) (Num 0))
             (orElse (arrayGet (positions s0) (0 * 3 + 2)) (Num 0)) = Vector3 (Num 0) (Num 0) (Num 0)"
    by (simp_all add: s0_def oneParticle_def evalArray)
  have dist: "distanceTo (Vector3 (Num 0) (Num 0) (Num 0)) blackHole = Num 0"
    by (simp add: blackHole_def)
  have 1: "resetAcceleration 0 s0 = s0"
    by (simp add: resetAcceleration_def s0_def oneParticle_def)
  have 2: "applyGravity32 gs (Num 1) (Vector3 (Num 0) (Num 0) (Num 0)) (Num 0) 0 s0 = s0"
    by (simp add: applyGravity32_def gs defaultGalaxySettings_def blackHole_def Let_def)
  have 3: "mouseInteraction32 galaxyConfig quietFrame (Vector3 (Num 0) (Num 0) (Num 0)) 0 s0 = s0"
    by (simp add: mouseInteraction32_def quietFrame_def)
  define a4 where "a4 = integrate32 gs 0 s0"
  have 4: "vec3At (velocities a4) 0 = Vector3 (Num 0) (Num wy) (Num 98)"
    unfolding a4_def integrate32_own
    by (simp add: gs defaultGalaxySettings_def dt_def s0_def oneParticle_def vec3At_def evalArray
        fround_galaxy wy_def)
  have vl: "vlength (Vector3 (Num 0) (Num wy) (Num 98)) = Num d"
    unfolding d_def by simp
  have d0: "d \<noteq> 0" using r(1) by simp
  define a5 where "a5 = limitVelocity32 0 a4"
  have "vec3At (velocities a5) 0
      = Vector3 (fround (Num 0 * (Num 2 / Num d))) (fround (Num wy * (Num 2 / Num d)))
                (fround (Num 98 * (Num 2 / Num d)))"
    unfolding a5_def limitVelocity32_own 4 vl using r(1) by simp
  also have "\<dots> = Vector3 (Num 0) (Num (- (13743895 / 137438953472))) (Num 2)"
    using d0 r(2,3) by simp
  finally have 5: "vec3At (velocities a5) 0
      = Vector3 (Num 0) (Num (- (13743895 / 137438953472))) (Num 2)" .
  define a6 where "a6 = pullBack32 gs (Vector3 (Num 0) (Num 0) (Num 0)) (Num 0) 0 a5"
  have 6: "vec3At (velocities a6) 0 = Vector3 (Num 0) (Num (- (13743895 / 137438953472))) (Num 2)"
    unfolding a6_def pullBack32_own 5 by (simp add: gs defaultGalaxySettings_def)
  have len: "Suc (Suc (0 * 3)) < length (velocities a6)"
    unfolding a6_def a5_def a4_def by (simp add: s0_def oneParticle_def)
  have "vec3At (velocities (finalSafetyCheck 0 a6)) 0
      = Vector3 (Num 0) (Num (- (13743895 / 137438953472))) (Num 2)"
    using protectNaN_vec[OF len] by (simp add: finalSafetyCheck_eq 6)
  then show ?thesis
    unfolding galaxy32_one galaxyParticle32_def Let_def s0_def[symmetric] gs_def[symmetric]
      loc dist 1 2 3 a4_def[symmetric] a5_def[symmetric] a6_def[symmetric] .
qed




section \<open>The emitter cloud: what \<^verbatim>\<open>initParticle\<close> writes\<close>

lemma sameExcept3_refl [simp]: "sameExcept3 i xs xs"
  by (simp add: sameExcept3_def)

lemma sameExcept1_refl [simp]: "sameExcept1 i xs xs"
  by (simp add: sameExcept1_def)

lemma sameExcept3_update:
  "sameExcept3 i xs (xs[i * 3 := a, i * 3 + 1 := b, i * 3 + 2 := c])"
proof -
  have "k \<noteq> i * 3 \<and> k \<noteq> i * 3 + 1 \<and> k \<noteq> i * 3 + 2" if "k div 3 \<noteq> i" for k
    using that by auto
  then show ?thesis by (simp add: sameExcept3_def)
qed

lemma sameExcept3_update':
  "sameExcept3 i xs (xs[i * 3 := a, Suc (i * 3) := b, Suc (Suc (i * 3)) := c])"
  using sameExcept3_update[of i xs a b c] by simp

lemma sameExcept1_update: "sameExcept1 i xs (xs[i := a])"
  by (simp add: sameExcept1_def)

lemma sameExcept3_store32:
  "sameExcept3 i xs (store32 (store32 (store32 xs (i * 3) a) (Suc (i * 3)) b) (Suc (Suc (i * 3))) c)"
  unfolding store32_def by (rule sameExcept3_update')

lemma sameExcept1_store32: "sameExcept1 i xs (store32 xs i a)"
  unfolding store32_def by (rule sameExcept1_update)

lemma arrayGet_store32:
  "arrayGet (store32 xs k v) j = (if j = k \<and> k < length xs then fround v else arrayGet xs j)"
  by (simp add: store32_def arrayGet_def)

lemma initParticle_effect:
  "(colors (arrays c) \<noteq> [] \<longrightarrow> initParticle u i fromEmitter c \<noteq> None)
   \<and> (\<forall>c'. initParticle u i fromEmitter c = Some c' \<longrightarrow>
         sameExcept3 i (positions (arrays c)) (positions (arrays c'))
       \<and> sameExcept3 i (velocities (arrays c)) (velocities (arrays c'))
       \<and> sameExcept3 i (accelerations (arrays c)) (accelerations (arrays c'))
       \<and> sameExcept3 i (colors (arrays c)) (colors (arrays c'))
       \<and> sameExcept1 i (sizes (arrays c)) (sizes (arrays c'))
       \<and> sameExcept1 i (lifeTimes (arrays c)) (lifeTimes (arrays c'))
       \<and> sameExcept1 i (startTimes (arrays c)) (startTimes (arrays c'))
       \<and> sameExcept1 i (opacities (arrays c)) (opacities (arrays c'))
       \<and> particleTypes (arrays c') = particleTypes (arrays c)
       \<and> masses (arrays c') = masses (arrays c)
       \<and> time c' = time c \<and> emitters c' = emitters c \<and> options c' = options c
       \<and> audioLevel c' = audioLevel c)"
  by (auto simp add: initParticle_def Let_def sameExcept3_store32 sameExcept1_store32
      split: if_splits option.splits)

text \<open>
  C9. Reinitialising the particle at index \<open>i\<close> writes only the slots of index \<open>i\<close>: the
  three position, velocity, acceleration and color components at offsets \<open>3i\<close> to
  \<open>3i + 2\<close>, and the size, lifeTime, startTime and opacity entries at index \<open>i\<close>. Every
  other entry of every array, the length of every array, the clock, the emitters and the
  options are as before; and the call returns whenever the color array is not empty.
\<close>

theorem initParticle_frame:
  "(colors (arrays c) \<noteq> [] \<longrightarrow> initParticle u i fromEmitter c \<noteq> None)
   \<and> (\<forall>c'. initParticle u i fromEmitter c = Some c' \<longrightarrow>
         sameExcept3 i (positions (arrays c)) (positions (arrays c'))
       \<and> sameExcept3 i (velocities (arrays c)) (velocities (arrays c'))
       \<and> sameExcept3 i (accelerations (arrays c)) (accelerations (arrays c'))
       \<and> sameExcept3 i (colors (arrays c)) (colors (arrays c'))
       \<and> sameExcept1 i (sizes (arrays c)) (sizes (arrays c'))
       \<and> sameExcept1 i (lifeTimes (arrays c)) (lifeTimes (arrays c'))
       \<and> sameExcept1 i (startTimes (arrays c)) (startTimes (arrays c'))
       \<and> sameExcept1 i (opacities (arrays c)) (opacities (arrays c'))
       \<and> particleTypes (arrays c') = particleTypes (arrays c)
       \<and> masses (arrays c') = masses (arrays c)
       \<and> time c' = time c \<and> emitters c' = emitters c \<and> options c' = options c
       \<and> audioLevel c' = audioLevel c)"
  by (rule initParticle_effect)

lemma forLoopOpt_0: "forLoopOpt 0 body s = Some s"
  by (simp add: forLoopOpt_def)

lemma forLoopOpt_Suc: "forLoopOpt (Suc n) body s = Option.bind (forLoopOpt n body s) (body n)"
  by (simp add: forLoopOpt_def)

lemma forLoopOpt_particle:
  assumes "i < n" and "I s" and "H s"
    and total: "\<And>j t. I t \<Longrightarrow> \<exists>t'. body j t = Some t' \<and> I t'"
    and Hpres: "\<And>j t t'. j \<noteq> i \<Longrightarrow> H t \<Longrightarrow> body j t = Some t' \<Longrightarrow> H t'"
    and est: "\<And>t t'. H t \<Longrightarrow> I t \<Longrightarrow> body i t = Some t' \<Longrightarrow> Q t'"
    and Qpres: "\<And>j t t'. j \<noteq> i \<Longrightarrow> Q t \<Longrightarrow> body j t = Some t' \<Longrightarrow> Q t'"
  shows "\<exists>s'. forLoopOpt n body s = Some s' \<and> I s' \<and> Q s'"
proof -
  have "\<exists>s'. forLoopOpt n body s = Some s' \<and> I s' \<and> (i < n \<longrightarrow> Q s') \<and> (n \<le> i \<longrightarrow> H s')"
  proof (induction n)
    case 0
    show ?case using \<open>I s\<close> \<open>H s\<close> by (simp add: forLoopOpt_0)
  next
    case (Suc n)
    then obtain t where t: "forLoopOpt n body s = Some t" "I t" "i < n \<longrightarrow> Q t" "n \<le> i \<longrightarrow> H t"
      by blast
    from total[OF t(2), of n] obtain t' where t': "body n t = Some t'" "I t'" by blast
    have step: "forLoopOpt (Suc n) body s = Some t'" by (simp add: forLoopOpt_Suc t(1) t'(1))
    show ?case
    proof (cases "i = n")
      case True
      then have "Q t'" using est[OF _ t(2)] t(4) t'(1) by simp
      then show ?thesis using step t'(2) True by simp
    next
      case False
      then have "i < n \<longrightarrow> Q t'" "Suc n \<le> i \<longrightarrow> H t'"
        using Qpres[of n t t'] Hpres[of n t t'] t(3,4) t'(1) by auto
      then show ?thesis using step t'(2) False by auto
    qed
  qed
  then show ?thesis using \<open>i < n\<close> by blast
qed

lemma sameExcept3_vec3At:
  assumes "sameExcept3 j xs ys" and "j \<noteq> i"
  shows "vec3At ys i = vec3At xs i"
proof -
  have "(i * 3) div 3 \<noteq> j" "(i * 3 + 1) div 3 \<noteq> j" "(i * 3 + 2) div 3 \<noteq> j"
    using assms(2) by auto
  then show ?thesis using assms(1) by (simp add: sameExcept3_def vec3At_def arrayGet_def)
qed

lemma sameExcept1_arrayGet:
  assumes "sameExcept1 j xs ys" and "j \<noteq> i"
  shows "arrayGet ys i = arrayGet xs i"
  using assms by (simp add: sameExcept1_def arrayGet_def)

lemma sameExcept_length:
  "sameExcept3 j xs ys \<Longrightarrow> length ys = length xs"
  "sameExcept1 j xs ys \<Longrightarrow> length ys = length xs"
  by (simp_all add: sameExcept3_def sameExcept1_def)

lemma initParticle_slots:
  assumes "initParticle u j fromEmitter c = Some c'" and "j \<noteq> i"
  shows "cloudSlotsOf i c' = cloudSlotsOf i c"
proof -
  from initParticle_effect[of c u j fromEmitter] assms(1)
  have f: "sameExcept3 j (positions (arrays c)) (positions (arrays c'))"
      "sameExcept3 j (velocities (arrays c)) (velocities (arrays c'))"
      "sameExcept3 j (accelerations (arrays c)) (accelerations (arrays c'))"
      "sameExcept3 j (colors (arrays c)) (colors (arrays c'))"
      "sameExcept1 j (sizes (arrays c)) (sizes (arrays c'))"
      "sameExcept1 j (lifeTimes (arrays c)) (lifeTimes (arrays c'))"
      "sameExcept1 j (startTimes (arrays c)) (startTimes (arrays c'))"
      "sameExcept1 j (opacities (arrays c)) (opacities (arrays c'))"
    and g: "time c' = time c" "emitters c' = emitters c" "options c' = options c"
      "audioLevel c' = audioLevel c"
    by simp_all
  show ?thesis
    unfolding cloudSlotsOf_def attributeSlots_def
    by (simp add: g f(1-4)[THEN sameExcept3_vec3At, OF assms(2)]
        f(5-8)[THEN sameExcept1_arrayGet, OF assms(2)]
        f(1-4)[THEN sameExcept_length(1)] f(5-8)[THEN sameExcept_length(2)])
qed

lemma attributeSlots_blocks:
  assumes "j \<noteq> i"
  shows "attributeSlots i (applyAcceleration delta j a) = attributeSlots i a"
    and "attributeSlots i (applyTurbulence c delta j a) = attributeSlots i a"
    and "attributeSlots i (cloudMouseInteraction c inp delta j a) = attributeSlots i a"
    and "attributeSlots i (damping j a) = attributeSlots i a"
    and "attributeSlots i (applyVelocity c delta j a) = attributeSlots i a"
    and "attributeSlots i (sizeAndOpacity c inp age lifeFactor j a) = attributeSlots i a"
  using assms
  by (simp_all add: attributeSlots_def applyAcceleration_def applyTurbulence_def
      cloudMouseInteraction_def damping_def applyVelocity_def sizeAndOpacity_def Let_def
      vec3At_other split: option.splits)

lemma live_kept [simp]:
  "startTimes (applyAcceleration delta j a) = startTimes a"
  "startTimes (applyTurbulence c delta j a) = startTimes a"
  "startTimes (cloudMouseInteraction c inp delta j a) = startTimes a"
  "startTimes (damping j a) = startTimes a"
  "startTimes (applyVelocity c delta j a) = startTimes a"
  "startTimes (sizeAndOpacity c inp age lifeFactor j a) = startTimes a"
  "lifeTimes (applyAcceleration delta j a) = lifeTimes a"
  "lifeTimes (applyTurbulence c delta j a) = lifeTimes a"
  "lifeTimes (cloudMouseInteraction c inp delta j a) = lifeTimes a"
  "lifeTimes (damping j a) = lifeTimes a"
  "lifeTimes (applyVelocity c delta j a) = lifeTimes a"
  "lifeTimes (sizeAndOpacity c inp age lifeFactor j a) = lifeTimes a"
  "colors (applyAcceleration delta j a) = colors a"
  "colors (applyTurbulence c delta j a) = colors a"
  "colors (cloudMouseInteraction c inp delta j a) = colors a"
  "colors (damping j a) = colors a"
  "colors (applyVelocity c delta j a) = colors a"
  "colors (sizeAndOpacity c inp age lifeFactor j a) = colors a"
  by (simp_all add: applyAcceleration_def applyTurbulence_def
      cloudMouseInteraction_def damping_def applyVelocity_def sizeAndOpacity_def Let_def
      split: option.splits)

lemma updateParticle_slots:
  assumes "updateParticle inp delta j c = Some c'" and "j \<noteq> i"
  shows "cloudSlotsOf i c' = cloudSlotsOf i c"
proof (cases "time c - arrayGet (startTimes (arrays c)) j \<ge> arrayGet (lifeTimes (arrays c)) j")
  case True
  then have "initParticle (initDraws inp j) j
      \<lfloor>emitterChoice inp j * real (length (emitters c))\<rfloor> c = Some c'"
    using assms(1) by (simp add: updateParticle_def Let_def)
  then show ?thesis by (rule initParticle_slots[OF _ assms(2)])
next
  case False
  then show ?thesis
    using assms(1)
    by (auto simp add: updateParticle_def Let_def cloudSlotsOf_def attributeSlots_blocks[OF assms(2)])
qed

lemma updateParticle_total:
  assumes "colors (arrays c) \<noteq> []"
  shows "\<exists>c'. updateParticle inp delta j c = Some c' \<and> colors (arrays c') \<noteq> []"
proof (cases "time c - arrayGet (startTimes (arrays c)) j \<ge> arrayGet (lifeTimes (arrays c)) j")
  case True
  let ?r = "initParticle (initDraws inp j) j \<lfloor>emitterChoice inp j * real (length (emitters c))\<rfloor> c"
  from initParticle_effect[of c "initDraws inp j" j "\<lfloor>emitterChoice inp j * real (length (emitters c))\<rfloor>"]
    assms obtain c' where c': "?r = Some c'" by auto
  with initParticle_effect[of c "initDraws inp j" j "\<lfloor>emitterChoice inp j * real (length (emitters c))\<rfloor>"]
  have "sameExcept3 j (colors (arrays c)) (colors (arrays c'))" by simp
  then have "length (colors (arrays c')) = length (colors (arrays c))" by (rule sameExcept_length)
  then have "colors (arrays c') \<noteq> []" using assms by auto
  then show ?thesis using True c' by (simp add: updateParticle_def Let_def)
next
  case False
  then show ?thesis using assms by (simp add: updateParticle_def Let_def)
qed

lemma sphere_point_sumsq:
  assumes "c * c + d * d = (1::real)" and "a * a + b * b = 1"
  shows "(r * a * c) * (r * a * c) + (r * a * d) * (r * a * d) + (r * b) * (r * b) = r * r"
proof -
  have "(r * a * c) * (r * a * c) + (r * a * d) * (r * a * d) + (r * b) * (r * b)
      = r * r * (a * a * (c * c + d * d) + b * b)"
    by (simp add: algebra_simps)
  then show ?thesis by (simp add: assms)
qed

lemma sphere_point_norm:
  "sqrt ((r * sin p * cos t) * (r * sin p * cos t) + (r * sin p * sin t) * (r * sin p * sin t)
      + (r * cos p) * (r * cos p)) = \<bar>r\<bar>"
proof -
  have 1: "cos t * cos t + sin t * sin t = 1"
    using sin_cos_squared_add2[of t] by (simp add: power2_eq_square)
  have 2: "sin p * sin p + cos p * cos p = 1"
    using sin_cos_squared_add[of p] by (simp add: power2_eq_square)
  show ?thesis unfolding sphere_point_sumsq[OF 1 2] by simp
qed

lemma initParticle_from_emitter:
  assumes e: "0 \<le> k" "k < int (length (emitters c))"
    and pos: "emitterPosition (emitters c ! nat k) = Vector3 (Num ex) (Num ey) (Num ez)"
    and rng: "i * 3 + 2 < length (positions (arrays c))" "i < length (startTimes (arrays c))"
    and col: "colors (arrays c) \<noteq> []"
  shows "\<exists>c'. initParticle u i k c = Some c'
     \<and> arrayGet (startTimes (arrays c')) i = fround (time c)
     \<and> vec3At (positions (arrays c')) i
         = Vector3
             (fround (Num (ex + uRadius u * 1.5 * sin (uPhi u * 2 * pi) * cos (uTheta u * 2 * pi))))
             (fround (Num (ey + uRadius u * 1.5 * sin (uPhi u * 2 * pi) * sin (uTheta u * 2 * pi))))
             (fround (Num (ez + uRadius u * 1.5 * cos (uPhi u * 2 * pi))))"
  using assms
  by (simp add: initParticle_def Let_def vec3At_def arrayGet_store32)

text \<open>
  A point placed within \<open>r\<close> of an emitter that lies in the box the emitters move in, as
  stored: the rounding of each coordinate moves it by less than \<open>0.000001\<close>.
\<close>

lemma rounded_coordinate:
  assumes "\<bar>p\<bar> \<le> 17"
  shows "\<exists>q. fround (Num p) = Num q \<and> \<bar>q - p\<bar> \<le> 0.000001 * 1.1"
proof -
  have "\<bar>p\<bar> \<le> 2 ^ 127" using assms by simp
  from fround_bounded[OF this] obtain q where q: "fround (Num p) = Num q"
    "\<bar>q - p\<bar> \<le> max (\<bar>p\<bar> / 2 ^ 24) (1 / 2 ^ 150)" by blast
  have "\<bar>p\<bar> / 2 ^ 24 \<le> 17 / 2 ^ 24" using assms by (simp add: divide_right_mono)
  also have "\<dots> \<le> (0.000001 * 1.1 :: real)" by simp
  finally have "\<bar>p\<bar> / 2 ^ 24 \<le> 0.000001 * 1.1" .
  moreover have "(1 / 2 ^ 150 :: real) \<le> 0.000001 * 1.1" by simp
  ultimately have "max (\<bar>p\<bar> / 2 ^ 24) (1 / 2 ^ 150) \<le> 0.000001 * 1.1" by simp
  with q(2) have "\<bar>q - p\<bar> \<le> 0.000001 * 1.1" by (rule order_trans)
  with q(1) show ?thesis by blast
qed

lemma distance_from_emitter_stored:
  assumes E: "\<bar>ex\<bar> \<le> 15" "\<bar>ey\<bar> \<le> 15" "\<bar>ez\<bar> \<le> 15"
    and r: "0 \<le> r" "r \<le> 2"
  shows "\<exists>d. distanceTo (Vector3 (fround (Num (ex + r * sin p * cos t)))
                                (fround (Num (ey + r * sin p * sin t)))
                                (fround (Num (ez + r * cos p))))
                       (Vector3 (Num ex) (Num ey) (Num ez)) = Num d
           \<and> d \<le> r + 0.000002"
proof -
  have sc: "\<bar>sin p * cos t\<bar> \<le> 1" "\<bar>sin p * sin t\<bar> \<le> 1" "\<bar>cos p\<bar> \<le> 1"
    by (simp_all add: abs_mult mult_le_one)
  have scale: "\<bar>r * s\<bar> \<le> 2" if "\<bar>s\<bar> \<le> 1" for s
  proof -
    have "\<bar>r\<bar> * \<bar>s\<bar> \<le> 2 * 1" using r that by (intro mult_mono) simp_all
    then show ?thesis by (simp add: abs_mult)
  qed
  have b: "\<bar>r * sin p * cos t\<bar> \<le> 2" "\<bar>r * sin p * sin t\<bar> \<le> 2" "\<bar>r * cos p\<bar> \<le> 2"
    using scale[OF sc(1)] scale[OF sc(2)] scale[OF sc(3)] by (simp_all add: mult.assoc)
  from rounded_coordinate[of "ex + r * sin p * cos t"] E(1) b(1) obtain qx where
    qx: "fround (Num (ex + r * sin p * cos t)) = Num qx"
      "\<bar>qx - (ex + r * sin p * cos t)\<bar> \<le> 0.000001 * 1.1" by force
  from rounded_coordinate[of "ey + r * sin p * sin t"] E(2) b(2) obtain qy where
    qy: "fround (Num (ey + r * sin p * sin t)) = Num qy"
      "\<bar>qy - (ey + r * sin p * sin t)\<bar> \<le> 0.000001 * 1.1" by force
  from rounded_coordinate[of "ez + r * cos p"] E(3) b(3) obtain qz where
    qz: "fround (Num (ez + r * cos p)) = Num qz"
      "\<bar>qz - (ez + r * cos p)\<bar> \<le> 0.000001 * 1.1" by force
  define dx dy dz where "dx = qx - (ex + r * sin p * cos t)"
    and "dy = qy - (ey + r * sin p * sin t)" and "dz = qz - (ez + r * cos p)"
  have d: "\<bar>dx\<bar> \<le> 0.000001 * 1.1" "\<bar>dy\<bar> \<le> 0.000001 * 1.1" "\<bar>dz\<bar> \<le> 0.000001 * 1.1"
    using qx(2) qy(2) qz(2) by (simp_all add: dx_def dy_def dz_def)
  have sq: "dx * dx \<le> (0.000001 * 1.1) * (0.000001 * 1.1)"
    "dy * dy \<le> (0.000001 * 1.1) * (0.000001 * 1.1)"
    "dz * dz \<le> (0.000001 * 1.1) * (0.000001 * 1.1)"
  proof -
    have "s * s \<le> (0.000001 * 1.1) * (0.000001 * 1.1)" if "\<bar>s\<bar> \<le> 0.000001 * 1.1" for s :: real
    proof -
      have "\<bar>s\<bar> * \<bar>s\<bar> \<le> (0.000001 * 1.1) * (0.000001 * 1.1)"
        using that by (intro mult_mono) simp_all
      then show ?thesis by simp
    qed
    from this[OF d(1)] this[OF d(2)] this[OF d(3)]
    show "dx * dx \<le> (0.000001 * 1.1) * (0.000001 * 1.1)"
      "dy * dy \<le> (0.000001 * 1.1) * (0.000001 * 1.1)"
      "dz * dz \<le> (0.000001 * 1.1) * (0.000001 * 1.1)" .
  qed
  have small: "sqrt (dx * dx + dy * dy + dz * dz) \<le> 0.000002"
    by (rule real_le_lsqrt) (use sq in \<open>simp_all add: power2_eq_square\<close>)
  have eq: "qx - ex = r * sin p * cos t + dx" "qy - ey = r * sin p * sin t + dy"
    "qz - ez = r * cos p + dz" by (simp_all add: dx_def dy_def dz_def)
  have "sqrt ((qx - ex) * (qx - ex) + (qy - ey) * (qy - ey) + (qz - ez) * (qz - ez))
      \<le> sqrt ((r * sin p * cos t) * (r * sin p * cos t) + (r * sin p * sin t) * (r * sin p * sin t)
            + (r * cos p) * (r * cos p)) + sqrt (dx * dx + dy * dy + dz * dz)"
    unfolding eq by (rule norm3_triangle)
  also have "\<dots> \<le> r + 0.000002"
    using small r(1) by (simp add: sphere_point_norm)
  finally show ?thesis by (simp add: qx(1) qy(1) qz(1))
qed

lemma distance_from_emitter:
  "distanceTo (Vector3 (Num (ex + r * sin p * cos t)) (Num (ey + r * sin p * sin t))
                       (Num (ez + r * cos p)))
              (Vector3 (Num ex) (Num ey) (Num ez)) = Num \<bar>r\<bar>"
  using sphere_point_norm[of r p t] by simp

lemma cloudSlotsOf_eqD:
  assumes "cloudSlotsOf i a = cloudSlotsOf i b"
  shows "vec3At (positions (arrays a)) i = vec3At (positions (arrays b)) i"
    and "vec3At (colors (arrays a)) i = vec3At (colors (arrays b)) i"
    and "arrayGet (startTimes (arrays a)) i = arrayGet (startTimes (arrays b)) i"
    and "arrayGet (lifeTimes (arrays a)) i = arrayGet (lifeTimes (arrays b)) i"
    and "length (positions (arrays a)) = length (positions (arrays b))"
    and "length (startTimes (arrays a)) = length (startTimes (arrays b))"
    and "time a = time b" and "emitters a = emitters b" and "options a = options b"
  using assms by (simp_all add: cloudSlotsOf_def attributeSlots_def)

lemma Num_le_trans: "a \<le> b \<Longrightarrow> Num b \<le> X \<Longrightarrow> Num a \<le> X"
  by (cases X) (auto simp: less_eq_number_def)

lemma floor_index:
  assumes "0 \<le> u" and "u < 1" and "0 < n"
  shows "0 \<le> \<lfloor>u * real n\<rfloor>" and "\<lfloor>u * real n\<rfloor> < int n"
proof -
  show "0 \<le> \<lfloor>u * real n\<rfloor>" using assms by simp
  have "u * real n < real n" using assms by simp
  then show "\<lfloor>u * real n\<rfloor> < int n" by (simp add: floor_less_iff)
qed

lemma updateEmitter_props:
  assumes "emitterAngle e = Num a"
  shows "\<exists>x y z. emitterPosition (updateEmitter (Num dl) k e) = Vector3 (Num x) (Num y) (Num z)
            \<and> \<bar>x\<bar> \<le> 15 \<and> \<bar>y\<bar> \<le> 15 \<and> \<bar>z\<bar> \<le> 15"
    and "emitterRadius (updateEmitter (Num dl) k e) = emitterRadius e"
proof -
  have "\<bar>15 * cos x\<bar> \<le> 15" "\<bar>8 * sin x\<bar> \<le> 15" "\<bar>5 * sin x\<bar> \<le> 15" for x :: real
  proof -
    have cs: "\<bar>cos x\<bar> \<le> 1" "\<bar>sin x\<bar> \<le> 1" by simp_all
    show "\<bar>15 * cos x\<bar> \<le> 15" "\<bar>8 * sin x\<bar> \<le> 15" "\<bar>5 * sin x\<bar> \<le> 15"
      unfolding abs_mult using cs by linarith+
  qed
  then show "\<exists>x y z. emitterPosition (updateEmitter (Num dl) k e) = Vector3 (Num x) (Num y) (Num z)
            \<and> \<bar>x\<bar> \<le> 15 \<and> \<bar>y\<bar> \<le> 15 \<and> \<bar>z\<bar> \<le> 15"
    using assms by (simp add: updateEmitter_def Let_def)
  show "emitterRadius (updateEmitter (Num dl) k e) = emitterRadius e"
    by (simp add: updateEmitter_def Let_def)
qed

lemma nth_updated_emitters:
  assumes "k < length es"
  shows "map (\<lambda>(i, e). updateEmitter delta i e) (enumerate 0 es) ! k = updateEmitter delta k (es ! k)"
  using assms by (simp add: nth_enumerate_eq)

text \<open>
  The emitters \<^verbatim>\<open>createEmitters\<close> builds have a finite angle and a radius of at least 2,
  and \<^verbatim>\<open>update\<close> changes neither property (it moves the emitters and keeps their radius).
\<close>

lemma createEmitters_radius:
  assumes "\<And>i k. 0 \<le> rnd i k"
  shows "\<forall>e \<in> set (emitters (createEmitters rnd c)).
           isFinite (emitterAngle e) \<and> Num 2 \<le> emitterRadius e"
  using assms by (auto simp: createEmitters_def createEmitter_def)

lemma update_recycles:
  assumes wf: "wellFormedCloud c"
    and i: "i < count (options c)"
    and t0: "time c = Num t0"
    and st: "arrayGet (startTimes (arrays c)) i = Num st"
    and lt: "arrayGet (lifeTimes (arrays c)) i = Num lt"
    and em: "emitters c \<noteq> []"
    and emf: "\<forall>e \<in> set (emitters c). isFinite (emitterAngle e) \<and> Num 2 \<le> emitterRadius e"
    and u: "0 \<le> emitterChoice inp i" "emitterChoice inp i < 1"
    and r: "0 \<le> uRadius (initDraws inp i)" "uRadius (initDraws inp i) < 1"
  shows "\<exists>c'. update inp (Num dl) c = Some c' \<and> time c' = Num (t0 + dl)
     \<and> (if lt \<le> t0 + dl - st then
           arrayGet (startTimes (arrays c')) i = fround (time c')
           \<and> (\<bar>t0 + dl\<bar> \<le> 2 ^ 127 \<longrightarrow>
                (\<exists>s. arrayGet (startTimes (arrays c')) i = Num s
                   \<and> \<bar>s - (t0 + dl)\<bar> \<le> max (\<bar>t0 + dl\<bar> / 2 ^ 24) (1 / 2 ^ 150)))
           \<and> (let e = emitters c' ! nat \<lfloor>emitterChoice inp i * real (length (emitters c'))\<rfloor>
              in distanceTo (vec3At (positions (arrays c')) i) (emitterPosition e) < Num 1.500002
                 \<and> distanceTo (vec3At (positions (arrays c')) i) (emitterPosition e)
                     \<le> emitterRadius e)
         else
           arrayGet (startTimes (arrays c')) i = Num st
           \<and> arrayGet (lifeTimes (arrays c')) i = Num lt
           \<and> vec3At (colors (arrays c')) i = vec3At (colors (arrays c)) i)"
proof -
  define c1 where "c1 = (let c = c\<lparr>time := time c + Num dl\<rparr>;
          c = (if audioConnected inp then
                 c\<lparr>audioLevel := Math_min (averageFrequency inp / Num 256.0 * Num 2) (Num 1.0)\<rparr>
               else c)
      in c\<lparr>emitters := map (\<lambda>(i, e). updateEmitter (Num dl) i e) (enumerate 0 (emitters c))\<rparr>)"
  have upd: "update inp (Num dl) c = forLoopOpt (count (options c)) (updateParticle inp (Num dl)) c1"
    by (simp add: update_def c1_def Let_def)
  have c1: "arrays c1 = arrays c" "time c1 = Num (t0 + dl)" "options c1 = options c"
    "emitters c1 = map (\<lambda>(i, e). updateEmitter (Num dl) i e) (enumerate 0 (emitters c))"
    by (simp_all add: c1_def Let_def t0)
  define n where "n = length (emitters c)"
  define k where "k = \<lfloor>emitterChoice inp i * real n\<rfloor>"
  have n0: "0 < n" using em by (simp add: n_def)
  have k: "0 \<le> k" "k < int n" unfolding k_def using floor_index[OF u n0] by simp_all
  have len1: "length (emitters c1) = n" by (simp add: c1 n_def)
  have kn: "nat k < length (emitters c)" using k by (simp add: n_def)
  have e1: "emitters c1 ! nat k = updateEmitter (Num dl) (nat k) (emitters c ! nat k)"
    unfolding c1 by (rule nth_updated_emitters[OF kn])
  from emf kn have ek: "isFinite (emitterAngle (emitters c ! nat k))"
    "Num 2 \<le> emitterRadius (emitters c ! nat k)" by (simp_all add: nth_mem)
  from ek(1) obtain ang where ang: "emitterAngle (emitters c ! nat k) = Num ang"
    by (auto simp: isFinite_iff)
  from updateEmitter_props[OF ang, of dl "nat k"] obtain ex ey ez where
    epos: "emitterPosition (emitters c1 ! nat k) = Vector3 (Num ex) (Num ey) (Num ez)"
    and ebox: "\<bar>ex\<bar> \<le> 15" "\<bar>ey\<bar> \<le> 15" "\<bar>ez\<bar> \<le> 15"
    and erad: "Num 2 \<le> emitterRadius (emitters c1 ! nat k)"
    using ek(2) unfolding e1 by auto
  have rng: "i * 3 + 2 < length (positions (arrays c))" "i < length (startTimes (arrays c))"
    "colors (arrays c) \<noteq> []"
    using wf i by (auto simp: wellFormedCloud_def)
  have tol: "\<bar>t0 + dl\<bar> \<le> 2 ^ 127 \<longrightarrow>
                (\<exists>s. fround (Num (t0 + dl)) = Num s
                   \<and> \<bar>s - (t0 + dl)\<bar> \<le> max (\<bar>t0 + dl\<bar> / 2 ^ 24) (1 / 2 ^ 150))"
    using fround_bounded[of "t0 + dl"] by blast
  define Q where "Q = (\<lambda>t :: particleCloud. time t = Num (t0 + dl)
     \<and> (if lt \<le> t0 + dl - st then
           arrayGet (startTimes (arrays t)) i = fround (time t)
           \<and> (\<bar>t0 + dl\<bar> \<le> 2 ^ 127 \<longrightarrow>
                (\<exists>s. arrayGet (startTimes (arrays t)) i = Num s
                   \<and> \<bar>s - (t0 + dl)\<bar> \<le> max (\<bar>t0 + dl\<bar> / 2 ^ 24) (1 / 2 ^ 150)))
           \<and> (let e = emitters t ! nat \<lfloor>emitterChoice inp i * real (length (emitters t))\<rfloor>
              in distanceTo (vec3At (positions (arrays t)) i) (emitterPosition e) < Num 1.500002
                 \<and> distanceTo (vec3At (positions (arrays t)) i) (emitterPosition e)
                     \<le> emitterRadius e)
         else
           arrayGet (startTimes (arrays t)) i = Num st
           \<and> arrayGet (lifeTimes (arrays t)) i = Num lt
           \<and> vec3At (colors (arrays t)) i = vec3At (colors (arrays c)) i))"
  have "\<exists>c'. forLoopOpt (count (options c)) (updateParticle inp (Num dl)) c1 = Some c'
      \<and> colors (arrays c') \<noteq> [] \<and> Q c'"
  proof (rule forLoopOpt_particle[where i = i and H = "\<lambda>t. cloudSlotsOf i t = cloudSlotsOf i c1"])
    show "i < count (options c)" by (rule i)
    show "colors (arrays c1) \<noteq> []" using rng(3) by (simp add: c1)
    show "cloudSlotsOf i c1 = cloudSlotsOf i c1" by simp
  next
    fix j and t :: particleCloud
    assume "colors (arrays t) \<noteq> []"
    then show "\<exists>t'. updateParticle inp (Num dl) j t = Some t' \<and> colors (arrays t') \<noteq> []"
      by (rule updateParticle_total)
  next
    fix j and t t' :: particleCloud
    assume "j \<noteq> i" "cloudSlotsOf i t = cloudSlotsOf i c1" "updateParticle inp (Num dl) j t = Some t'"
    then show "cloudSlotsOf i t' = cloudSlotsOf i c1"
      using updateParticle_slots[of inp "Num dl" j t t' i] by simp
  next
    fix j and t t' :: particleCloud
    assume ji: "j \<noteq> i" and q: "Q t" and s: "updateParticle inp (Num dl) j t = Some t'"
    note d = cloudSlotsOf_eqD[OF updateParticle_slots[OF s ji]]
    show "Q t'" using q unfolding Q_def d .
  next
    fix t t' :: particleCloud
    assume h: "cloudSlotsOf i t = cloudSlotsOf i c1" and col: "colors (arrays t) \<noteq> []"
      and s: "updateParticle inp (Num dl) i t = Some t'"
    note d = cloudSlotsOf_eqD[OF h]
    have age: "time t - arrayGet (startTimes (arrays t)) i = Num (t0 + dl - st)"
      unfolding d by (simp add: c1 st)
    have life: "arrayGet (lifeTimes (arrays t)) i = Num lt"
      unfolding d by (simp add: c1 lt)
    show "Q t'"
    proof (cases "lt \<le> t0 + dl - st")
      case True
      then have s': "initParticle (initDraws inp i) i k t = Some t'"
        using s by (simp add: updateParticle_def Let_def age life k_def d(8) len1)
      have kt: "k < int (length (emitters t))" using k(2) by (simp add: d(8) len1)
      have post: "emitterPosition (emitters t ! nat k) = Vector3 (Num ex) (Num ey) (Num ez)"
        using epos by (simp add: d(8))
      have rngt: "i * 3 + 2 < length (positions (arrays t))" "i < length (startTimes (arrays t))"
        using rng(1,2) by (simp_all add: d(5,6) c1)
      define rr where "rr = uRadius (initDraws inp i) * 1.5"
      from initParticle_from_emitter[OF k(1) kt post rngt col, of "initDraws inp i"] s'
      have st': "arrayGet (startTimes (arrays t')) i = fround (time t)"
        and p': "vec3At (positions (arrays t')) i
         = Vector3 (fround (Num (ex + rr * sin (uPhi (initDraws inp i) * 2 * pi) * cos (uTheta (initDraws inp i) * 2 * pi))))
                   (fround (Num (ey + rr * sin (uPhi (initDraws inp i) * 2 * pi) * sin (uTheta (initDraws inp i) * 2 * pi))))
                   (fround (Num (ez + rr * cos (uPhi (initDraws inp i) * 2 * pi))))"
        by (simp_all add: rr_def)
      from initParticle_effect[of t "initDraws inp i" i k] s'
      have fr: "time t' = time t" "emitters t' = emitters t" by simp_all
      have rr: "0 \<le> rr" "rr \<le> 2" "rr < 1.5" using r by (simp_all add: rr_def)
      from distance_from_emitter_stored[OF ebox rr(1,2)] obtain dd where
        dist: "distanceTo (vec3At (positions (arrays t')) i) (emitterPosition (emitters t ! nat k))
          = Num dd" and dd: "dd \<le> rr + 0.000002"
        unfolding p' post by blast
      have small: "dd < 1.500002" using dd rr(3) by simp
      then have "dd \<le> 2" by simp
      then have le: "Num dd \<le> emitterRadius (emitters t ! nat k)"
        using erad unfolding d(8) by (rule Num_le_trans)
      have tt: "time t = Num (t0 + dl)" by (simp add: d(7) c1(2))
      show ?thesis
        unfolding Q_def using True st' fr dist small le tol
        by (simp add: Let_def d(7,8) c1(2) len1 k_def[symmetric] tt)
    next
      case False
      then have "t' = t\<lparr>arrays := sizeAndOpacity t inp (Num (t0 + dl - st))
            (Num 1 - Num (t0 + dl - st) / Num lt) i
            (applyVelocity t (Num dl) i (damping i (cloudMouseInteraction t inp (Num dl) i
              (applyTurbulence t (Num dl) i (applyAcceleration (Num dl) i (arrays t))))))\<rparr>"
        using s by (simp add: updateParticle_def Let_def age life)
      then show ?thesis
        unfolding Q_def using False d(2,3,4,7) by (simp add: c1 st lt)
    qed
  qed
  then show ?thesis unfolding upd Q_def by blast
qed


lemma sampleCloud_facts:
  "wellFormedCloud sampleCloud" "0 < count (options sampleCloud)"
  "time sampleCloud = Num 1.96"
  "arrayGet (startTimes (arrays sampleCloud)) 0 = Num 0"
  "arrayGet (lifeTimes (arrays sampleCloud)) 0 = Num 2"
  "emitters sampleCloud \<noteq> []"
  "colors (arrays sampleCloud) \<noteq> []"
  by (simp_all add: sampleCloud_def createEmitters_def sampleOptions_def wellFormedCloud_def
      evalArray)

lemma sampleCloud_emitters:
  "\<forall>e \<in> set (emitters sampleCloud). isFinite (emitterAngle e) \<and> Num 2 \<le> emitterRadius e"
  unfolding sampleCloud_def by (rule createEmitters_radius) simp


text \<open>
  The scenario of the specification: a particle with life time 2, born at 0, in a cloud
  whose clock stands at 1.96, and an update with \<open>delta = 0.05\<close>. The clock is then 2.01, and
  the start time stored for the reborn particle is the single-precision number next to it,
  \<open>8430551 / 2^22 = 2.009999990463257...\<close>.
\<close>

theorem startTime_rounding_counterexample:
  "update sampleInputs (Num 0.05) sampleCloud \<noteq> None
   \<and> time (the (update sampleInputs (Num 0.05) sampleCloud)) = Num 2.01
   \<and> arrayGet (startTimes (arrays (the (update sampleInputs (Num 0.05) sampleCloud)))) 0
       = Num (8430551 / 4194304)
   \<and> Num (8430551 / 4194304) \<noteq> Num 2.01"
proof -
  have u: "0 \<le> emitterChoice sampleInputs 0" "emitterChoice sampleInputs 0 < 1"
    "0 \<le> uRadius (initDraws sampleInputs 0)" "uRadius (initDraws sampleInputs 0) < 1"
    by (simp_all add: sampleInputs_def sampleDraws_def)
  from update_recycles [OF sampleCloud_facts(1-6) sampleCloud_emitters u, of "0.05"]
  obtain c' where c': "update sampleInputs (Num 0.05) sampleCloud = Some c'"
    "time c' = Num (1.96 + 0.05)"
    "arrayGet (startTimes (arrays c')) 0 = fround (time c')"
    by auto
  have t: "time c' = Num 2.01" using c'(2) by simp
  have s0: "arrayGet (startTimes (arrays c')) 0 = Num (8430551 / 4194304)"
    using c'(3) unfolding t fround_2_01 .
  show ?thesis using s0 t c'(1) by simp
qed

theorem initParticle_frame_witness:
  "\<exists>c'. initParticle sampleDraws 0 1 (sampleCloud\<lparr>arrays := (arrays sampleCloud)\<lparr>
              positions := [Num 10, Num 0, Num 0, Num 7, Num 8, Num 9]\<rparr>\<rparr>) = Some c'
     \<and> length (positions (arrays c')) = 6
     \<and> positions (arrays c') ! 3 = Num 7 \<and> positions (arrays c') ! 4 = Num 8
     \<and> positions (arrays c') ! 5 = Num 9"
proof -
  define c where "c = sampleCloud\<lparr>arrays := (arrays sampleCloud)\<lparr>
              positions := [Num 10, Num 0, Num 0, Num 7, Num 8, Num 9]\<rparr>\<rparr>"
  have col: "colors (arrays c) \<noteq> []" using sampleCloud_facts(7) by (simp add: c_def)
  have pos: "positions (arrays c) = [Num 10, Num 0, Num 0, Num 7, Num 8, Num 9]"
    by (simp add: c_def)
  from initParticle_frame [of c sampleDraws 0 1] col
  obtain c' where c': "initParticle sampleDraws 0 1 c = Some c'"
    and fr: "sameExcept3 0 (positions (arrays c)) (positions (arrays c'))"
    by auto
  have "(3::nat) div 3 \<noteq> 0" "(4::nat) div 3 \<noteq> 0" "(5::nat) div 3 \<noteq> 0" by simp_all
  with fr have "positions (arrays c') ! 3 = positions (arrays c) ! 3"
    "positions (arrays c') ! 4 = positions (arrays c) ! 4"
    "positions (arrays c') ! 5 = positions (arrays c) ! 5"
    "length (positions (arrays c')) = length (positions (arrays c))"
    unfolding sameExcept3_def by blast+
  then show ?thesis using c' unfolding c_def[symmetric] pos by simp
qed

lemma normalize_scaled:
  assumes "x * x + y * y + z * z \<noteq> 0"
  shows "multiplyScalar (normalize (Vector3 (Num x) (Num y) (Num z))) (Num s)
     = Vector3 (Num (x / sqrt (x * x + y * y + z * z) * s))
               (Num (y / sqrt (x * x + y * y + z * z) * s))
               (Num (z / sqrt (x * x + y * y + z * z) * s))"
  using assms by (simp add: normalize_Num)

text \<open>
  C8. While the pointer interaction is active and the particle is at a distance from the
  pointer's world point that is positive and below the influence radius
  \<open>20 * (camera.position.z / 30)\<close>, the interaction adds to the particle's velocity the
  unit vector from the particle to the point, scaled by
  \<open>(influenceRadius - distance) * interactiveForce * delta\<close>. For a positive \<open>delta\<close>
  the scale is positive when \<open>interactiveForce\<close> is positive and negative when it is
  negative, and \<^verbatim>\<open>setMouseMode\<close> changes nothing but \<open>interactiveForce\<close>, to \<open>0.1\<close> or
  \<open>-0.1\<close>.
\<close>

theorem pointer_interaction:
  assumes act: "cloudInputs.mouseDown inp \<or> isContinuousMode inp"
    and target: "mouseTarget inp = Vector3 (Num tx) (Num ty) (Num tz)"
    and pos: "vec3At (positions a) i = Vector3 (Num px) (Num py) (Num pz)"
    and vel: "vec3At (velocities a) i = Vector3 (Num u) (Num v) (Num w)"
    and cam: "cameraZ inp = Num cz"
    and force: "interactiveForce (options c) = Num F"
  shows "let distance = sqrt ((tx - px) * (tx - px) + (ty - py) * (ty - py) + (tz - pz) * (tz - pz));
             influenceRadius = 20 * (cz / 30);
             strength = (influenceRadius - distance) * F * dl
         in (0 < distance \<and> distance < influenceRadius \<longrightarrow>
               vec3At (velocities (cloudMouseInteraction c inp (Num dl) i a)) i
                 = Vector3 (Num (u + (tx - px) / distance * strength))
                           (Num (v + (ty - py) / distance * strength))
                           (Num (w + (tz - pz) / distance * strength))
               \<and> sqrt (((tx - px) / distance) * ((tx - px) / distance)
                      + ((ty - py) / distance) * ((ty - py) / distance)
                      + ((tz - pz) / distance) * ((tz - pz) / distance)) = 1
               \<and> (0 < dl \<and> 0 < F \<longrightarrow> 0 < strength)
               \<and> (0 < dl \<and> F < 0 \<longrightarrow> strength < 0))
            \<and> setMouseMode True c
                 = c\<lparr>options := (options c)\<lparr>interactiveForce := Num 0.1\<rparr>\<rparr>
            \<and> setMouseMode False c
                 = c\<lparr>options := (options c)\<lparr>interactiveForce := Num (- 0.1)\<rparr>\<rparr>"
proof -
  define S where "S = (tx - px) * (tx - px) + (ty - py) * (ty - py) + (tz - pz) * (tz - pz)"
  define d where "d = sqrt S"
  define R where "R = 20 * (cz / 30)"
  define s where "s = (R - d) * F * dl"
  have main: "vec3At (velocities (cloudMouseInteraction c inp (Num dl) i a)) i
                 = Vector3 (Num (u + (tx - px) / d * s)) (Num (v + (ty - py) / d * s))
                           (Num (w + (tz - pz) / d * s))"
    and unit: "sqrt (((tx - px) / d) * ((tx - px) / d) + ((ty - py) / d) * ((ty - py) / d)
                      + ((tz - pz) / d) * ((tz - pz) / d)) = 1"
    if "0 < d" "d < R"
  proof -
    from that(1) have nz: "S \<noteq> 0" by (auto simp: d_def)
    then have nz': "(tx - px) * (tx - px) + (ty - py) * (ty - py) + (tz - pz) * (tz - pz) \<noteq> 0"
      by (simp add: S_def)
    have imp: "pointerImpulse c inp (Num dl) (Vector3 (Num px) (Num py) (Num pz))
        = Some (Vector3 (Num ((tx - px) / d * s)) (Num ((ty - py) / d * s)) (Num ((tz - pz) / d * s)))"
      using act that(2) nz'
      by (simp add: pointerImpulse_def Let_def target cam force normalize_Num
          d_def S_def R_def s_def)
    show "vec3At (velocities (cloudMouseInteraction c inp (Num dl) i a)) i
                 = Vector3 (Num (u + (tx - px) / d * s)) (Num (v + (ty - py) / d * s))
                           (Num (w + (tz - pz) / d * s))"
      by (simp add: cloudMouseInteraction_def Let_def vec3At_components[OF pos] imp
          vec3At_def arrayGet_addAt vec3At_components[OF vel])
    show "sqrt (((tx - px) / d) * ((tx - px) / d) + ((ty - py) / d) * ((ty - py) / d)
                      + ((tz - pz) / d) * ((tz - pz) / d)) = 1"
      using norm3_unit[OF nz'] by (simp add: d_def S_def)
  qed
  have sgn: "0 < s" if "d < R" "0 < dl" "0 < F" using that by (simp add: s_def)
  have sgn': "s < 0" if "d < R" "0 < dl" "F < 0"
    using that by (simp add: s_def mult_pos_neg mult_neg_pos)
  have mode: "setMouseMode True c = c\<lparr>options := (options c)\<lparr>interactiveForce := Num 0.1\<rparr>\<rparr>"
    "setMouseMode False c = c\<lparr>options := (options c)\<lparr>interactiveForce := Num (- 0.1)\<rparr>\<rparr>"
    by (simp_all add: setMouseMode_def)
  show ?thesis
    unfolding Let_def S_def[symmetric] d_def[symmetric] R_def[symmetric] s_def[symmetric]
    using main unit sgn sgn' mode by simp
qed

theorem pointer_interaction_witness:
  "vec3At (velocities (cloudMouseInteraction (setMouseMode False sampleCloud)
        (sampleInputs\<lparr>cloudInputs.mouseDown := True,
                       mouseTarget := Vector3 (Num 13) (Num 4) (Num 0)\<rparr>)
        (Num 0.05) 0 (arrays sampleCloud))) 0
     = Vector3 (Num (- 0.045)) (Num (- 0.06)) (Num 0)
   \<and> interactiveForce (options (setMouseMode False sampleCloud)) = Num (- 0.1)
   \<and> interactiveForce (options (setMouseMode True sampleCloud)) = Num 0.1"
proof -
  define c where "c = setMouseMode False sampleCloud"
  define inp where "inp = sampleInputs\<lparr>cloudInputs.mouseDown := True,
                       mouseTarget := Vector3 (Num 13) (Num 4) (Num 0)\<rparr>"
  have act: "cloudInputs.mouseDown inp \<or> isContinuousMode inp" by (simp add: inp_def)
  have target: "mouseTarget inp = Vector3 (Num 13) (Num 4) (Num 0)" by (simp add: inp_def)
  have pos: "vec3At (positions (arrays sampleCloud)) 0 = Vector3 (Num 10) (Num 0) (Num 0)"
    by (simp add: sampleCloud_def createEmitters_def vec3At_def evalArray)
  have vel: "vec3At (velocities (arrays sampleCloud)) 0 = Vector3 (Num 0) (Num 0) (Num 0)"
    by (simp add: sampleCloud_def createEmitters_def vec3At_def evalArray)
  have cam: "cameraZ inp = Num 30" by (simp add: inp_def sampleInputs_def)
  have force: "interactiveForce (options c) = Num (- 0.1)"
    by (simp add: c_def setMouseMode_def)
  have sq: "sqrt ((13 - 10) * (13 - 10) + (4 - 0) * (4 - 0) + (0 - 0) * (0 - 0)) = (5::real)"
    by (rule real_sqrt_unique) simp_all
  from pointer_interaction [OF act target pos vel cam force, of "0.05"]
  show ?thesis
    unfolding Let_def sq c_def[symmetric] inp_def[symmetric]
    by (simp add: c_def setMouseMode_def)
qed

section \<open>The position update\<close>

lemma applyVelocities_step:
  assumes "vec3At (positions a) i = Vector3 (Num x) (Num y) (Num z)"
    and "vec3At (velocities a) i = Vector3 (Num u) (Num v) (Num w)"
  shows "vec3At (positions (applyVelocities i a)) i
      = Vector3 (Num (x + u)) (Num (y + v)) (Num (z + w))"
  by (simp add: applyVelocities_def Let_def vec3At_def arrayGet_addAt
      vec3At_components[OF assms(1)] vec3At_components[OF assms(2)])

lemma containment_cases:
  assumes p: "vec3At (positions a) i = Vector3 (Num x) (Num y) (Num z)"
  shows "vec3At (positions (containment i a)) i
      = (if 50 < sqrt (x * x + y * y + z * z)
         then Vector3 (Num (x * (50 / sqrt (x * x + y * y + z * z))))
                      (Num (y * (50 / sqrt (x * x + y * y + z * z))))
                      (Num (z * (50 / sqrt (x * x + y * y + z * z))))
         else Vector3 (Num x) (Num y) (Num z))"
    and "velocities (containment i a) = velocities a"
  by (auto simp add: containment_def Let_def vec3At_def arrayGet_mulAt vec3At_components[OF p])

lemma protectNaN_velocity_own:
  assumes "finiteVector (vec3At (velocities a) i)"
  shows "vec3At (velocities (protectNaN i a)) i = vec3At (velocities a) i"
proof -
  from assms(1) obtain x y z where p: "vec3At (velocities a) i = Vector3 (Num x) (Num y) (Num z)"
    by (rule finiteVectorE)
  show ?thesis
    by (simp add: protectNaN_eq vec3At_def arrayGet_zeroIfNaN vec3At_components[OF p])
qed

lemma particleEffect_position:
  assumes p: "vec3At (positions a) i = Vector3 (Num x) (Num y) (Num z)"
    and fv: "finiteVector (vec3At (velocities a) i)"
    and inp: "finiteInputs cfg f"
  shows "\<exists>u v w. vec3At (velocities (particleEffect cfg f i a)) i = Vector3 (Num u) (Num v) (Num w)
     \<and> vec3At (positions (particleEffect cfg f i a)) i
         = (let d = sqrt ((x + u) * (x + u) + (y + v) * (y + v) + (z + w) * (z + w))
            in if 50 < d
               then Vector3 (Num ((x + u) * (50 / d))) (Num ((y + v) * (50 / d)))
                            (Num ((z + w) * (50 / d)))
               else Vector3 (Num (x + u)) (Num (y + v)) (Num (z + w)))"
proof -
  define a1 where "a1 = applyAudioReactivity cfg f i a"
  define a2 where "a2 = updateVelocities cfg f i a1"
  define a3 where "a3 = applyVelocities i a2"
  define a4 where "a4 = containment i a3"
  have 1: "finiteVector (vec3At (velocities a1) i)" "positions a1 = positions a"
    unfolding a1_def using applyAudioReactivity_own[OF fv inp] by simp_all
  have 2: "finiteVector (vec3At (velocities a2) i)" "positions a2 = positions a"
    unfolding a2_def using updateVelocities_own[OF 1(1) inp] 1(2) by simp_all
  from 2(1) obtain u v w where v2: "vec3At (velocities a2) i = Vector3 (Num u) (Num v) (Num w)"
    by (rule finiteVectorE)
  have p2: "vec3At (positions a2) i = Vector3 (Num x) (Num y) (Num z)" using p 2(2) by simp
  have 3: "vec3At (positions a3) i = Vector3 (Num (x + u)) (Num (y + v)) (Num (z + w))"
    unfolding a3_def by (rule applyVelocities_step[OF p2 v2])
  have v3: "velocities a3 = velocities a2"
    unfolding a3_def by (simp add: applyVelocities_def Let_def)
  note 4 = containment_cases[OF 3, folded a4_def]
  have f4: "finiteVector (vec3At (positions a4) i)" unfolding 4(1) by simp
  have v4: "vec3At (velocities a4) i = Vector3 (Num u) (Num v) (Num w)"
    unfolding 4(2) v3 by (rule v2)
  have eq: "particleEffect cfg f i a = protectNaN i a4"
    by (simp add: particleEffect_def Let_def a1_def a2_def a3_def a4_def)
  have pv: "vec3At (velocities (particleEffect cfg f i a)) i = Vector3 (Num u) (Num v) (Num w)"
    unfolding eq using protectNaN_velocity_own[of a4 i] v4 by simp
  have pp: "vec3At (positions (particleEffect cfg f i a)) i = vec3At (positions a4) i"
    unfolding eq by (rule protectNaN_own[OF f4])
  show ?thesis
    unfolding pp 4(1) Let_def using pv by blast
qed

lemma drift_position:
  assumes "i < particleCount cfg"
    and p: "vec3At (positions a) i = Vector3 (Num x) (Num y) (Num z)"
    and fv: "finiteVector (vec3At (velocities a) i)"
    and inp: "finiteInputs cfg f"
  shows "\<exists>u v w. vec3At (velocities (updateParticleEffects cfg f a)) i = Vector3 (Num u) (Num v) (Num w)
     \<and> vec3At (positions (updateParticleEffects cfg f a)) i
         = (let d = sqrt ((x + u) * (x + u) + (y + v) * (y + v) + (z + w) * (z + w))
            in if 50 < d
               then Vector3 (Num ((x + u) * (50 / d))) (Num ((y + v) * (50 / d)))
                            (Num ((z + w) * (50 / d)))
               else Vector3 (Num (x + u)) (Num (y + v)) (Num (z + w)))"
  unfolding updateParticleEffects_def
proof (rule forLoop_particle[where i = i and H = "\<lambda>t. slotsOf i t = slotsOf i a"])
  show "i < particleCount cfg" by (rule assms(1))
  show "slotsOf i a = slotsOf i a" by simp
next
  fix j and t :: attributes
  assume "j \<noteq> i" and "slotsOf i t = slotsOf i a"
  then show "slotsOf i (particleEffect cfg f j t) = slotsOf i a"
    by (simp add: slotsOf_particleEffect)
next
  fix t :: attributes
  assume h: "slotsOf i t = slotsOf i a"
  note s = slotsOf_vec3At[OF h]
  show "\<exists>u v w. vec3At (velocities (particleEffect cfg f i t)) i = Vector3 (Num u) (Num v) (Num w)
     \<and> vec3At (positions (particleEffect cfg f i t)) i
         = (let d = sqrt ((x + u) * (x + u) + (y + v) * (y + v) + (z + w) * (z + w))
            in if 50 < d
               then Vector3 (Num ((x + u) * (50 / d))) (Num ((y + v) * (50 / d)))
                            (Num ((z + w) * (50 / d)))
               else Vector3 (Num (x + u)) (Num (y + v)) (Num (z + w)))"
    by (rule particleEffect_position[OF _ _ inp]) (simp_all add: s p fv)
next
  fix j and t :: attributes
  assume ji: "j \<noteq> i"
    and q: "\<exists>u v w. vec3At (velocities t) i = Vector3 (Num u) (Num v) (Num w)
     \<and> vec3At (positions t) i
         = (let d = sqrt ((x + u) * (x + u) + (y + v) * (y + v) + (z + w) * (z + w))
            in if 50 < d
               then Vector3 (Num ((x + u) * (50 / d))) (Num ((y + v) * (50 / d)))
                            (Num ((z + w) * (50 / d)))
               else Vector3 (Num (x + u)) (Num (y + v)) (Num (z + w)))"
  note s = slotsOf_vec3At[OF slotsOf_particleEffect[OF ji, of cfg f t]]
  show "\<exists>u v w. vec3At (velocities (particleEffect cfg f j t)) i = Vector3 (Num u) (Num v) (Num w)
     \<and> vec3At (positions (particleEffect cfg f j t)) i
         = (let d = sqrt ((x + u) * (x + u) + (y + v) * (y + v) + (z + w) * (z + w))
            in if 50 < d
               then Vector3 (Num ((x + u) * (50 / d))) (Num ((y + v) * (50 / d)))
                            (Num ((z + w) * (50 / d)))
               else Vector3 (Num (x + u)) (Num (y + v)) (Num (z + w)))"
    unfolding s by (rule q)
qed


lemma integrate_step:
  assumes fa: "finiteVector (vec3At (accelerations a) i)"
    and fv: "finiteVector (vec3At (velocities a) i)"
    and p: "vec3At (positions a) i = Vector3 (Num x) (Num y) (Num z)"
    and st: "isFinite (stabilityFactor gs)"
  shows "\<exists>u v w. vec3At (velocities (integrate gs i a)) i = Vector3 (Num u) (Num v) (Num w)
     \<and> vec3At (positions (integrate gs i a)) i
         = Vector3 (Num (x + u * 0.016)) (Num (y + v * 0.016)) (Num (z + w * 0.016))"
proof -
  have "finiteVector (vec3At (positions a) i)" by (simp add: p)
  from integrate_own(1)[OF fa fv this st] obtain u v w where
    v': "vec3At (velocities (integrate gs i a)) i = Vector3 (Num u) (Num v) (Num w)"
    by (rule finiteVectorE)
  have "vec3At (positions (integrate gs i a)) i
      = Vector3 (Num x + arrayGet (velocities (integrate gs i a)) (i * 3) * Num 0.016)
                (Num y + arrayGet (velocities (integrate gs i a)) (Suc (i * 3)) * Num 0.016)
                (Num z + arrayGet (velocities (integrate gs i a)) (Suc (Suc (i * 3))) * Num 0.016)"
    by (simp add: integrate_def Let_def vec3At_def arrayGet_addAt arrayGet_mulAt dt_def
        vec3At_components[OF p])
  then show ?thesis using v' by (simp add: vec3At_components[OF v'])
qed

lemma limitVelocity_cases:
  assumes p: "vec3At (velocities a) i = Vector3 (Num x) (Num y) (Num z)"
  shows "vec3At (velocities (limitVelocity i a)) i
      = (if 2 < sqrt (x * x + y * y + z * z)
         then Vector3 (Num (x * (2 / sqrt (x * x + y * y + z * z))))
                      (Num (y * (2 / sqrt (x * x + y * y + z * z))))
                      (Num (z * (2 / sqrt (x * x + y * y + z * z))))
         else Vector3 (Num x) (Num y) (Num z))"
  by (auto simp add: limitVelocity_def Let_def vec3At_def arrayGet_mulAt vec3At_components[OF p])

lemma limited_norm:
  assumes "2 < sqrt (x * x + y * y + z * z)"
  shows "sqrt ((x * (2 / sqrt (x * x + y * y + z * z))) * (x * (2 / sqrt (x * x + y * y + z * z)))
      + (y * (2 / sqrt (x * x + y * y + z * z))) * (y * (2 / sqrt (x * x + y * y + z * z)))
      + (z * (2 / sqrt (x * x + y * y + z * z))) * (z * (2 / sqrt (x * x + y * y + z * z)))) = 2"
proof -
  define d where "d = sqrt (x * x + y * y + z * z)"
  have "sqrt ((x * (2 / d)) * (x * (2 / d)) + (y * (2 / d)) * (y * (2 / d))
        + (z * (2 / d)) * (z * (2 / d))) = (2 / d) * d"
    using assms unfolding d_def by (subst sqrt_sumsq_scale) simp_all
  also have "\<dots> = 2"
  proof -
    have "0 < d" using assms unfolding d_def by linarith
    then show ?thesis by simp
  qed
  finally show ?thesis unfolding d_def .
qed

lemma finalSafetyCheck_position_own:
  assumes "finiteVector (vec3At (positions a) i)"
  shows "vec3At (positions (finalSafetyCheck i a)) i = vec3At (positions a) i"
proof -
  from assms(1) obtain x y z where p: "vec3At (positions a) i = Vector3 (Num x) (Num y) (Num z)"
    by (rule finiteVectorE)
  show ?thesis
    by (simp add: finalSafetyCheck_eq vec3At_def arrayGet_zeroIfNaN vec3At_components[OF p])
qed

lemma galaxyParticle_position:
  assumes p: "vec3At (positions a) i = Vector3 (Num x) (Num y) (Num z)"
    and fv: "finiteVector (vec3At (velocities a) i)"
    and fa: "finiteVector (vec3At (accelerations a) i)"
    and fm: "isFinite (arrayGet (masses a) i)"
    and inp: "finiteInputs cfg f"
    and near: "\<not> (galaxyRadius (galaxySettings cfg) * Num 5 < Num (sqrt (x * x + y * y + z * z)))"
  shows "\<exists>u v w. vec3At (velocities (galaxyParticle cfg f i a)) i = Vector3 (Num u) (Num v) (Num w)
     \<and> (sqrt (u * u + v * v + w * w) < 2 \<longrightarrow>
          vec3At (positions (galaxyParticle cfg f i a)) i
            = Vector3 (Num (x + u * 0.016)) (Num (y + v * 0.016)) (Num (z + w * 0.016)))"
proof -
  from fm obtain m0 where m0: "arrayGet (masses a) i = Num m0" by (auto simp: isFinite_iff)
  define gs where "gs = galaxySettings cfg"
  define position where "position = Vector3 (Num x) (Num y) (Num z)"
  define mass where "mass = (if m0 = 0 then 1 else m0)"
  define a1 where "a1 = resetAcceleration i a"
  define a2 where "a2 = applyGravity gs (Num mass) position (distanceTo position blackHole) i a1"
  define a3 where "a3 = mouseInteraction cfg f position i a2"
  define a4 where "a4 = integrate gs i a3"
  define a5 where "a5 = limitVelocity i a4"
  define a6 where "a6 = pullBack gs position (distanceTo position blackHole) i a5"
  have fin: "isFinite (blackHoleMass gs)" "isFinite (interactionStrength cfg)"
    "finiteVector (mousePosWorld f)" "isFinite (stabilityFactor gs)" "isFinite (galaxyRadius gs)"
    using inp by (simp_all add: finiteInputs_def gs_def)
  have eq: "galaxyParticle cfg f i a = finalSafetyCheck i a6"
    by (simp add: galaxyParticle_def Let_def a1_def a2_def a3_def a4_def a5_def a6_def gs_def
        position_def mass_def vec3At_components[OF p] m0)
  have 1: "finiteVector (vec3At (accelerations a1) i)"
    unfolding a1_def by (simp add: resetAcceleration_own[OF fa])
  have 2: "finiteVector (vec3At (accelerations a2) i)"
    unfolding a2_def position_def by (rule applyGravity_finite[OF 1 fin(1)])
  have 3: "finiteVector (vec3At (accelerations a3) i)"
    unfolding a3_def position_def by (rule mouseInteraction_finite[OF 2 fin(2,3)])
  have v3: "velocities a3 = velocities a" and p3: "positions a3 = positions a"
    by (simp_all add: a3_def a2_def a1_def)
  have fv3: "finiteVector (vec3At (velocities a3) i)" using fv v3 by simp
  have pp3: "vec3At (positions a3) i = Vector3 (Num x) (Num y) (Num z)" using p p3 by simp
  from integrate_step[OF 3 fv3 pp3 fin(4)] obtain u v w where
    v4: "vec3At (velocities a4) i = Vector3 (Num u) (Num v) (Num w)"
    and p4: "vec3At (positions a4) i
         = Vector3 (Num (x + u * 0.016)) (Num (y + v * 0.016)) (Num (z + w * 0.016))"
    unfolding a4_def by blast
  define d where "d = sqrt (u * u + v * v + w * w)"
  define u' v' w' where "u' = (if 2 < d then u * (2 / d) else u)"
    and "v' = (if 2 < d then v * (2 / d) else v)" and "w' = (if 2 < d then w * (2 / d) else w)"
  have v5: "vec3At (velocities a5) i = Vector3 (Num u') (Num v') (Num w')"
    unfolding a5_def limitVelocity_cases[OF v4] u'_def v'_def w'_def d_def by simp
  have n5: "sqrt (u' * u' + v' * v' + w' * w') = (if 2 < d then 2 else d)"
    using limited_norm[of u v w] unfolding u'_def v'_def w'_def d_def by simp
  then have n5': "sqrt (u' * u' + v' * v' + w' * w') \<le> 2" by simp
  have p5: "positions a6 = positions a4" by (simp add: a6_def a5_def)
  have near': "\<not> (galaxyRadius gs * Num 5 < distanceTo (Vector3 (Num x) (Num y) (Num z)) blackHole)"
    using near by (simp add: gs_def blackHole_def)
  have v6: "vec3At (velocities a6) i = Vector3 (Num u') (Num v') (Num w')"
    unfolding a6_def position_def using pullBack_own(3)[OF v5 n5' fin(5) near'] v5 by simp
  have fv6: "finiteVector (vec3At (velocities a6) i)" unfolding v6 by simp
  have fp6: "finiteVector (vec3At (positions a6) i)" unfolding p5 p4 by simp
  have V: "vec3At (velocities (galaxyParticle cfg f i a)) i = Vector3 (Num u') (Num v') (Num w')"
    unfolding eq finalSafetyCheck_own[OF fv6] by (rule v6)
  have P: "vec3At (positions (galaxyParticle cfg f i a)) i
         = Vector3 (Num (x + u * 0.016)) (Num (y + v * 0.016)) (Num (z + w * 0.016))"
    unfolding eq finalSafetyCheck_position_own[OF fp6] p5 by (rule p4)
  have "u' = u \<and> v' = v \<and> w' = w" if "sqrt (u' * u' + v' * v' + w' * w') < 2"
    using that unfolding n5 by (simp add: u'_def v'_def w'_def split: if_splits)
  then show ?thesis using V P by auto
qed

lemma galaxy_position:
  assumes "i < particleCount cfg"
    and p: "vec3At (positions a) i = Vector3 (Num x) (Num y) (Num z)"
    and fv: "finiteVector (vec3At (velocities a) i)"
    and fa: "finiteVector (vec3At (accelerations a) i)"
    and fm: "isFinite (arrayGet (masses a) i)"
    and inp: "finiteInputs cfg f"
    and near: "\<not> (galaxyRadius (galaxySettings cfg) * Num 5 < Num (sqrt (x * x + y * y + z * z)))"
  shows "\<exists>u v w. vec3At (velocities (updateGalaxyPhysics cfg f a)) i = Vector3 (Num u) (Num v) (Num w)
     \<and> (sqrt (u * u + v * v + w * w) < 2 \<longrightarrow>
          vec3At (positions (updateGalaxyPhysics cfg f a)) i
            = Vector3 (Num (x + u * 0.016)) (Num (y + v * 0.016)) (Num (z + w * 0.016)))"
  unfolding updateGalaxyPhysics_def
proof (rule forLoop_particle[where i = i and H = "\<lambda>t. slotsOf i t = slotsOf i a"])
  show "i < particleCount cfg" by (rule assms(1))
  show "slotsOf i a = slotsOf i a" by simp
next
  fix j and t :: attributes
  assume "j \<noteq> i" and "slotsOf i t = slotsOf i a"
  then show "slotsOf i (galaxyParticle cfg f j t) = slotsOf i a"
    by (simp add: slotsOf_galaxyParticle)
next
  fix t :: attributes
  assume h: "slotsOf i t = slotsOf i a"
  note s = slotsOf_vec3At[OF h]
  show "\<exists>u v w. vec3At (velocities (galaxyParticle cfg f i t)) i = Vector3 (Num u) (Num v) (Num w)
     \<and> (sqrt (u * u + v * v + w * w) < 2 \<longrightarrow>
          vec3At (positions (galaxyParticle cfg f i t)) i
            = Vector3 (Num (x + u * 0.016)) (Num (y + v * 0.016)) (Num (z + w * 0.016)))"
    by (rule galaxyParticle_position[OF _ _ _ _ inp near]) (simp_all add: s p fv fa fm)
next
  fix j and t :: attributes
  assume ji: "j \<noteq> i"
    and q: "\<exists>u v w. vec3At (velocities t) i = Vector3 (Num u) (Num v) (Num w)
     \<and> (sqrt (u * u + v * v + w * w) < 2 \<longrightarrow>
          vec3At (positions t) i
            = Vector3 (Num (x + u * 0.016)) (Num (y + v * 0.016)) (Num (z + w * 0.016)))"
  note s = slotsOf_vec3At[OF slotsOf_galaxyParticle[OF ji, of cfg f t]]
  show "\<exists>u v w. vec3At (velocities (galaxyParticle cfg f j t)) i = Vector3 (Num u) (Num v) (Num w)
     \<and> (sqrt (u * u + v * v + w * w) < 2 \<longrightarrow>
          vec3At (positions (galaxyParticle cfg f j t)) i
            = Vector3 (Num (x + u * 0.016)) (Num (y + v * 0.016)) (Num (z + w * 0.016)))"
    unfolding s by (rule q)
qed


lemma positions_kept [simp]:
  "positions (applyAcceleration delta j a) = positions a"
  "positions (applyTurbulence c delta j a) = positions a"
  "positions (cloudMouseInteraction c inp delta j a) = positions a"
  "positions (damping j a) = positions a"
  "positions (sizeAndOpacity c inp age lifeFactor j a) = positions a"
  "velocities (applyVelocity c delta j a) = velocities a"
  "velocities (sizeAndOpacity c inp age lifeFactor j a) = velocities a"
  by (simp_all add: applyAcceleration_def applyTurbulence_def
      cloudMouseInteraction_def damping_def applyVelocity_def sizeAndOpacity_def Let_def
      split: option.splits)

lemma applyVelocity_step:
  "vec3At (positions (applyVelocity c delta i a)) i
     = Vector3 (vx (vec3At (positions a) i) + vx (vec3At (velocities a) i) * delta * speedFactor (options c))
               (vy (vec3At (positions a) i) + vy (vec3At (velocities a) i) * delta * speedFactor (options c))
               (vz (vec3At (positions a) i) + vz (vec3At (velocities a) i) * delta * speedFactor (options c))"
  by (simp add: applyVelocity_def Let_def vec3At_def arrayGet_addAt)

lemma cloudSlotsOf_velD:
  assumes "cloudSlotsOf i a = cloudSlotsOf i b"
  shows "vec3At (velocities (arrays a)) i = vec3At (velocities (arrays b)) i"
  using assms by (simp add: cloudSlotsOf_def attributeSlots_def)

lemma cloud_position:
  assumes wf: "wellFormedCloud c"
    and i: "i < count (options c)"
    and live: "\<not> (arrayGet (lifeTimes (arrays c)) i
                  \<le> time c + delta - arrayGet (startTimes (arrays c)) i)"
  shows "\<exists>c'. update inp delta c = Some c'
     \<and> vec3At (positions (arrays c')) i
         = Vector3 (vx (vec3At (positions (arrays c)) i)
                      + vx (vec3At (velocities (arrays c')) i) * delta * speedFactor (options c))
                   (vy (vec3At (positions (arrays c)) i)
                      + vy (vec3At (velocities (arrays c')) i) * delta * speedFactor (options c))
                   (vz (vec3At (positions (arrays c)) i)
                      + vz (vec3At (velocities (arrays c')) i) * delta * speedFactor (options c))"
proof -
  define c1 where "c1 = (let c = c\<lparr>time := time c + delta\<rparr>;
          c = (if audioConnected inp then
                 c\<lparr>audioLevel := Math_min (averageFrequency inp / Num 256.0 * Num 2) (Num 1.0)\<rparr>
               else c)
      in c\<lparr>emitters := map (\<lambda>(i, e). updateEmitter delta i e) (enumerate 0 (emitters c))\<rparr>)"
  have upd: "update inp delta c = forLoopOpt (count (options c)) (updateParticle inp delta) c1"
    by (simp add: update_def c1_def Let_def)
  have c1: "arrays c1 = arrays c" "time c1 = time c + delta" "options c1 = options c"
    by (simp_all add: c1_def Let_def)
  have col: "colors (arrays c) \<noteq> []" using wf i by (auto simp: wellFormedCloud_def)
  define P where "P = vec3At (positions (arrays c)) i"
  define s where "s = speedFactor (options c)"
  define Q where "Q = (\<lambda>t :: particleCloud. vec3At (positions (arrays t)) i
         = Vector3 (vx P + vx (vec3At (velocities (arrays t)) i) * delta * s)
                   (vy P + vy (vec3At (velocities (arrays t)) i) * delta * s)
                   (vz P + vz (vec3At (velocities (arrays t)) i) * delta * s))"
  have "\<exists>c'. forLoopOpt (count (options c)) (updateParticle inp delta) c1 = Some c'
      \<and> colors (arrays c') \<noteq> [] \<and> Q c'"
  proof (rule forLoopOpt_particle[where i = i and H = "\<lambda>t. cloudSlotsOf i t = cloudSlotsOf i c1"])
    show "i < count (options c)" by (rule i)
    show "colors (arrays c1) \<noteq> []" using col by (simp add: c1)
    show "cloudSlotsOf i c1 = cloudSlotsOf i c1" by simp
  next
    fix j and t :: particleCloud
    assume "colors (arrays t) \<noteq> []"
    then show "\<exists>t'. updateParticle inp delta j t = Some t' \<and> colors (arrays t') \<noteq> []"
      by (rule updateParticle_total)
  next
    fix j and t t' :: particleCloud
    assume "j \<noteq> i" "cloudSlotsOf i t = cloudSlotsOf i c1" "updateParticle inp delta j t = Some t'"
    then show "cloudSlotsOf i t' = cloudSlotsOf i c1"
      using updateParticle_slots[of inp delta j t t' i] by simp
  next
    fix j and t t' :: particleCloud
    assume ji: "j \<noteq> i" and q: "Q t" and st: "updateParticle inp delta j t = Some t'"
    note d = cloudSlotsOf_eqD(1)[OF updateParticle_slots[OF st ji]]
      cloudSlotsOf_velD[OF updateParticle_slots[OF st ji]]
    show "Q t'" using q unfolding Q_def d .
  next
    fix t t' :: particleCloud
    assume h: "cloudSlotsOf i t = cloudSlotsOf i c1" and "colors (arrays t) \<noteq> []"
      and st: "updateParticle inp delta i t = Some t'"
    note d = cloudSlotsOf_eqD[OF h]
    have nl: "\<not> (arrayGet (lifeTimes (arrays t)) i \<le> time t - arrayGet (startTimes (arrays t)) i)"
      unfolding d using live by (simp add: c1)
    define age where "age = time t - arrayGet (startTimes (arrays t)) i"
    define b where "b = damping i (cloudMouseInteraction t inp delta i
              (applyTurbulence t delta i (applyAcceleration delta i (arrays t))))"
    have t': "t' = t\<lparr>arrays := sizeAndOpacity t inp age
            (Num 1 - age / arrayGet (lifeTimes (arrays t)) i) i (applyVelocity t delta i b)\<rparr>"
      using st nl by (simp add: updateParticle_def Let_def age_def b_def)
    have pb: "positions b = positions (arrays t)" by (simp add: b_def)
    have "vec3At (positions (arrays t')) i
        = Vector3 (vx (vec3At (positions (arrays t)) i) + vx (vec3At (velocities b) i) * delta * speedFactor (options t))
               (vy (vec3At (positions (arrays t)) i) + vy (vec3At (velocities b) i) * delta * speedFactor (options t))
               (vz (vec3At (positions (arrays t)) i) + vz (vec3At (velocities b) i) * delta * speedFactor (options t))"
      unfolding t' by (simp add: applyVelocity_step pb)
    moreover have "velocities (arrays t') = velocities b" unfolding t' by simp
    ultimately show "Q t'"
      unfolding Q_def P_def s_def d(1) d(9) by (simp add: c1)
  qed
  then show ?thesis unfolding upd Q_def P_def s_def by blast
qed

lemma lt3_cases: "k < 3 \<Longrightarrow> k = 0 \<or> k = Suc 0 \<or> k = Suc (Suc 0)"
  by arith


lemma integrate_component:
  assumes "k < 3"
  shows "arrayGet (positions (integrate gs i a)) (i * 3 + k)
          = arrayGet (positions a) (i * 3 + k)
            + arrayGet (velocities (integrate gs i a)) (i * 3 + k) * Num 0.016"
  using lt3_cases[OF assms]
  by (auto simp add: integrate_def Let_def arrayGet_addAt arrayGet_mulAt dt_def)

lemma applyVelocities_component:
  assumes "k < 3"
  shows "arrayGet (positions (applyVelocities i a)) (i * 3 + k)
          = arrayGet (positions a) (i * 3 + k) + arrayGet (velocities a) (i * 3 + k)"
  using lt3_cases[OF assms]
  by (auto simp add: applyVelocities_def Let_def arrayGet_addAt)

lemma applyVelocity_component:
  assumes "k < 3"
  shows "arrayGet (positions (applyVelocity c delta i a)) (i * 3 + k)
          = arrayGet (positions a) (i * 3 + k)
            + arrayGet (velocities a) (i * 3 + k) * delta * speedFactor (options c)"
  using lt3_cases[OF assms]
  by (auto simp add: applyVelocity_def Let_def arrayGet_addAt)

text \<open>One update call of a single particle, evaluated: drift mode and galaxy mode.\<close>

lemma drift_step:
  "positions (updateParticleEffects driftConfig quietFrame
          (oneParticle (Vector3 (Num 0) (Num 0) (Num 0)) (Vector3 (Num 1) (Num 0) (Num 0))))
       = [Num 0.97951, Num 0.000588, Num 0]
   \<and> velocities (updateParticleEffects driftConfig quietFrame
          (oneParticle (Vector3 (Num 0) (Num 0) (Num 0)) (Vector3 (Num 1) (Num 0) (Num 0))))
       = [Num 0.97951, Num 0.000588, Num 0]"
proof -
  define s0 where "s0 = oneParticle (Vector3 (Num 0) (Num 0) (Num 0)) (Vector3 (Num 1) (Num 0) (Num 0))"
  have 1: "applyAudioReactivity driftConfig quietFrame 0 s0 = s0"
    by (simp add: applyAudioReactivity_def quietFrame_def driftConfig_def s0_def oneParticle_def)
  have 2: "updateVelocities driftConfig quietFrame 0 s0
      = s0\<lparr>velocities := [Num 0.97951, Num 0.000588, Num 0]\<rparr>"
    by (simp add: updateVelocities_def quietFrame_def driftConfig_def s0_def oneParticle_def
        evalArray)
  have 3: "applyVelocities 0 (s0\<lparr>velocities := [Num 0.97951, Num 0.000588, Num 0]\<rparr>)
      = s0\<lparr>velocities := [Num 0.97951, Num 0.000588, Num 0],
            positions := [Num 0.97951, Num 0.000588, Num 0]\<rparr>"
    by (simp add: applyVelocities_def s0_def oneParticle_def evalArray)
  have le: "sqrt (0.97951 * 0.97951 + 0.000588 * 0.000588) \<le> (50::real)"
    by (rule real_le_lsqrt) simp_all
  have 4: "containment 0 (s0\<lparr>velocities := [Num 0.97951, Num 0.000588, Num 0],
            positions := [Num 0.97951, Num 0.000588, Num 0]\<rparr>)
      = s0\<lparr>velocities := [Num 0.97951, Num 0.000588, Num 0],
            positions := [Num 0.97951, Num 0.000588, Num 0]\<rparr>"
    using le by (simp add: containment_def s0_def oneParticle_def evalArray Let_def)
  have 5: "protectNaN 0 (s0\<lparr>velocities := [Num 0.97951, Num 0.000588, Num 0],
            positions := [Num 0.97951, Num 0.000588, Num 0]\<rparr>)
      = s0\<lparr>velocities := [Num 0.97951, Num 0.000588, Num 0],
            positions := [Num 0.97951, Num 0.000588, Num 0]\<rparr>"
    by (simp add: protectNaN_eq s0_def oneParticle_def evalArray)
  show ?thesis
    unfolding drift_one particleEffect_def Let_def s0_def[symmetric] 1 2 3 4 5 by simp
qed

lemma galaxy_step:
  "velocities (updateGalaxyPhysics galaxyConfig quietFrame
      (oneParticle (Vector3 (Num 10) (Num 0) (Num 0)) (Vector3 (Num 1) (Num 0) (Num 0))))
     = [Num 0.978432, Num 0, Num 0]"
proof -
  define s0 where "s0 = oneParticle (Vector3 (Num 10) (Num 0) (Num 0)) (Vector3 (Num 1) (Num 0) (Num 0))"
  define gs where "gs = galaxySettings galaxyConfig"
  have gs: "gs = defaultGalaxySettings" by (simp add: gs_def galaxyConfig_def driftConfig_def)
  have sq: "sqrt 100 = 10" by (rule real_sqrt_unique) simp_all
  have loc: "orElse (arrayGet (masses s0) 0) (Num 1) = Num 1"
    "Vector3 (orElse (arrayGet (positions s0) (0 * 3)) (Num 0))
             (orElse (arrayGet (positions s0) (0 * 3 + 1)) (Num 0))
             (orElse (arrayGet (positions s0) (0 * 3 + 2)) (Num 0)) = Vector3 (Num 10) (Num 0) (Num 0)"
    by (simp_all add: s0_def oneParticle_def evalArray)
  have dist: "distanceTo (Vector3 (Num 10) (Num 0) (Num 0)) blackHole = Num 10"
    by (simp add: blackHole_def sq)
  have 1: "resetAcceleration 0 s0 = s0"
    by (simp add: resetAcceleration_def s0_def oneParticle_def)
  have 2: "applyGravity gs (Num 1) (Vector3 (Num 10) (Num 0) (Num 0)) (Num 10) 0 s0
      = s0\<lparr>accelerations := [Num (- 0.1), Num 0, Num 0]\<rparr>"
    by (simp add: applyGravity_def gs defaultGalaxySettings_def gravityConstant_def blackHole_def
        normalize_Num addAcceleration_def Let_def sq s0_def oneParticle_def evalArray)
  define s2 where "s2 = s0\<lparr>accelerations := [Num (- 0.1), Num 0, Num 0]\<rparr>"
  have 3: "mouseInteraction galaxyConfig quietFrame (Vector3 (Num 10) (Num 0) (Num 0)) 0 s2 = s2"
    by (simp add: mouseInteraction_def quietFrame_def)
  have 4: "integrate gs 0 s2
      = s2\<lparr>velocities := [Num 0.978432, Num 0, Num 0],
            positions := [Num 10.015654912, Num 0, Num 0]\<rparr>"
    by (simp add: integrate_def gs defaultGalaxySettings_def dt_def Let_def s2_def s0_def
        oneParticle_def evalArray)
  have sqv: "sqrt (233722944 / 244140625) = 15288 / 15625"
    by (rule real_sqrt_unique) (simp_all add: power2_eq_square)
  have 5: "limitVelocity 0 (s2\<lparr>velocities := [Num 0.978432, Num 0, Num 0],
            positions := [Num 10.015654912, Num 0, Num 0]\<rparr>)
      = s2\<lparr>velocities := [Num 0.978432, Num 0, Num 0],
            positions := [Num 10.015654912, Num 0, Num 0]\<rparr>"
    using sqv by (simp add: limitVelocity_def Let_def s2_def s0_def oneParticle_def evalArray)
  have 6: "pullBack gs (Vector3 (Num 10) (Num 0) (Num 0)) (Num 10) 0
         (s2\<lparr>velocities := [Num 0.978432, Num 0, Num 0],
            positions := [Num 10.015654912, Num 0, Num 0]\<rparr>)
      = s2\<lparr>velocities := [Num 0.978432, Num 0, Num 0],
            positions := [Num 10.015654912, Num 0, Num 0]\<rparr>"
    by (simp add: pullBack_def gs defaultGalaxySettings_def Let_def)
  have 7: "finalSafetyCheck 0 (s2\<lparr>velocities := [Num 0.978432, Num 0, Num 0],
            positions := [Num 10.015654912, Num 0, Num 0]\<rparr>)
      = s2\<lparr>velocities := [Num 0.978432, Num 0, Num 0],
            positions := [Num 10.015654912, Num 0, Num 0]\<rparr>"
    by (simp add: finalSafetyCheck_eq s2_def s0_def oneParticle_def evalArray)
  show ?thesis
    unfolding galaxy_one galaxyParticle_def Let_def s0_def[symmetric] gs_def[symmetric]
      loc dist 1 2 s2_def[symmetric] 3 4 5 6 7
    by simp
qed


text \<open>
  C5. The position update of each mode.

  The blocks, component by component and for any stored values: in galaxy mode the
  position gains the velocity (as the block leaves it, after the clamped acceleration
  and the stability factor) times the fixed step \<open>dt = 0.016\<close>; in the drift mode of
  main.js the position gains the velocity itself, with no time factor; in the particle
  cloud of main.js.bak the position gains the velocity times \<open>delta\<close> times the option
  \<open>speedFactor\<close>.

  The whole calls, for finite stored values and finite inputs. After
  \<^verbatim>\<open>updateGalaxyPhysics\<close>, a particle that started within five galaxy radii and ends with a
  speed below the limit of 2 has moved by its new velocity times 0.016. After
  \<^verbatim>\<open>updateParticleEffects\<close> a particle has moved by its new velocity, and is then scaled
  back to distance 50 if that took it farther out. After \<^verbatim>\<open>update(delta)\<close> of the cloud,
  which returns, a particle whose age is below its life time has moved by its new velocity
  times \<open>delta\<close> times \<open>speedFactor\<close>.
\<close>

theorem position_update:
  "dt = Num 0.016
   \<and> (\<forall>k<3. arrayGet (positions (integrate gs i b)) (i * 3 + k)
          = arrayGet (positions b) (i * 3 + k)
            + arrayGet (velocities (integrate gs i b)) (i * 3 + k) * Num 0.016)
   \<and> (\<forall>k<3. arrayGet (positions (applyVelocities i b)) (i * 3 + k)
          = arrayGet (positions b) (i * 3 + k) + arrayGet (velocities b) (i * 3 + k))
   \<and> (\<forall>k<3. arrayGet (positions (applyVelocity c delta i b)) (i * 3 + k)
          = arrayGet (positions b) (i * 3 + k)
            + arrayGet (velocities b) (i * 3 + k) * delta * speedFactor (options c))
   \<and> (i < particleCount cfg \<and> vec3At (positions a) i = Vector3 (Num x) (Num y) (Num z)
        \<and> finiteVector (vec3At (velocities a) i) \<and> finiteVector (vec3At (accelerations a) i)
        \<and> isFinite (arrayGet (masses a) i) \<and> finiteInputs cfg f
        \<and> \<not> (galaxyRadius (galaxySettings cfg) * Num 5 < Num (sqrt (x * x + y * y + z * z)))
      \<longrightarrow> (\<exists>u v w. vec3At (velocities (updateGalaxyPhysics cfg f a)) i
                      = Vector3 (Num u) (Num v) (Num w)
             \<and> (sqrt (u * u + v * v + w * w) < 2 \<longrightarrow>
                  vec3At (positions (updateGalaxyPhysics cfg f a)) i
                    = Vector3 (Num (x + u * 0.016)) (Num (y + v * 0.016)) (Num (z + w * 0.016)))))
   \<and> (i < particleCount cfg \<and> vec3At (positions a) i = Vector3 (Num x) (Num y) (Num z)
        \<and> finiteVector (vec3At (velocities a) i) \<and> finiteInputs cfg f
      \<longrightarrow> (\<exists>u v w. vec3At (velocities (updateParticleEffects cfg f a)) i
                      = Vector3 (Num u) (Num v) (Num w)
             \<and> vec3At (positions (updateParticleEffects cfg f a)) i
                 = (let d = sqrt ((x + u) * (x + u) + (y + v) * (y + v) + (z + w) * (z + w))
                    in if 50 < d
                       then Vector3 (Num ((x + u) * (50 / d))) (Num ((y + v) * (50 / d)))
                                    (Num ((z + w) * (50 / d)))
                       else Vector3 (Num (x + u)) (Num (y + v)) (Num (z + w)))))
   \<and> (wellFormedCloud c \<and> i < count (options c)
        \<and> \<not> (arrayGet (lifeTimes (arrays c)) i
                 \<le> time c + delta - arrayGet (startTimes (arrays c)) i)
      \<longrightarrow> (\<exists>c'. update inp delta c = Some c'
             \<and> vec3At (positions (arrays c')) i
                 = Vector3 (vx (vec3At (positions (arrays c)) i)
                      + vx (vec3At (velocities (arrays c')) i) * delta * speedFactor (options c))
                   (vy (vec3At (positions (arrays c)) i)
                      + vy (vec3At (velocities (arrays c')) i) * delta * speedFactor (options c))
                   (vz (vec3At (positions (arrays c)) i)
                      + vz (vec3At (velocities (arrays c')) i) * delta * speedFactor (options c))))"
proof -
  note blocks = integrate_component[of _ gs i b] applyVelocities_component[of _ i b]
    applyVelocity_component[of _ c delta i b]
  note galaxy = galaxy_position[of i cfg a x y z f]
  note drift = drift_position[of i cfg a x y z f]
  note cloud = cloud_position[of c i delta inp]
  show ?thesis
    using blocks galaxy drift cloud unfolding dt_def by blast
qed

theorem position_update_witness:
  "arrayGet (positions (integrate defaultGalaxySettings 0
       (oneParticle (Vector3 (Num 1) (Num 2) (Num 3)) (Vector3 (Num 1) (Num 0) (Num 0))))) 0
     = Num 1.01568
   \<and> arrayGet (positions (applyVelocities 0
       (oneParticle (Vector3 (Num 1) (Num 2) (Num 3)) (Vector3 (Num 1) (Num 0) (Num 0))))) 0
     = Num 2
   \<and> arrayGet (positions (applyVelocity sampleCloud (Num 0.01) 0
       (oneParticle (Vector3 (Num 1) (Num 2) (Num 3)) (Vector3 (Num 1) (Num 0) (Num 0))))) 0
     = Num 1.01
   \<and> vec3At (positions (updateGalaxyPhysics galaxyConfig quietFrame
        (oneParticle (Vector3 (Num 10) (Num 0) (Num 0)) (Vector3 (Num 1) (Num 0) (Num 0))))) 0
     = Vector3 (Num 10.015654912) (Num 0) (Num 0)
   \<and> vec3At (positions (updateParticleEffects driftConfig quietFrame
        (oneParticle (Vector3 (Num 0) (Num 0) (Num 0)) (Vector3 (Num 1) (Num 0) (Num 0))))) 0
     = Vector3 (Num 0.97951) (Num 0.000588) (Num 0)
   \<and> (\<exists>c'. update sampleInputs (Num 0.01) sampleCloud = Some c'
         \<and> vec3At (positions (arrays c')) 0
             = Vector3 (Num 10 + vx (vec3At (velocities (arrays c')) 0) * Num 0.01 * Num 1)
                       (Num 0 + vy (vec3At (velocities (arrays c')) 0) * Num 0.01 * Num 1)
                       (Num 0 + vz (vec3At (velocities (arrays c')) 0) * Num 0.01 * Num 1))"
proof -
  define S where "S = oneParticle (Vector3 (Num 1) (Num 2) (Num 3)) (Vector3 (Num 1) (Num 0) (Num 0))"
  define G where "G = oneParticle (Vector3 (Num 10) (Num 0) (Num 0)) (Vector3 (Num 1) (Num 0) (Num 0))"
  define D where "D = oneParticle (Vector3 (Num 0) (Num 0) (Num 0)) (Vector3 (Num 1) (Num 0) (Num 0))"
  note g = position_update [where gs = defaultGalaxySettings and i = 0 and b = S
      and c = sampleCloud and delta = "Num 0.01" and cfg = galaxyConfig and a = G
      and x = 10 and y = 0 and z = 0 and f = quietFrame and inp = sampleInputs]
  note d = position_update [where gs = defaultGalaxySettings and i = 0 and b = S
      and c = sampleCloud and delta = "Num 0.01" and cfg = driftConfig and a = D
      and x = 0 and y = 0 and z = 0 and f = quietFrame and inp = sampleInputs]
  have vS: "arrayGet (velocities (integrate defaultGalaxySettings 0 S)) 0 = Num 0.98"
    "arrayGet (positions S) 0 = Num 1" "arrayGet (velocities S) 0 = Num 1"
    by (simp_all add: integrate_def Let_def S_def oneParticle_def evalArray
        defaultGalaxySettings_def clamp_Num dt_def)
  have sf: "speedFactor (options sampleCloud) = Num 1"
    by (simp add: sampleCloud_def createEmitters_def sampleOptions_def)
  note blk1 = g[THEN conjunct2, THEN conjunct1, rule_format, of 0]
  note blk2 = g[THEN conjunct2, THEN conjunct2, THEN conjunct1, rule_format, of 0]
  note blk3 = g[THEN conjunct2, THEN conjunct2, THEN conjunct2, THEN conjunct1, rule_format, of 0]
  have b1: "arrayGet (positions (integrate defaultGalaxySettings 0 S)) 0 = Num 1.01568"
    using blk1 by (simp add: vS)
  have b2: "arrayGet (positions (applyVelocities 0 S)) 0 = Num 2"
    using blk2 by (simp add: vS)
  have b3: "arrayGet (positions (applyVelocity sampleCloud (Num 0.01) 0 S)) 0 = Num 1.01"
    using blk3 by (simp add: vS sf)
  have inpg: "finiteInputs galaxyConfig quietFrame" and inpd: "finiteInputs driftConfig quietFrame"
    by (simp_all add: finiteInputs_def galaxyConfig_def driftConfig_def quietFrame_def
        defaultGalaxySettings_def)
  have n: "0 < particleCount galaxyConfig" "0 < particleCount driftConfig"
    by (simp_all add: galaxyConfig_def driftConfig_def)
  have G: "vec3At (positions G) 0 = Vector3 (Num 10) (Num 0) (Num 0)"
    "finiteVector (vec3At (velocities G) 0)" "finiteVector (vec3At (accelerations G) 0)"
    "isFinite (arrayGet (masses G) 0)"
    by (simp_all add: G_def oneParticle_def vec3At_def evalArray)
  have sq: "sqrt 100 = 10" by (rule real_sqrt_unique) simp_all
  have near: "\<not> (galaxyRadius (galaxySettings galaxyConfig) * Num 5
                 < Num (sqrt (10 * 10 + 0 * 0 + 0 * 0)))"
    by (simp add: galaxyConfig_def driftConfig_def defaultGalaxySettings_def sq)
  have vG: "vec3At (velocities (updateGalaxyPhysics galaxyConfig quietFrame G)) 0
      = Vector3 (Num 0.978432) (Num 0) (Num 0)"
    unfolding G_def galaxy_step by (simp add: vec3At_def evalArray)
  have sqv: "sqrt (0.978432 * 0.978432 + 0 * 0 + 0 * 0) < (2::real)"
    by (rule real_less_lsqrt) simp_all
  from g n(1) G inpg near obtain u v w where
    gv: "vec3At (velocities (updateGalaxyPhysics galaxyConfig quietFrame G)) 0
           = Vector3 (Num u) (Num v) (Num w)"
    and gp: "sqrt (u * u + v * v + w * w) < 2 \<longrightarrow>
          vec3At (positions (updateGalaxyPhysics galaxyConfig quietFrame G)) 0
            = Vector3 (Num (10 + u * 0.016)) (Num (0 + v * 0.016)) (Num (0 + w * 0.016))"
    by blast
  from gv vG have uvw: "u = 0.978432" "v = 0" "w = 0" by simp_all
  from gp sqv have w4: "vec3At (positions (updateGalaxyPhysics galaxyConfig quietFrame G)) 0
      = Vector3 (Num 10.015654912) (Num 0) (Num 0)"
    unfolding uvw by simp
  have D: "vec3At (positions D) 0 = Vector3 (Num 0) (Num 0) (Num 0)"
    "finiteVector (vec3At (velocities D) 0)"
    by (simp_all add: D_def oneParticle_def vec3At_def evalArray)
  have vD: "vec3At (velocities (updateParticleEffects driftConfig quietFrame D)) 0
      = Vector3 (Num 0.97951) (Num 0.000588) (Num 0)"
    unfolding D_def using drift_step by (simp add: vec3At_def evalArray)
  have le: "\<not> 50 < sqrt ((0 + 0.97951) * (0 + 0.97951) + (0 + 0.000588) * (0 + 0.000588)
      + (0 + 0) * (0 + (0::real)))"
    unfolding not_less by (rule real_le_lsqrt) simp_all
  from d n(2) D inpd obtain u' v' w' where
    dv: "vec3At (velocities (updateParticleEffects driftConfig quietFrame D)) 0
           = Vector3 (Num u') (Num v') (Num w')"
    and dp: "vec3At (positions (updateParticleEffects driftConfig quietFrame D)) 0
         = (let d = sqrt ((0 + u') * (0 + u') + (0 + v') * (0 + v') + (0 + w') * (0 + w'))
            in if 50 < d
               then Vector3 (Num ((0 + u') * (50 / d))) (Num ((0 + v') * (50 / d)))
                            (Num ((0 + w') * (50 / d)))
               else Vector3 (Num (0 + u')) (Num (0 + v')) (Num (0 + w')))"
    by blast
  from dv vD have uvw': "u' = 0.97951" "v' = 0.000588" "w' = 0" by simp_all
  have w5: "vec3At (positions (updateParticleEffects driftConfig quietFrame D)) 0
      = Vector3 (Num 0.97951) (Num 0.000588) (Num 0)"
    unfolding dp uvw' Let_def if_not_P[OF le] by simp
  have live: "\<not> (arrayGet (lifeTimes (arrays sampleCloud)) 0
                 \<le> time sampleCloud + Num 0.01 - arrayGet (startTimes (arrays sampleCloud)) 0)"
    by (simp add: sampleCloud_facts)
  have pc: "vec3At (positions (arrays sampleCloud)) 0 = Vector3 (Num 10) (Num 0) (Num 0)"
    by (simp add: sampleCloud_def createEmitters_def vec3At_def evalArray)
  from g sampleCloud_facts(1,2) live
  have w6: "\<exists>c'. update sampleInputs (Num 0.01) sampleCloud = Some c'
         \<and> vec3At (positions (arrays c')) 0
             = Vector3 (Num 10 + vx (vec3At (velocities (arrays c')) 0) * Num 0.01 * Num 1)
                       (Num 0 + vy (vec3At (velocities (arrays c')) 0) * Num 0.01 * Num 1)
                       (Num 0 + vz (vec3At (velocities (arrays c')) 0) * Num 0.01 * Num 1)"
    unfolding pc sf by simp
  show ?thesis
    using b1 b2 b3 w4 w5 w6 unfolding S_def G_def D_def by simp
qed

text \<open>
  One drift-mode update of a particle at the origin with velocity \<open>(1, 0, 0)\<close> leaves the
  velocity \<open>0.97951\<close> in \<open>x\<close> and moves the particle by exactly that much, not by that
  much times a frame time such as \<open>0.016\<close>. And with \<open>speedFactor = 2\<close> the cloud's
  position update for \<open>delta = 0.05\<close> moves a particle of velocity 1 by \<open>0.1\<close>, not by
  \<open>0.05\<close>.
\<close>

theorem position_update_counterexample:
  "arrayGet (positions (updateParticleEffects driftConfig quietFrame
          (oneParticle (Vector3 (Num 0) (Num 0) (Num 0)) (Vector3 (Num 1) (Num 0) (Num 0))))) 0
       = Num 0.97951
   \<and> arrayGet (velocities (updateParticleEffects driftConfig quietFrame
          (oneParticle (Vector3 (Num 0) (Num 0) (Num 0)) (Vector3 (Num 1) (Num 0) (Num 0))))) 0
       = Num 0.97951
   \<and> Num 0.97951 \<noteq> Num 0 + Num 0.97951 * Num 0.016
   \<and> arrayGet (positions (applyVelocity
          (sampleCloud\<lparr>options := (options sampleCloud)\<lparr>speedFactor := Num 2\<rparr>\<rparr>) (Num 0.05) 0
          ((arrays sampleCloud)\<lparr>velocities := [Num 1, Num 0, Num 0]\<rparr>))) 0 = Num 10.1
   \<and> Num 10.1 \<noteq> Num 10 + Num 1 * Num 0.05"
proof -
  have "arrayGet (positions (applyVelocity
          (sampleCloud\<lparr>options := (options sampleCloud)\<lparr>speedFactor := Num 2\<rparr>\<rparr>) (Num 0.05) 0
          ((arrays sampleCloud)\<lparr>velocities := [Num 1, Num 0, Num 0]\<rparr>))) 0 = Num 10.1"
    by (simp add: applyVelocity_def Let_def sampleCloud_def createEmitters_def evalArray)
  then show ?thesis using drift_step by (simp add: evalArray)
qed


end
